theory Spec2Isabelle
  imports Main "HOL-Library.Word"
begin

section \<open>Data model of the UDS index\<close>

text \<open>
  Virtual chapter numbers are \<open>uint64_t\<close>; counts declared \<open>unsigned int\<close> are 32-bit
  words. Arithmetic on them wraps as in C.
\<close>

type_synonym vcn = "64 word"
type_synonym uds_chunk_name = "8 word list"
type_synonym uds_chunk_data = "8 word list"

definition UINT64_MAX :: "64 word" where
  "UINT64_MAX = - 1"

text \<open>
  The result codes of the library are integers. Only their identity matters to the code
  below, so each code the sources name is a constructor; \<open>EBUSY\<close> stands for the value
  \<open>-EBUSY\<close>, and \<open>UDS_ERROR n\<close> for any other code.
\<close>

datatype uds_status =
    UDS_SUCCESS
  | UDS_QUEUED
  | UDS_OVERFLOW
  | UDS_DUPLICATE_NAME
  | UDS_INVALID_ARGUMENT
  | UDS_CORRUPT_COMPONENT
  | UDS_CORRUPT_DATA
  | UDS_INDEX_NOT_SAVED_CLEANLY
  | UDS_ASSERTION_FAILED
  | EBUSY
  | ENOMEM
  | UDS_ERROR int

datatype uds_index_region =
    UDS_LOCATION_UNKNOWN
  | UDS_LOCATION_UNAVAILABLE
  | UDS_LOCATION_IN_OPEN_CHAPTER
  | UDS_LOCATION_IN_DENSE
  | UDS_LOCATION_IN_SPARSE

datatype uds_request_type = UDS_POST | UDS_UPDATE | UDS_DELETE | UDS_QUERY | UDS_INVALID_TYPE nat

datatype uds_zone_message_type =
    UDS_MESSAGE_NONE
  | UDS_MESSAGE_SPARSE_CACHE_BARRIER
  | UDS_MESSAGE_ANNOUNCE_CHAPTER_CLOSED
  | UDS_MESSAGE_INVALID nat

datatype request_stage = STAGE_TRIAGE | STAGE_INDEX | STAGE_MESSAGE | STAGE_INVALID nat

datatype load_type = LOAD_UNDEFINED | LOAD_CREATE | LOAD_LOAD | LOAD_REBUILD | LOAD_EMPTY

datatype index_lookup_mode = LOOKUP_NORMAL | LOOKUP_FOR_REBUILD

datatype index_load_status =
    INDEX_OPENING
  | INDEX_SUSPENDING
  | INDEX_SUSPENDED
  | INDEX_READY
  | INDEX_FREEING

record geometry =
  records_per_page :: "32 word"
  record_pages_per_chapter :: "32 word"
  index_pages_per_chapter :: "32 word"
  pages_per_chapter :: "32 word"
  chapters_per_volume :: "32 word"
  sparse_chapters_per_volume :: "32 word"

record volume_index_record =
  record_name :: uds_chunk_name
  is_found :: bool
  is_collision :: bool
  virtual_chapter :: vcn

record volume_index_triage =
  in_sampled_chapter :: bool
  triage_virtual_chapter :: vcn

record uds_zone_message =
  message_type :: uds_zone_message_type
  message_virtual_chapter :: vcn

text \<open>
  A request. The pointers \<open>router\<close> and \<open>callback\<close> are only ever compared with
  \<open>NULL\<close>, so they are booleans here (\<open>True\<close>: not \<open>NULL\<close>).
\<close>

record uds_request =
  chunk_name :: uds_chunk_name
  old_metadata :: uds_chunk_data
  new_metadata :: uds_chunk_data
  zone_number :: nat
  type :: uds_request_type
  location :: uds_index_region
  status :: uds_status
  found :: bool
  update :: bool
  requeued :: bool
  has_router :: bool
  has_callback :: bool
  zone_message :: uds_zone_message

record 'oc index_zone =
  zone_id :: nat
  open_chapter :: 'oc
  writing_chapter :: 'oc
  oldest_virtual_chapter :: vcn
  newest_virtual_chapter :: vcn

text \<open>
  The index. The zones of the C code point back to their index, and all share its volume
  index, volume and chapter writer: here the zones are a list inside the index, and a
  function of a zone takes the index and the zone's position. \<open>components\<close> is the state
  of the collaborators outside this development (volume and its caches, sparse cache,
  chapter writer, checkpoint, allocator). \<open>load_context\<close> is \<open>None\<close> for a \<open>NULL\<close>
  pointer and otherwise holds the status field.
\<close>

record ('vi, 'oc, 'x) uds_index =
  zone_count :: nat
  zones :: "'oc index_zone list"
  volume_index :: 'vi
  volume_geometry :: geometry
  components :: 'x
  index_oldest_virtual_chapter :: vcn
  index_newest_virtual_chapter :: vcn
  loaded_type :: load_type
  load_context :: "index_load_status option"
  zone_queues :: "uds_request list list"
  triage_queue :: "uds_request list option"
  need_to_save :: bool

section \<open>Collaborators outside the sources\<close>

text \<open>
  The functions below are called by the code of this development but defined elsewhere
  (volume index, open chapter, geometry, chapter writer, checkpoint, volume, sparse cache,
  allocator). Each is a parameter: a field of the record \<open>externals\<close>, named after the C
  function. A field takes the state it reads and returns its result together with the state
  it may have changed. A theorem about the code holds for every value of these fields.

  \<^item> \<open>get_volume_index_record\<close> fills in a record (a cursor); the three functions that
    write through the cursor take the volume index explicitly.
  \<^item> \<open>search_open_chapter\<close> and the page searches return \<open>Some metadata\<close> when they
    set \<open>*found\<close> to true and copy the metadata, \<open>None\<close> when they set it to false.
  \<^item> \<open>search_sparse_cache\<close> takes and returns the virtual chapter it searches
    (\<open>UINT64_MAX\<close>: the whole cache, or nothing found) and returns the record page number.
  \<^item> \<open>get_volume_page_index\<close> and \<open>get_volume_page_record\<close> are the two uses of
    \<open>get_volume_page\<close>: an index page (its lowest and highest list number) and a record
    page (its bytes).
  \<^item> \<open>get_lookup_mode\<close> and \<open>set_lookup_mode\<close> read and write the field
    \<open>volume->lookup_mode\<close>.
  \<^item> \<open>indeterminate_found\<close> is the value of the local variable \<open>bool found\<close> of
    \<open>remove_from_index_zone\<close>, which is declared without an initialiser.
\<close>

record ('vi, 'oc, 'x) externals =
  get_volume_index_record :: "'vi \<Rightarrow> uds_chunk_name \<Rightarrow> uds_status \<times> volume_index_record"
  put_volume_index_record :: "'vi \<Rightarrow> volume_index_record \<Rightarrow> vcn \<Rightarrow> uds_status \<times> 'vi"
  set_volume_index_record_chapter :: "'vi \<Rightarrow> volume_index_record \<Rightarrow> vcn \<Rightarrow> uds_status \<times> 'vi"
  remove_volume_index_record :: "'vi \<Rightarrow> volume_index_record \<Rightarrow> uds_status \<times> 'vi"
  lookup_volume_index_name :: "'vi \<Rightarrow> uds_chunk_name \<Rightarrow> volume_index_triage"
  is_volume_index_sample :: "'vi \<Rightarrow> uds_chunk_name \<Rightarrow> bool"
  get_volume_index_zone :: "'vi \<Rightarrow> uds_chunk_name \<Rightarrow> nat"
  set_volume_index_open_chapter :: "'vi \<Rightarrow> vcn \<Rightarrow> 'vi"
  set_volume_index_zone_open_chapter :: "'vi \<Rightarrow> nat \<Rightarrow> vcn \<Rightarrow> 'vi"
  put_open_chapter :: "'oc \<Rightarrow> uds_chunk_name \<Rightarrow> uds_chunk_data \<Rightarrow> uds_status \<times> 32 word \<times> 'oc"
  search_open_chapter :: "'oc \<Rightarrow> uds_chunk_name \<Rightarrow> uds_chunk_data option"
  remove_from_open_chapter :: "'oc \<Rightarrow> uds_chunk_name \<Rightarrow> bool \<times> 'oc"
  reset_open_chapter :: "'oc \<Rightarrow> 'oc"
  open_chapter_size :: "'oc \<Rightarrow> 32 word"
  is_chapter_sparse :: "geometry \<Rightarrow> vcn \<Rightarrow> vcn \<Rightarrow> vcn \<Rightarrow> bool"
  is_sparse :: "geometry \<Rightarrow> bool"
  chapters_to_expire :: "geometry \<Rightarrow> vcn \<Rightarrow> 32 word"
  map_to_physical_chapter :: "geometry \<Rightarrow> vcn \<Rightarrow> 32 word"
  map_to_physical_page :: "geometry \<Rightarrow> 32 word \<Rightarrow> 32 word \<Rightarrow> 32 word"
  finish_previous_chapter :: "'x \<Rightarrow> vcn \<Rightarrow> uds_status \<times> 'x"
  start_closing_chapter :: "'x \<Rightarrow> nat \<Rightarrow> 'oc \<Rightarrow> nat \<times> 'x"
  process_checkpointing :: "'x \<Rightarrow> nat \<Rightarrow> vcn \<Rightarrow> uds_status \<times> 'x"
  forget_chapter :: "'x \<Rightarrow> vcn \<Rightarrow> uds_status \<times> 'x"
  update_sparse_cache :: "'x \<Rightarrow> 'oc index_zone \<Rightarrow> vcn \<Rightarrow> uds_status \<times> 'x"
  sparse_cache_contains :: "'x \<Rightarrow> vcn \<Rightarrow> nat \<Rightarrow> bool"
  search_sparse_cache ::
    "'x \<Rightarrow> 'oc index_zone \<Rightarrow> uds_chunk_name \<Rightarrow> vcn \<Rightarrow> uds_status \<times> vcn \<times> int \<times> 'x"
  search_cached_record_page ::
    "'x \<Rightarrow> uds_request \<Rightarrow> uds_chunk_name \<Rightarrow> 32 word \<Rightarrow> int
       \<Rightarrow> uds_status \<times> uds_chunk_data option \<times> 'x"
  search_volume_page_cache ::
    "'x \<Rightarrow> uds_request option \<Rightarrow> uds_chunk_name \<Rightarrow> vcn
       \<Rightarrow> uds_status \<times> uds_chunk_data option \<times> 'x"
  find_volume_chapter_boundaries :: "'x \<Rightarrow> uds_status \<times> vcn \<times> vcn \<times> bool \<times> 'x"
  get_volume_page_index :: "'x \<Rightarrow> 32 word \<Rightarrow> 32 word \<Rightarrow> uds_status \<times> (32 word \<times> 32 word) \<times> 'x"
  get_volume_page_record :: "'x \<Rightarrow> 32 word \<Rightarrow> 32 word \<Rightarrow> uds_status \<times> 8 word list \<times> 'x"
  update_index_page_map :: "'x \<Rightarrow> vcn \<Rightarrow> 32 word \<Rightarrow> 32 word \<Rightarrow> 32 word \<Rightarrow> uds_status \<times> 'x"
  prefetch_volume_pages :: "'x \<Rightarrow> 32 word \<Rightarrow> 32 word \<Rightarrow> 'x"
  get_lookup_mode :: "'x \<Rightarrow> index_lookup_mode"
  set_lookup_mode :: "'x \<Rightarrow> index_lookup_mode \<Rightarrow> 'x"
  uds_allocate :: "'x \<Rightarrow> uds_status \<times> 'x"
  update_request_context_stats :: "'x \<Rightarrow> uds_request \<Rightarrow> 'x"
  is_successful :: "uds_status \<Rightarrow> bool"
  BYTES_PER_RECORD :: nat
  indeterminate_found :: bool

text \<open>
  The macro \<open>ASSERT\<close> (permassert.h) evaluates to \<open>UDS_SUCCESS\<close> when its condition holds
  and to \<open>UDS_ASSERTION_FAILED\<close>, after logging, when it does not.
\<close>

definition ASSERT :: "bool \<Rightarrow> uds_status" where
  "ASSERT c = (if c then UDS_SUCCESS else UDS_ASSERTION_FAILED)"

definition UDS_CHUNK_NAME_SIZE :: nat where
  "UDS_CHUNK_NAME_SIZE = 16"

section \<open>Request queues\<close>

datatype queue_ref = TRIAGE_QUEUE | ZONE_QUEUE nat

text \<open>
  \<open>select_index_queue\<close> (index.c) returns the queue for the next stage of a request and
  sets the request's zone number on the way; \<open>None\<close> is the \<open>NULL\<close> it returns for an
  invalid stage.
\<close>

definition select_index_queue ::
  "('vi, 'oc, 'x) externals \<Rightarrow> ('vi, 'oc, 'x) uds_index \<Rightarrow> uds_request \<Rightarrow> request_stage
     \<Rightarrow> queue_ref option \<times> uds_request" where
  "select_index_queue E index request next_stage =
     (let routed = request\<lparr>zone_number :=
            get_volume_index_zone E (volume_index index) (chunk_name request)\<rparr>
      in case next_stage of
           STAGE_TRIAGE \<Rightarrow>
             (if triage_queue index \<noteq> None then (Some TRIAGE_QUEUE, request)
              else (Some (ZONE_QUEUE (zone_number routed)), routed))
         | STAGE_INDEX \<Rightarrow> (Some (ZONE_QUEUE (zone_number routed)), routed)
         | STAGE_MESSAGE \<Rightarrow> (Some (ZONE_QUEUE (zone_number request)), request)
         | STAGE_INVALID n \<Rightarrow> (None, request))"

text \<open>
  Modelled from the spec: \<open>enqueue_request\<close> (request.c, not among the sources). It puts
  the request at the tail of the queue selected for the stage; a queue is the list of its
  requests in enqueue order, the order in which its worker executes them.
\<close>

definition enqueue_request ::
  "('vi, 'oc, 'x) externals \<Rightarrow> ('vi, 'oc, 'x) uds_index \<Rightarrow> uds_request \<Rightarrow> request_stage
     \<Rightarrow> ('vi, 'oc, 'x) uds_index" where
  "enqueue_request E index request stage =
     (case select_index_queue E index request stage of
        (None, r) \<Rightarrow> index
      | (Some TRIAGE_QUEUE, r) \<Rightarrow>
          index\<lparr>triage_queue := map_option (\<lambda>q. q @ [r]) (triage_queue index)\<rparr>
      | (Some (ZONE_QUEUE n), r) \<Rightarrow>
          index\<lparr>zone_queues := (zone_queues index)[n := zone_queues index ! n @ [r]]\<rparr>)"

text \<open>
  Modelled from the spec: \<open>launch_zone_message\<close> (request.c, not among the sources). It
  allocates a request carrying the control message for the given zone and enqueues it on
  that zone's queue; when the allocation fails it returns the error and enqueues nothing.
  Of the allocated request only \<open>zone_message\<close> and \<open>zone_number\<close> are read afterwards.
\<close>

definition message_request :: "uds_zone_message \<Rightarrow> nat \<Rightarrow> uds_request" where
  "message_request message zone =
     \<lparr>chunk_name = [], old_metadata = [], new_metadata = [], zone_number = zone,
      type = UDS_POST, location = UDS_LOCATION_UNKNOWN, status = UDS_SUCCESS, found = False,
      update = False, requeued = False, has_router = False, has_callback = False,
      zone_message = message\<rparr>"

definition launch_zone_message ::
  "('vi, 'oc, 'x) externals \<Rightarrow> uds_zone_message \<Rightarrow> nat \<Rightarrow> ('vi, 'oc, 'x) uds_index
     \<Rightarrow> uds_status \<times> ('vi, 'oc, 'x) uds_index" where
  "launch_zone_message E message zone index =
     (case uds_allocate E (components index) of
        (result, x) \<Rightarrow>
          if result \<noteq> UDS_SUCCESS then (result, index\<lparr>components := x\<rparr>)
          else (UDS_SUCCESS,
                enqueue_request E (index\<lparr>components := x\<rparr>) (message_request message zone)
                  STAGE_MESSAGE))"

section \<open>Index zones (indexZone.c)\<close>

definition set_zone ::
  "('vi, 'oc, 'x) uds_index \<Rightarrow> nat \<Rightarrow> 'oc index_zone \<Rightarrow> ('vi, 'oc, 'x) uds_index" where
  "set_zone index z zone = index\<lparr>zones := (zones index)[z := zone]\<rparr>"

definition is_zone_chapter_sparse ::
  "('vi, 'oc, 'x) externals \<Rightarrow> ('vi, 'oc, 'x) uds_index \<Rightarrow> nat \<Rightarrow> vcn \<Rightarrow> bool" where
  "is_zone_chapter_sparse E index z vc =
     is_chapter_sparse E (volume_geometry index)
       (oldest_virtual_chapter (zones index ! z)) (newest_virtual_chapter (zones index ! z)) vc"

definition set_active_chapters :: "('vi, 'oc, 'x) uds_index \<Rightarrow> nat \<Rightarrow> ('vi, 'oc, 'x) uds_index" where
  "set_active_chapters index z =
     set_zone index z
       ((zones index ! z)\<lparr>oldest_virtual_chapter := index_oldest_virtual_chapter index,
                           newest_virtual_chapter := index_newest_virtual_chapter index\<rparr>)"

definition swap_open_chapter ::
  "('vi, 'oc, 'x) externals \<Rightarrow> ('vi, 'oc, 'x) uds_index \<Rightarrow> nat
     \<Rightarrow> uds_status \<times> ('vi, 'oc, 'x) uds_index" where
  "swap_open_chapter E index z =
     (let zone = zones index ! z in
      case finish_previous_chapter E (components index) (newest_virtual_chapter zone) of
        (result, x) \<Rightarrow>
          if result \<noteq> UDS_SUCCESS then (result, index\<lparr>components := x\<rparr>)
          else (UDS_SUCCESS,
                set_zone (index\<lparr>components := x\<rparr>) z
                  (zone\<lparr>open_chapter := writing_chapter zone,
                        writing_chapter := open_chapter zone\<rparr>)))"

definition reap_oldest_chapter ::
  "('vi, 'oc, 'x) externals \<Rightarrow> ('vi, 'oc, 'x) uds_index \<Rightarrow> nat
     \<Rightarrow> uds_status \<times> ('vi, 'oc, 'x) uds_index" where
  "reap_oldest_chapter E index z =
     (let zone = zones index ! z;
          result = ASSERT (newest_virtual_chapter zone - oldest_virtual_chapter zone
                             \<le> ucast (chapters_per_volume (volume_geometry index)))
      in if result \<noteq> UDS_SUCCESS then (result, index)
         else (UDS_SUCCESS,
               index\<lparr>volume_index :=
                 set_volume_index_zone_open_chapter E (volume_index index) (zone_id zone)
                   (newest_virtual_chapter zone)\<rparr>))"

text \<open>
  The loop at the end of \<open>open_next_chapter\<close>:
  \<open>while ((expired_chapters-- > 0) && (result == UDS_SUCCESS)) result = forget_chapter(...,
  victim++, INVALIDATION_EXPIRE)\<close>.
\<close>

primrec forget_expired_chapters ::
  "('vi, 'oc, 'x) externals \<Rightarrow> 'x \<Rightarrow> nat \<Rightarrow> vcn \<Rightarrow> uds_status \<Rightarrow> uds_status \<times> 'x" where
  "forget_expired_chapters E x 0 victim result = (result, x)"
| "forget_expired_chapters E x (Suc n) victim result =
     (if result = UDS_SUCCESS
      then (case forget_chapter E x victim of
              (r, x') \<Rightarrow> forget_expired_chapters E x' n (victim + 1) r)
      else (result, x))"

text \<open>
  \<open>open_next_chapter\<close> in three parts. \<open>start_next_chapter\<close> is its body up to the call
  of \<open>start_closing_chapter\<close>: it returns \<open>Inl\<close> of what the function returns early on
  an error, or \<open>Inr\<close> of the number of finished zones, the closed chapter and the index.
  \<open>finish_next_chapter\<close> is its body after the announcement. The announcement between the
  two is in \<open>open_next_chapter\<close> below.
\<close>

definition start_next_chapter ::
  "('vi, 'oc, 'x) externals \<Rightarrow> ('vi, 'oc, 'x) uds_index \<Rightarrow> nat
     \<Rightarrow> (uds_status \<times> ('vi, 'oc, 'x) uds_index) + (nat \<times> vcn \<times> ('vi, 'oc, 'x) uds_index)" where
  "start_next_chapter E index z =
     (case swap_open_chapter E index z of
        (result, index1) \<Rightarrow>
          if result \<noteq> UDS_SUCCESS then Inl (result, index1)
          else
            let zone1 = zones index1 ! z;
                closed_chapter = newest_virtual_chapter zone1;
                index2 = set_zone index1 z
                           (zone1\<lparr>newest_virtual_chapter := newest_virtual_chapter zone1 + 1\<rparr>)
            in case reap_oldest_chapter E index2 z of
                 (result, index3) \<Rightarrow>
                   if result \<noteq> UDS_SUCCESS then Inl (result, index3)
                   else
                     let zone3 = zones index3 ! z;
                         index4 = set_zone index3 z
                                    (zone3\<lparr>open_chapter :=
                                             reset_open_chapter E (open_chapter zone3)\<rparr>)
                     in case process_checkpointing E (components index4) (zone_id zone3)
                               (newest_virtual_chapter zone3) of
                          (result, x5) \<Rightarrow>
                            if result \<noteq> UDS_SUCCESS
                            then Inl (result, index4\<lparr>components := x5\<rparr>)
                            else
                              case start_closing_chapter E x5 (zone_id zone3)
                                     (writing_chapter zone3) of
                                (finished_zones, x6) \<Rightarrow>
                                  Inr (finished_zones, closed_chapter,
                                       index4\<lparr>components := x6\<rparr>))"

definition finish_next_chapter ::
  "('vi, 'oc, 'x) externals \<Rightarrow> ('vi, 'oc, 'x) uds_index \<Rightarrow> nat \<Rightarrow> nat \<Rightarrow> uds_status
     \<Rightarrow> uds_status \<times> ('vi, 'oc, 'x) uds_index" where
  "finish_next_chapter E index z finished_zones result =
     (let zone = zones index ! z;
          victim = oldest_virtual_chapter zone;
          expired_chapters =
            chapters_to_expire E (volume_geometry index) (newest_virtual_chapter zone);
          index' = set_zone index z
                     (zone\<lparr>oldest_virtual_chapter :=
                             oldest_virtual_chapter zone + ucast expired_chapters\<rparr>)
      in if finished_zones < zone_count index' then (UDS_SUCCESS, index')
         else
           case forget_expired_chapters E (components index') (unat expired_chapters) victim
                  result of
             (result', x) \<Rightarrow> (result', index'\<lparr>components := x\<rparr>))"

text \<open>
  \<open>open_next_chapter\<close>, \<open>announce_chapter_closed\<close> and \<open>handle_chapter_closed\<close> call each
  other: without zone queues (\<open>router == NULL\<close>) an announcement is delivered by calling
  \<open>handle_chapter_closed\<close> on the other zone at once, which may close that zone's chapter.
  The recursion is tied by a bound on the depth of these nested closings, the first argument
  of \<open>handle_chapter_closed\<close> and \<open>open_next_chapter\<close>; \<open>None\<close> means the bound was
  reached. The functions between them take the bounded \<open>handle_chapter_closed\<close> as their
  argument \<open>handle\<close>. \<open>announce_chapter_closed_from\<close> is the \<open>for\<close> loop over the zone
  numbers still to visit.
\<close>

definition chapter_closed_message :: "vcn \<Rightarrow> uds_zone_message" where
  "chapter_closed_message closed_chapter =
     \<lparr>message_type = UDS_MESSAGE_ANNOUNCE_CHAPTER_CLOSED,
      message_virtual_chapter = closed_chapter\<rparr>"

type_synonym ('vi, 'oc, 'x) chapter_closed_handler =
  "('vi, 'oc, 'x) uds_index \<Rightarrow> nat \<Rightarrow> vcn \<Rightarrow> (uds_status \<times> ('vi, 'oc, 'x) uds_index) option"

primrec announce_chapter_closed_from ::
  "('vi, 'oc, 'x) chapter_closed_handler \<Rightarrow> ('vi, 'oc, 'x) externals \<Rightarrow> bool \<Rightarrow> nat \<Rightarrow> vcn
     \<Rightarrow> nat list \<Rightarrow> ('vi, 'oc, 'x) uds_index
     \<Rightarrow> (uds_status \<times> ('vi, 'oc, 'x) uds_index) option" where
  "announce_chapter_closed_from handle E router z closed_chapter [] index =
     Some (UDS_SUCCESS, index)"
| "announce_chapter_closed_from handle E router z closed_chapter (i # rest) index =
     (if zone_id (zones index ! z) = i
      then announce_chapter_closed_from handle E router z closed_chapter rest index
      else
        case (if router
              then Some (launch_zone_message E (chapter_closed_message closed_chapter) i index)
              else handle index i closed_chapter) of
          None \<Rightarrow> None
        | Some (result, index') \<Rightarrow>
            if result \<noteq> UDS_SUCCESS then Some (result, index')
            else announce_chapter_closed_from handle E router z closed_chapter rest index')"

definition announce_chapter_closed ::
  "('vi, 'oc, 'x) chapter_closed_handler \<Rightarrow> ('vi, 'oc, 'x) externals \<Rightarrow> uds_request option
     \<Rightarrow> ('vi, 'oc, 'x) uds_index \<Rightarrow> nat \<Rightarrow> vcn
     \<Rightarrow> (uds_status \<times> ('vi, 'oc, 'x) uds_index) option" where
  "announce_chapter_closed handle E request index z closed_chapter =
     announce_chapter_closed_from handle E
       (case request of None \<Rightarrow> False | Some r \<Rightarrow> has_router r)
       z closed_chapter [0..<zone_count index] index"

definition open_next_chapter_with ::
  "('vi, 'oc, 'x) chapter_closed_handler \<Rightarrow> ('vi, 'oc, 'x) externals \<Rightarrow> ('vi, 'oc, 'x) uds_index
     \<Rightarrow> nat \<Rightarrow> uds_request option \<Rightarrow> (uds_status \<times> ('vi, 'oc, 'x) uds_index) option" where
  "open_next_chapter_with handle E index z request =
     (case start_next_chapter E index z of
        Inl early \<Rightarrow> Some early
      | Inr (finished_zones, closed_chapter, index6) \<Rightarrow>
          if finished_zones = 1 \<and> 1 < zone_count index6
          then (case announce_chapter_closed handle E request index6 z closed_chapter of
                  None \<Rightarrow> None
                | Some (result, index7) \<Rightarrow>
                    if result \<noteq> UDS_SUCCESS then Some (result, index7)
                    else Some (finish_next_chapter E index7 z finished_zones result))
          else Some (finish_next_chapter E index6 z finished_zones UDS_SUCCESS))"

primrec handle_chapter_closed ::
  "nat \<Rightarrow> ('vi, 'oc, 'x) externals \<Rightarrow> ('vi, 'oc, 'x) chapter_closed_handler" where
  "handle_chapter_closed 0 E =
     (\<lambda>index z vc.
        if newest_virtual_chapter (zones index ! z) = vc then None
        else Some (UDS_SUCCESS, index))"
| "handle_chapter_closed (Suc depth) E =
     (\<lambda>index z vc.
        if newest_virtual_chapter (zones index ! z) = vc
        then open_next_chapter_with (handle_chapter_closed depth E) E index z None
        else Some (UDS_SUCCESS, index))"

definition open_next_chapter ::
  "nat \<Rightarrow> ('vi, 'oc, 'x) externals \<Rightarrow> ('vi, 'oc, 'x) uds_index \<Rightarrow> nat \<Rightarrow> uds_request option
     \<Rightarrow> (uds_status \<times> ('vi, 'oc, 'x) uds_index) option" where
  "open_next_chapter depth E index z request =
     open_next_chapter_with (handle_chapter_closed depth E) E index z request"

definition compute_index_region ::
  "('vi, 'oc, 'x) externals \<Rightarrow> ('vi, 'oc, 'x) uds_index \<Rightarrow> nat \<Rightarrow> vcn \<Rightarrow> uds_index_region" where
  "compute_index_region E index z vc =
     (if vc = newest_virtual_chapter (zones index ! z) then UDS_LOCATION_IN_OPEN_CHAPTER
      else if is_zone_chapter_sparse E index z vc then UDS_LOCATION_IN_SPARSE
      else UDS_LOCATION_IN_DENSE)"

text \<open>
  The searches write through \<open>bool *found\<close> and into \<open>request->old_metadata\<close>. They take
  the value \<open>found\<close> has at the call and return the value it has afterwards, the request and
  the state of the collaborators.
\<close>

definition store_metadata :: "uds_request \<Rightarrow> uds_chunk_data option \<Rightarrow> uds_request" where
  "store_metadata request m =
     (case m of None \<Rightarrow> request | Some d \<Rightarrow> request\<lparr>old_metadata := d\<rparr>)"

definition search_sparse_cache_in_zone ::
  "('vi, 'oc, 'x) externals \<Rightarrow> ('vi, 'oc, 'x) uds_index \<Rightarrow> nat \<Rightarrow> uds_request \<Rightarrow> vcn \<Rightarrow> bool
     \<Rightarrow> uds_status \<times> bool \<times> uds_request \<times> 'x" where
  "search_sparse_cache_in_zone E index z request vc found0 =
     (case search_sparse_cache E (components index) (zones index ! z) (chunk_name request) vc of
        (result, vc', record_page_number, x) \<Rightarrow>
          if result \<noteq> UDS_SUCCESS \<or> vc' = UINT64_MAX then (result, found0, request, x)
          else
            let chapter = map_to_physical_chapter E (volume_geometry index) vc' in
            case search_cached_record_page E x request (chunk_name request) chapter
                   record_page_number of
              (result', m, x') \<Rightarrow> (result', m \<noteq> None, store_metadata request m, x'))"

definition get_record_from_zone ::
  "('vi, 'oc, 'x) externals \<Rightarrow> ('vi, 'oc, 'x) uds_index \<Rightarrow> nat \<Rightarrow> uds_request \<Rightarrow> bool \<Rightarrow> vcn
     \<Rightarrow> uds_status \<times> bool \<times> uds_request \<times> 'x" where
  "get_record_from_zone E index z request found0 vc =
     (let zone = zones index ! z in
      if vc = newest_virtual_chapter zone
      then (let m = search_open_chapter E (open_chapter zone) (chunk_name request)
            in (UDS_SUCCESS, m \<noteq> None, store_metadata request m, components index))
      else if 0 < newest_virtual_chapter zone \<and> vc = newest_virtual_chapter zone - 1
                \<and> 0 < open_chapter_size E (writing_chapter zone)
      then (let m = search_open_chapter E (writing_chapter zone) (chunk_name request)
            in (UDS_SUCCESS, m \<noteq> None, store_metadata request m, components index))
      else if location request \<noteq> UDS_LOCATION_UNKNOWN
      then (UDS_SUCCESS, location request \<noteq> UDS_LOCATION_UNAVAILABLE, request,
            components index)
      else if is_zone_chapter_sparse E index z vc
                \<and> sparse_cache_contains E (components index) vc (zone_number request)
      then search_sparse_cache_in_zone E index z request vc found0
      else
        case search_volume_page_cache E (components index) (Some request) (chunk_name request)
               vc of
          (result, m, x) \<Rightarrow> (result, m \<noteq> None, store_metadata request m, x))"

definition put_record_in_zone ::
  "nat \<Rightarrow> ('vi, 'oc, 'x) externals \<Rightarrow> ('vi, 'oc, 'x) uds_index \<Rightarrow> nat \<Rightarrow> uds_request
     \<Rightarrow> uds_chunk_data \<Rightarrow> (uds_status \<times> ('vi, 'oc, 'x) uds_index) option" where
  "put_record_in_zone depth E index z request metadata =
     (let zone = zones index ! z in
      case put_open_chapter E (open_chapter zone) (chunk_name request) metadata of
        (result, remaining, chapter) \<Rightarrow>
          let index' = set_zone index z (zone\<lparr>open_chapter := chapter\<rparr>) in
          if result \<noteq> UDS_SUCCESS then Some (result, index')
          else if remaining = 0 then open_next_chapter depth E index' z (Some request)
          else Some (UDS_SUCCESS, index'))"

definition dispatch_index_zone_control_request ::
  "nat \<Rightarrow> ('vi, 'oc, 'x) externals \<Rightarrow> ('vi, 'oc, 'x) uds_index \<Rightarrow> uds_request
     \<Rightarrow> (uds_status \<times> ('vi, 'oc, 'x) uds_index) option" where
  "dispatch_index_zone_control_request depth E index request =
     (let message = zone_message request; z = zone_number request in
      case message_type message of
        UDS_MESSAGE_SPARSE_CACHE_BARRIER \<Rightarrow>
          (case update_sparse_cache E (components index) (zones index ! z)
                  (message_virtual_chapter message) of
             (result, x) \<Rightarrow> Some (result, index\<lparr>components := x\<rparr>))
      | UDS_MESSAGE_ANNOUNCE_CHAPTER_CLOSED \<Rightarrow>
          handle_chapter_closed depth E index z (message_virtual_chapter message)
      | UDS_MESSAGE_NONE \<Rightarrow> Some (UDS_INVALID_ARGUMENT, index)
      | UDS_MESSAGE_INVALID n \<Rightarrow> Some (UDS_INVALID_ARGUMENT, index))"

section \<open>The index (index.c)\<close>

definition triage_index_request ::
  "('vi, 'oc, 'x) externals \<Rightarrow> ('vi, 'oc, 'x) uds_index \<Rightarrow> uds_request \<Rightarrow> vcn" where
  "triage_index_request E index request =
     (let triage = lookup_volume_index_name E (volume_index index) (chunk_name request) in
      if \<not> in_sampled_chapter triage then UINT64_MAX
      else if \<not> is_zone_chapter_sparse E index (zone_number request)
                   (triage_virtual_chapter triage)
      then UINT64_MAX
      else triage_virtual_chapter triage)"

definition sparse_cache_barrier_message :: "vcn \<Rightarrow> uds_zone_message" where
  "sparse_cache_barrier_message vc =
     \<lparr>message_type = UDS_MESSAGE_SPARSE_CACHE_BARRIER, message_virtual_chapter = vc\<rparr>"

text \<open>
  The loop of \<open>enqueue_barrier_messages\<close> over the zone numbers still to visit. The result
  of \<open>launch_zone_message\<close> is only logged (\<open>ASSERT_LOG_ONLY\<close>).
\<close>

primrec enqueue_barrier_messages_from ::
  "('vi, 'oc, 'x) externals \<Rightarrow> vcn \<Rightarrow> nat list \<Rightarrow> ('vi, 'oc, 'x) uds_index
     \<Rightarrow> ('vi, 'oc, 'x) uds_index" where
  "enqueue_barrier_messages_from E vc [] index = index"
| "enqueue_barrier_messages_from E vc (zone # rest) index =
     enqueue_barrier_messages_from E vc rest
       (snd (launch_zone_message E (sparse_cache_barrier_message vc) zone index))"

definition enqueue_barrier_messages ::
  "('vi, 'oc, 'x) externals \<Rightarrow> ('vi, 'oc, 'x) uds_index \<Rightarrow> vcn \<Rightarrow> ('vi, 'oc, 'x) uds_index" where
  "enqueue_barrier_messages E index vc =
     enqueue_barrier_messages_from E vc [0..<zone_count index] index"

definition simulate_index_zone_barrier_message ::
  "('vi, 'oc, 'x) externals \<Rightarrow> ('vi, 'oc, 'x) uds_index \<Rightarrow> nat \<Rightarrow> uds_request
     \<Rightarrow> uds_status \<times> ('vi, 'oc, 'x) uds_index" where
  "simulate_index_zone_barrier_message E index z request =
     (if 1 < zone_count index \<or> \<not> is_sparse E (volume_geometry index) then (UDS_SUCCESS, index)
      else
        let sparse_virtual_chapter = triage_index_request E index request in
        if sparse_virtual_chapter = UINT64_MAX then (UDS_SUCCESS, index)
        else
          case update_sparse_cache E (components index) (zones index ! z)
                 sparse_virtual_chapter of
            (result, x) \<Rightarrow> (result, index\<lparr>components := x\<rparr>))"

definition triage_request ::
  "('vi, 'oc, 'x) externals \<Rightarrow> ('vi, 'oc, 'x) uds_index \<Rightarrow> uds_request
     \<Rightarrow> ('vi, 'oc, 'x) uds_index" where
  "triage_request E index request =
     (let sparse_virtual_chapter = triage_index_request E index request;
          index' = (if sparse_virtual_chapter \<noteq> UINT64_MAX
                    then enqueue_barrier_messages E index sparse_virtual_chapter
                    else index)
      in enqueue_request E index' request STAGE_INDEX)"

text \<open>
  \<open>search_index_zone\<close> in two parts. \<open>search_index_zone_update\<close> is the code down to the
  update of the volume index: the lookup, and then one branch for a record that was found (or
  is an overflow record) and one for a record that was not. Each either returns at once
  (\<open>Inl\<close>) or hands the result of its volume index update to the common tail (\<open>Inr\<close>).
  The tail, \<open>search_index_zone_put\<close>, is the code from the test for \<open>UDS_OVERFLOW\<close> to the
  end.
\<close>

definition search_index_zone_found ::
  "('vi, 'oc, 'x) externals \<Rightarrow> ('vi, 'oc, 'x) uds_index \<Rightarrow> uds_request \<Rightarrow> volume_index_record
     \<Rightarrow> bool \<Rightarrow> vcn \<Rightarrow> uds_status + (uds_status \<times> ('vi, 'oc, 'x) uds_index)" where
  "search_index_zone_found E index request record overflow_record chapter =
     (if type request = UDS_QUERY \<and> (\<not> update request \<or> overflow_record) then Inl UDS_SUCCESS
      else if virtual_chapter record \<noteq> chapter
      then (case set_volume_index_record_chapter E (volume_index index) record chapter of
              (result, vi) \<Rightarrow> Inr (result, index\<lparr>volume_index := vi\<rparr>))
      else if type request \<noteq> UDS_UPDATE then Inl UDS_SUCCESS
      else Inr (UDS_SUCCESS, index))"

definition search_index_zone_missing ::
  "('vi, 'oc, 'x) externals \<Rightarrow> ('vi, 'oc, 'x) uds_index \<Rightarrow> nat \<Rightarrow> uds_request
     \<Rightarrow> volume_index_record \<Rightarrow> bool \<Rightarrow> vcn
     \<Rightarrow> (uds_status \<times> uds_request \<times> ('vi, 'oc, 'x) uds_index)
         + (uds_status \<times> bool \<times> uds_request \<times> ('vi, 'oc, 'x) uds_index)" where
  "search_index_zone_missing E index z request record found0 chapter =
     (case (if \<not> is_volume_index_sample E (volume_index index) (chunk_name request)
                 \<and> is_sparse E (volume_geometry index)
            then search_sparse_cache_in_zone E index z request UINT64_MAX found0
            else (UDS_SUCCESS, found0, request, components index)) of
        (result, found1, request1, x) \<Rightarrow>
          let index1 = index\<lparr>components := x\<rparr> in
          if result \<noteq> UDS_SUCCESS then Inl (result, request1, index1)
          else
            let request2 = (if found1 \<and> \<not> is_volume_index_sample E (volume_index index)
                                              (chunk_name request)
                                    \<and> is_sparse E (volume_geometry index)
                            then request1\<lparr>location := UDS_LOCATION_IN_SPARSE\<rparr>
                            else request1)
            in if type request2 = UDS_QUERY \<and> (\<not> found1 \<or> \<not> update request2)
               then Inl (UDS_SUCCESS, request2, index1)
               else
                 case put_volume_index_record E (volume_index index1) record chapter of
                   (result', vi) \<Rightarrow>
                     Inr (result', found1, request2, index1\<lparr>volume_index := vi\<rparr>))"

definition search_index_zone_update ::
  "('vi, 'oc, 'x) externals \<Rightarrow> ('vi, 'oc, 'x) uds_index \<Rightarrow> nat \<Rightarrow> uds_request
     \<Rightarrow> (uds_status \<times> uds_request \<times> ('vi, 'oc, 'x) uds_index)
         + (uds_status \<times> bool \<times> uds_request \<times> ('vi, 'oc, 'x) uds_index)" where
  "search_index_zone_update E index z request =
     (case get_volume_index_record E (volume_index index) (chunk_name request) of
        (result, record) \<Rightarrow>
          if result \<noteq> UDS_SUCCESS then Inl (result, request, index)
          else
            case (if is_found record
                  then get_record_from_zone E index z request False (virtual_chapter record)
                  else (UDS_SUCCESS, False, request, components index)) of
              (result1, found1, request1, x) \<Rightarrow>
                let index1 = index\<lparr>components := x\<rparr> in
                if result1 \<noteq> UDS_SUCCESS then Inl (result1, request1, index1)
                else
                  let request2 = (if found1
                                  then request1\<lparr>location :=
                                         compute_index_region E index1 z (virtual_chapter record)\<rparr>
                                  else request1);
                      overflow_record = (is_found record \<and> is_collision record \<and> \<not> found1);
                      chapter = newest_virtual_chapter (zones index1 ! z)
                  in if found1 \<or> overflow_record
                     then (case search_index_zone_found E index1 request2 record overflow_record
                                  chapter of
                             Inl early \<Rightarrow> Inl (early, request2, index1)
                           | Inr (result2, index2) \<Rightarrow> Inr (result2, found1, request2, index2))
                     else search_index_zone_missing E index1 z request2 record found1 chapter)"

definition search_index_zone_put ::
  "nat \<Rightarrow> ('vi, 'oc, 'x) externals \<Rightarrow> ('vi, 'oc, 'x) uds_index \<Rightarrow> nat \<Rightarrow> uds_request \<Rightarrow> bool
     \<Rightarrow> uds_status \<Rightarrow> (uds_status \<times> uds_request \<times> ('vi, 'oc, 'x) uds_index) option" where
  "search_index_zone_put depth E index z request found1 result =
     (if result = UDS_OVERFLOW then Some (UDS_SUCCESS, request, index)
      else if result \<noteq> UDS_SUCCESS then Some (result, request, index)
      else
        let metadata = (if \<not> found1 \<or> type request = UDS_UPDATE then new_metadata request
                        else old_metadata request)
        in map_option (\<lambda>(result', index'). (result', request, index'))
             (put_record_in_zone depth E index z request metadata))"

definition search_index_zone ::
  "nat \<Rightarrow> ('vi, 'oc, 'x) externals \<Rightarrow> ('vi, 'oc, 'x) uds_index \<Rightarrow> nat \<Rightarrow> uds_request
     \<Rightarrow> (uds_status \<times> uds_request \<times> ('vi, 'oc, 'x) uds_index) option" where
  "search_index_zone depth E index z request =
     (case search_index_zone_update E index z request of
        Inl early \<Rightarrow> Some early
      | Inr (result, found1, request', index') \<Rightarrow>
          search_index_zone_put depth E index' z request' found1 result)"

definition remove_from_index_zone ::
  "('vi, 'oc, 'x) externals \<Rightarrow> ('vi, 'oc, 'x) uds_index \<Rightarrow> nat \<Rightarrow> uds_request
     \<Rightarrow> uds_status \<times> uds_request \<times> ('vi, 'oc, 'x) uds_index" where
  "remove_from_index_zone E index z request =
     (case get_volume_index_record E (volume_index index) (chunk_name request) of
        (result, record) \<Rightarrow>
          if result \<noteq> UDS_SUCCESS then (result, request, index)
          else if \<not> is_found record then (UDS_SUCCESS, request, index)
          else
            case (if \<not> is_collision record
                  then get_record_from_zone E index z request (indeterminate_found E)
                         (virtual_chapter record)
                  else (UDS_SUCCESS, True, request, components index)) of
              (result1, found1, request1, x) \<Rightarrow>
                let index1 = index\<lparr>components := x\<rparr> in
                if result1 \<noteq> UDS_SUCCESS then (result1, request1, index1)
                else if \<not> found1 then (UDS_SUCCESS, request1, index1)
                else
                  let request2 = request1\<lparr>location :=
                                   compute_index_region E index1 z (virtual_chapter record)\<rparr>
                  in case remove_volume_index_record E (volume_index index1) record of
                       (result2, vi) \<Rightarrow>
                         let index2 = index1\<lparr>volume_index := vi\<rparr> in
                         if result2 \<noteq> UDS_SUCCESS then (result2, request2, index2)
                         else if location request2 = UDS_LOCATION_IN_OPEN_CHAPTER
                         then (let zone = zones index2 ! z in
                               case remove_from_open_chapter E (open_chapter zone)
                                      (chunk_name request2) of
                                 (hash_exists, chapter) \<Rightarrow>
                                   (ASSERT hash_exists, request2,
                                    set_zone index2 z (zone\<lparr>open_chapter := chapter\<rparr>)))
                         else (UDS_SUCCESS, request2, index2))"

definition dispatch_index_request ::
  "nat \<Rightarrow> ('vi, 'oc, 'x) externals \<Rightarrow> ('vi, 'oc, 'x) uds_index \<Rightarrow> uds_request
     \<Rightarrow> (uds_status \<times> uds_request \<times> ('vi, 'oc, 'x) uds_index) option" where
  "dispatch_index_request depth E index request =
     (let z = zone_number request in
      case (if \<not> requeued request then simulate_index_zone_barrier_message E index z request
            else (UDS_SUCCESS, index)) of
        (result0, index0) \<Rightarrow>
          if result0 \<noteq> UDS_SUCCESS then Some (result0, request, index0)
          else
            let request0 = request\<lparr>location := UDS_LOCATION_UNKNOWN\<rparr> in
            map_option
              (\<lambda>(result, request', index').
                 (result,
                  if location request' = UDS_LOCATION_UNKNOWN
                  then request'\<lparr>location := UDS_LOCATION_UNAVAILABLE\<rparr> else request',
                  index'))
              (case type request0 of
                 UDS_POST \<Rightarrow> search_index_zone depth E index0 z request0
               | UDS_UPDATE \<Rightarrow> search_index_zone depth E index0 z request0
               | UDS_QUERY \<Rightarrow> search_index_zone depth E index0 z request0
               | UDS_DELETE \<Rightarrow> Some (remove_from_index_zone E index0 z request0)
               | UDS_INVALID_TYPE n \<Rightarrow> Some (UDS_INVALID_ARGUMENT, request0, index0)))"

text \<open>
  \<open>execute_zone_request\<close> returns the request it hands to \<open>index->callback\<close>, if any: a
  control message is freed, and a request whose dispatch returned \<open>UDS_QUEUED\<close> leaves the
  pipeline.
\<close>

definition execute_zone_request ::
  "nat \<Rightarrow> ('vi, 'oc, 'x) externals \<Rightarrow> ('vi, 'oc, 'x) uds_index \<Rightarrow> uds_request
     \<Rightarrow> (uds_request option \<times> ('vi, 'oc, 'x) uds_index) option" where
  "execute_zone_request depth E index request =
     (if message_type (zone_message request) \<noteq> UDS_MESSAGE_NONE
      then map_option (\<lambda>(result, index'). (None, index'))
             (dispatch_index_zone_control_request depth E index request)
      else
        let index1 = index\<lparr>need_to_save := True\<rparr> in
        if requeued request \<and> \<not> is_successful E (status request)
        then Some (Some request, index1)
        else map_option
               (\<lambda>(result, request', index').
                  if result = UDS_QUEUED then (None, index')
                  else (Some (request'\<lparr>status := result\<rparr>), index'))
               (dispatch_index_request depth E index1 request))"

subsection \<open>Rebuilding\<close>

text \<open>
  The loop of \<open>rebuild_index_page_map\<close> over the index pages still to visit, with the
  \<open>expected_list_number\<close> it carries.
\<close>

primrec rebuild_index_page_map_from ::
  "('vi, 'oc, 'x) externals \<Rightarrow> vcn \<Rightarrow> 32 word \<Rightarrow> nat list \<Rightarrow> 32 word \<Rightarrow> 'x \<Rightarrow> uds_status \<times> 'x" where
  "rebuild_index_page_map_from E vc chapter [] expected_list_number x = (UDS_SUCCESS, x)"
| "rebuild_index_page_map_from E vc chapter (n # rest) expected_list_number x =
     (case get_volume_page_index E x chapter (of_nat n) of
        (result, (lowest_delta_list, highest_delta_list), x1) \<Rightarrow>
          if result \<noteq> UDS_SUCCESS then (result, x1)
          else if lowest_delta_list \<noteq> expected_list_number then (UDS_CORRUPT_DATA, x1)
          else
            case update_index_page_map E x1 vc chapter (of_nat n) highest_delta_list of
              (result2, x2) \<Rightarrow>
                if result2 \<noteq> UDS_SUCCESS then (result2, x2)
                else rebuild_index_page_map_from E vc chapter rest (highest_delta_list + 1) x2)"

definition rebuild_index_page_map ::
  "('vi, 'oc, 'x) externals \<Rightarrow> ('vi, 'oc, 'x) uds_index \<Rightarrow> vcn
     \<Rightarrow> uds_status \<times> ('vi, 'oc, 'x) uds_index" where
  "rebuild_index_page_map E index vc =
     (let geometry = volume_geometry index;
          chapter = map_to_physical_chapter E geometry vc
      in case rebuild_index_page_map_from E vc chapter
                [0..<unat (index_pages_per_chapter geometry)] 0 (components index) of
           (result, x) \<Rightarrow> (result, index\<lparr>components := x\<rparr>))"

text \<open>
  \<open>replay_record\<close>. \<open>replay_record_update\<close> is its case distinction on the record found in
  the volume index: \<open>Inl\<close> of what the function returns at once, or \<open>Inr\<close> of the value of
  \<open>update_record\<close>.
\<close>

definition replay_record_update ::
  "('vi, 'oc, 'x) externals \<Rightarrow> 'x \<Rightarrow> uds_chunk_name \<Rightarrow> vcn \<Rightarrow> volume_index_record
     \<Rightarrow> (uds_status + bool) \<times> 'x" where
  "replay_record_update E x name vc record =
     (if is_found record
      then (if is_collision record
            then (if virtual_chapter record = vc then (Inl UDS_SUCCESS, x) else (Inr True, x))
            else if virtual_chapter record = vc then (Inr False, x)
            else
              case search_volume_page_cache E x None name (virtual_chapter record) of
                (result, m, x') \<Rightarrow>
                  if result \<noteq> UDS_SUCCESS then (Inl result, x') else (Inr (m \<noteq> None), x'))
      else (Inr False, x))"

definition replay_record ::
  "('vi, 'oc, 'x) externals \<Rightarrow> ('vi, 'oc, 'x) uds_index \<Rightarrow> uds_chunk_name \<Rightarrow> vcn \<Rightarrow> bool
     \<Rightarrow> uds_status \<times> ('vi, 'oc, 'x) uds_index" where
  "replay_record E index name vc will_be_sparse_chapter =
     (if will_be_sparse_chapter \<and> \<not> is_volume_index_sample E (volume_index index) name
      then (UDS_SUCCESS, index)
      else
        case get_volume_index_record E (volume_index index) name of
          (result, record) \<Rightarrow>
            if result \<noteq> UDS_SUCCESS then (result, index)
            else
              (case replay_record_update E (components index) name vc record of
                 (Inl early, x) \<Rightarrow> (early, index\<lparr>components := x\<rparr>)
               | (Inr update_record, x) \<Rightarrow>
                   (case (if update_record
                          then set_volume_index_record_chapter E (volume_index index) record vc
                          else put_volume_index_record E (volume_index index) record vc) of
                      (result', vi) \<Rightarrow>
                        (if result' = UDS_DUPLICATE_NAME \<or> result' = UDS_OVERFLOW
                         then UDS_SUCCESS else result',
                         index\<lparr>components := x, volume_index := vi\<rparr>))))"

text \<open>
  The load context is shared with the threads that suspend, resume and destroy the session.
  What they do while the replay runs is an argument of the model. For one call of
  \<open>check_for_suspend\<close> it is a pair: the status they have written before the call takes
  the mutex (\<open>None\<close>: they have not written), and the statuses found at the successive
  returns of \<open>uds_wait_cond\<close>. \<open>wait_for_resume\<close> is the waiting loop: \<open>None\<close> when the
  thread is never woken with \<open>INDEX_OPENING\<close> or \<open>INDEX_FREEING\<close>.
\<close>

type_synonym load_context_activity = "index_load_status option \<times> index_load_status list"

primrec wait_for_resume :: "index_load_status list \<Rightarrow> index_load_status \<Rightarrow> index_load_status option" where
  "wait_for_resume [] st =
     (if st \<noteq> INDEX_OPENING \<and> st \<noteq> INDEX_FREEING then None else Some st)"
| "wait_for_resume (w # ws) st =
     (if st \<noteq> INDEX_OPENING \<and> st \<noteq> INDEX_FREEING then wait_for_resume ws w else Some st)"

definition check_for_suspend ::
  "('vi, 'oc, 'x) uds_index \<Rightarrow> index_load_status list \<Rightarrow> (bool \<times> ('vi, 'oc, 'x) uds_index) option" where
  "check_for_suspend index wakeups =
     (case load_context index of
        None \<Rightarrow> Some (False, index)
      | Some st \<Rightarrow>
          if st \<noteq> INDEX_SUSPENDING then Some (False, index)
          else
            (case wait_for_resume wakeups INDEX_SUSPENDED of
               None \<Rightarrow> None
             | Some st' \<Rightarrow> Some (st' = INDEX_FREEING, index\<lparr>load_context := Some st'\<rparr>)))"

definition other_threads_write ::
  "index_load_status option \<Rightarrow> ('vi, 'oc, 'x) uds_index \<Rightarrow> ('vi, 'oc, 'x) uds_index" where
  "other_threads_write w index =
     (case w of None \<Rightarrow> index
      | Some st \<Rightarrow> index\<lparr>load_context := map_option (\<lambda>_. st) (load_context index)\<rparr>)"

text \<open>The loops of \<open>replay_volume\<close> over the records of a page and over the record pages.\<close>

primrec replay_records_from ::
  "('vi, 'oc, 'x) externals \<Rightarrow> vcn \<Rightarrow> bool \<Rightarrow> 8 word list \<Rightarrow> nat list \<Rightarrow> ('vi, 'oc, 'x) uds_index
     \<Rightarrow> uds_status \<times> ('vi, 'oc, 'x) uds_index" where
  "replay_records_from E vc will_be_sparse_chapter record_page [] index = (UDS_SUCCESS, index)"
| "replay_records_from E vc will_be_sparse_chapter record_page (k # rest) index =
     (let name = take UDS_CHUNK_NAME_SIZE (drop (k * BYTES_PER_RECORD E) record_page) in
      case replay_record E index name vc will_be_sparse_chapter of
        (result, index') \<Rightarrow>
          if result \<noteq> UDS_SUCCESS then (result, index')
          else replay_records_from E vc will_be_sparse_chapter record_page rest index')"

primrec replay_record_pages_from ::
  "('vi, 'oc, 'x) externals \<Rightarrow> vcn \<Rightarrow> bool \<Rightarrow> 32 word \<Rightarrow> nat list \<Rightarrow> ('vi, 'oc, 'x) uds_index
     \<Rightarrow> uds_status \<times> ('vi, 'oc, 'x) uds_index" where
  "replay_record_pages_from E vc will_be_sparse_chapter chapter [] index = (UDS_SUCCESS, index)"
| "replay_record_pages_from E vc will_be_sparse_chapter chapter (j # rest) index =
     (let geometry = volume_geometry index;
          record_page_number = index_pages_per_chapter geometry + of_nat j
      in case get_volume_page_record E (components index) chapter record_page_number of
           (result, record_page, x) \<Rightarrow>
             if result \<noteq> UDS_SUCCESS then (result, index\<lparr>components := x\<rparr>)
             else
               case replay_records_from E vc will_be_sparse_chapter record_page
                      [0..<unat (records_per_page geometry)] (index\<lparr>components := x\<rparr>) of
                 (result', index') \<Rightarrow>
                   if result' \<noteq> UDS_SUCCESS then (result', index')
                   else replay_record_pages_from E vc will_be_sparse_chapter chapter rest
                          index')"

text \<open>The body of the chapter loop of \<open>replay_volume\<close> after \<open>check_for_suspend\<close>.\<close>

definition replay_chapter ::
  "('vi, 'oc, 'x) externals \<Rightarrow> vcn \<Rightarrow> vcn \<Rightarrow> vcn \<Rightarrow> ('vi, 'oc, 'x) uds_index
     \<Rightarrow> uds_status \<times> ('vi, 'oc, 'x) uds_index" where
  "replay_chapter E from_vcn upto_vcn vc index =
     (let geometry = volume_geometry index;
          will_be_sparse_chapter = is_chapter_sparse E geometry from_vcn upto_vcn vc;
          chapter = map_to_physical_chapter E geometry vc;
          index1 = index\<lparr>components :=
                     prefetch_volume_pages E (components index)
                       (map_to_physical_page E geometry chapter 0) (pages_per_chapter geometry),
                     volume_index := set_volume_index_open_chapter E (volume_index index) vc\<rparr>
      in case rebuild_index_page_map E index1 vc of
           (result, index2) \<Rightarrow>
             if result \<noteq> UDS_SUCCESS then (result, index2)
             else replay_record_pages_from E vc will_be_sparse_chapter chapter
                    [0..<unat (record_pages_per_chapter geometry)] index2)"

text \<open>
  The chapter loop of \<open>replay_volume\<close> over the chapters still to replay. It ends with
  \<open>UDS_SUCCESS\<close> when it has run through, and with the value \<open>replay_volume\<close> returns from
  inside the loop otherwise. An activity list shorter than the loop stands for other threads
  that do nothing more.
\<close>

primrec replay_chapters ::
  "('vi, 'oc, 'x) externals \<Rightarrow> vcn \<Rightarrow> vcn \<Rightarrow> index_lookup_mode \<Rightarrow> vcn list
     \<Rightarrow> load_context_activity list \<Rightarrow> ('vi, 'oc, 'x) uds_index
     \<Rightarrow> (uds_status \<times> ('vi, 'oc, 'x) uds_index) option" where
  "replay_chapters E from_vcn upto_vcn old_lookup_mode [] activity index =
     Some (UDS_SUCCESS, index)"
| "replay_chapters E from_vcn upto_vcn old_lookup_mode (vc # rest) activity index =
     (let now = (case activity of [] \<Rightarrow> (None, []) | a # later \<Rightarrow> a);
          later = (case activity of [] \<Rightarrow> [] | a # later \<Rightarrow> later)
      in case check_for_suspend (other_threads_write (fst now) index) (snd now) of
           None \<Rightarrow> None
         | Some (interrupted, index1) \<Rightarrow>
             if interrupted then Some (EBUSY, index1)
             else
               case replay_chapter E from_vcn upto_vcn vc index1 of
                 (result, index2) \<Rightarrow>
                   if result \<noteq> UDS_SUCCESS
                   then Some (result,
                              index2\<lparr>components :=
                                set_lookup_mode E (components index2) old_lookup_mode\<rparr>)
                   else replay_chapters E from_vcn upto_vcn old_lookup_mode rest later index2)"

text \<open>
  The values \<open>vcn\<close> takes in \<open>for (vcn = from_vcn; vcn < upto_vcn; ++vcn)\<close>.
\<close>

definition chapters_from_upto :: "vcn \<Rightarrow> vcn \<Rightarrow> vcn list" where
  "chapters_from_upto from_vcn upto_vcn =
     map (\<lambda>k. from_vcn + of_nat k) [0..<unat upto_vcn - unat from_vcn]"

definition replay_volume ::
  "('vi, 'oc, 'x) externals \<Rightarrow> ('vi, 'oc, 'x) uds_index \<Rightarrow> vcn \<Rightarrow> load_context_activity list
     \<Rightarrow> (uds_status \<times> ('vi, 'oc, 'x) uds_index) option" where
  "replay_volume E index from_vcn activity =
     (let upto_vcn = index_newest_virtual_chapter index;
          old_lookup_mode = get_lookup_mode E (components index);
          index1 = index\<lparr>volume_index :=
                     set_volume_index_open_chapter E
                       (set_volume_index_open_chapter E (volume_index index) upto_vcn) from_vcn,
                     components := set_lookup_mode E (components index) LOOKUP_FOR_REBUILD\<rparr>
      in case replay_chapters E from_vcn upto_vcn old_lookup_mode
                (chapters_from_upto from_vcn upto_vcn) activity index1 of
           None \<Rightarrow> None
         | Some (result, index2) \<Rightarrow>
             if result \<noteq> UDS_SUCCESS then Some (result, index2)
             else Some (UDS_SUCCESS,
                        index2\<lparr>components :=
                                 set_lookup_mode E (components index2) old_lookup_mode,
                               volume_index :=
                                 set_volume_index_open_chapter E (volume_index index2)
                                   upto_vcn\<rparr>))"

text \<open>The window \<open>rebuild_index\<close> computes from the chapter boundaries of the volume.\<close>

definition rebuild_window ::
  "('vi, 'oc, 'x) uds_index \<Rightarrow> vcn \<Rightarrow> vcn \<Rightarrow> bool \<Rightarrow> ('vi, 'oc, 'x) uds_index" where
  "rebuild_window index lowest_vcn highest_vcn is_empty =
     (if is_empty
      then index\<lparr>index_oldest_virtual_chapter := 0, index_newest_virtual_chapter := 0\<rparr>
      else
        let num_chapters = chapters_per_volume (volume_geometry index);
            index' = index\<lparr>index_newest_virtual_chapter := highest_vcn + 1,
                           index_oldest_virtual_chapter := lowest_vcn\<rparr>
        in if index_newest_virtual_chapter index'
                = index_oldest_virtual_chapter index' + ucast num_chapters
           then index'\<lparr>index_oldest_virtual_chapter :=
                         index_oldest_virtual_chapter index' + 1\<rparr>
           else index')"

definition set_all_active_chapters :: "('vi, 'oc, 'x) uds_index \<Rightarrow> ('vi, 'oc, 'x) uds_index" where
  "set_all_active_chapters index =
     fold (\<lambda>i index'. set_active_chapters index' i) [0..<zone_count index] index"

definition rebuild_index ::
  "('vi, 'oc, 'x) externals \<Rightarrow> ('vi, 'oc, 'x) uds_index \<Rightarrow> load_context_activity list
     \<Rightarrow> (uds_status \<times> ('vi, 'oc, 'x) uds_index) option" where
  "rebuild_index E index activity =
     (let old_lookup_mode = get_lookup_mode E (components index) in
      case find_volume_chapter_boundaries E
             (set_lookup_mode E (components index) LOOKUP_FOR_REBUILD) of
        (result, lowest_vcn, highest_vcn, is_empty, x) \<Rightarrow>
          let index1 = index\<lparr>components := set_lookup_mode E x old_lookup_mode\<rparr> in
          if result \<noteq> UDS_SUCCESS then Some (result, index1)
          else if highest_vcn < lowest_vcn then Some (UDS_CORRUPT_COMPONENT, index1)
          else
            let index2 = rebuild_window index1 lowest_vcn highest_vcn is_empty in
            if ucast (chapters_per_volume (volume_geometry index2))
                 < index_newest_virtual_chapter index2 - index_oldest_virtual_chapter index2
            then Some (UDS_CORRUPT_COMPONENT, index2)
            else
              let index3 = index2\<lparr>volume_index :=
                             set_volume_index_open_chapter E (volume_index index2) 0\<rparr>
              in if is_empty then Some (UDS_SUCCESS, index3\<lparr>loaded_type := LOAD_EMPTY\<rparr>)
                 else
                   (case replay_volume E index3 (index_oldest_virtual_chapter index3)
                           activity of
                      None \<Rightarrow> None
                    | Some (result', index4) \<Rightarrow>
                        if result' \<noteq> UDS_SUCCESS then Some (result', index4)
                        else Some (UDS_SUCCESS,
                                   (set_all_active_chapters index4)
                                     \<lparr>loaded_type := LOAD_REBUILD\<rparr>)))"

definition advance_active_chapters ::
  "('vi, 'oc, 'x) externals \<Rightarrow> ('vi, 'oc, 'x) uds_index \<Rightarrow> ('vi, 'oc, 'x) uds_index" where
  "advance_active_chapters E index =
     (let newest = index_newest_virtual_chapter index + 1 in
      index\<lparr>index_newest_virtual_chapter := newest,
            index_oldest_virtual_chapter :=
              index_oldest_virtual_chapter index
                + ucast (chapters_to_expire E (volume_geometry index) newest)\<rparr>)"

section \<open>The session's callback (indexSession.c)\<close>

text \<open>
  \<open>handle_callbacks\<close> returns the request as the user's callback receives it, or \<open>None\<close>
  when the request has no callback.
\<close>

definition handle_callbacks ::
  "('vi, 'oc, 'x) externals \<Rightarrow> 'x \<Rightarrow> uds_request \<Rightarrow> uds_request option \<times> 'x" where
  "handle_callbacks E x request =
     (let x' = (if status request = UDS_SUCCESS then update_request_context_stats E x request
                else x)
      in if has_callback request
         then (Some (request\<lparr>found := (location request \<noteq> UDS_LOCATION_UNAVAILABLE)\<rparr>), x')
         else (None, x'))"

section \<open>A model of the collaborators\<close>

text \<open>
  The parameters of the development are instantiated here by a model of the missing
  components that follows the spec. The theorems about the code do not depend on it; it
  provides the concrete indexes on which they are exercised, and it is the ground for the
  one property that the missing components decide (posting a name twice).
\<close>

subsection \<open>Open chapter\<close>

text \<open>
  Modelled from the spec: the open chapter (openChapterZone.c, not among the sources). A
  table of \<open>{name, metadata}\<close> of fixed capacity, kept in insertion order. \<open>put\<close>
  overwrites the metadata of a name that is present and otherwise takes the next free slot,
  returning the number of slots that remain; \<open>search\<close> returns the metadata of a name
  that is present; \<open>remove\<close> marks the slot deleted, and the slot is reclaimed when the
  chapter is reset. A slot is a name, its metadata and its deleted mark. The spec does not
  say what \<open>put\<close> of a new name into a full chapter does; here it fails with \<open>UDS_ERROR 0\<close>.
\<close>

record open_chapter_zone =
  capacity :: nat
  slots :: "(uds_chunk_name \<times> uds_chunk_data \<times> bool) list"

definition live_slot :: "uds_chunk_name \<Rightarrow> uds_chunk_name \<times> uds_chunk_data \<times> bool \<Rightarrow> bool" where
  "live_slot name slot = (fst slot = name \<and> \<not> snd (snd slot))"

definition model_search_open_chapter :: "open_chapter_zone \<Rightarrow> uds_chunk_name \<Rightarrow> uds_chunk_data option" where
  "model_search_open_chapter chapter name =
     map_option (\<lambda>slot. fst (snd slot)) (find (live_slot name) (slots chapter))"

definition model_put_open_chapter ::
  "open_chapter_zone \<Rightarrow> uds_chunk_name \<Rightarrow> uds_chunk_data \<Rightarrow> uds_status \<times> 32 word \<times> open_chapter_zone" where
  "model_put_open_chapter chapter name metadata =
     (if find (live_slot name) (slots chapter) \<noteq> None
      then (UDS_SUCCESS, of_nat (capacity chapter - length (slots chapter)),
            chapter\<lparr>slots := map (\<lambda>slot. if live_slot name slot then (name, metadata, False)
                                         else slot) (slots chapter)\<rparr>)
      else if capacity chapter \<le> length (slots chapter) then (UDS_ERROR 0, 0, chapter)
      else (UDS_SUCCESS, of_nat (capacity chapter - (length (slots chapter) + 1)),
            chapter\<lparr>slots := slots chapter @ [(name, metadata, False)]\<rparr>))"

definition model_remove_from_open_chapter ::
  "open_chapter_zone \<Rightarrow> uds_chunk_name \<Rightarrow> bool \<times> open_chapter_zone" where
  "model_remove_from_open_chapter chapter name =
     (find (live_slot name) (slots chapter) \<noteq> None,
      chapter\<lparr>slots := map (\<lambda>slot. if live_slot name slot then (fst slot, fst (snd slot), True)
                                   else slot) (slots chapter)\<rparr>)"

definition model_reset_open_chapter :: "open_chapter_zone \<Rightarrow> open_chapter_zone" where
  "model_reset_open_chapter chapter = chapter\<lparr>slots := []\<rparr>"

subsection \<open>Volume index\<close>

text \<open>
  Modelled from the spec: the volume index (volumeIndex.c and the delta index, not among
  the sources). Per name it holds \<open>{vcn, is_collision}\<close>. \<open>get_record\<close> reports the
  entry of a name; \<open>put\<close> inserts a non-collision hint pointing at a chapter;
  \<open>set_chapter\<close> updates an existing hint; \<open>remove\<close> deletes it; \<open>set_open_chapter\<close>
  advances the rolling window and purges the entries that point to the physical chapter
  being reused, those a whole volume or more behind the new open chapter. A delta list may
  be full, and an insert into a full list returns \<open>UDS_OVERFLOW\<close> and changes nothing: which
  names address a full list is the field \<open>list_full\<close>. A put through a cursor that stands on
  a collision entry returns \<open>UDS_DUPLICATE_NAME\<close>. The sample and the zone of a name are
  read from its bytes: the first byte against the sample rate, the seventh modulo the number
  of zones.
\<close>

record volume_index_model =
  entries :: "uds_chunk_name \<Rightarrow> (vcn \<times> bool) option"
  list_full :: "uds_chunk_name \<Rightarrow> bool"
  sample_rate :: nat
  index_zones :: nat
  index_chapters :: "32 word"

definition model_get_volume_index_record ::
  "volume_index_model \<Rightarrow> uds_chunk_name \<Rightarrow> uds_status \<times> volume_index_record" where
  "model_get_volume_index_record vi name =
     (UDS_SUCCESS,
      case entries vi name of
        None \<Rightarrow> \<lparr>record_name = name, is_found = False, is_collision = False,
                  virtual_chapter = 0\<rparr>
      | Some (vc, collision) \<Rightarrow>
          \<lparr>record_name = name, is_found = True, is_collision = collision,
           virtual_chapter = vc\<rparr>)"

definition model_put_volume_index_record ::
  "volume_index_model \<Rightarrow> volume_index_record \<Rightarrow> vcn \<Rightarrow> uds_status \<times> volume_index_model" where
  "model_put_volume_index_record vi record vc =
     (if is_found record \<and> is_collision record then (UDS_DUPLICATE_NAME, vi)
      else if list_full vi (record_name record) then (UDS_OVERFLOW, vi)
      else (UDS_SUCCESS,
            vi\<lparr>entries := (entries vi)(record_name record \<mapsto> (vc, False))\<rparr>))"

definition model_set_volume_index_record_chapter ::
  "volume_index_model \<Rightarrow> volume_index_record \<Rightarrow> vcn \<Rightarrow> uds_status \<times> volume_index_model" where
  "model_set_volume_index_record_chapter vi record vc =
     (if \<not> is_found record then (UDS_ERROR 1, vi)
      else (UDS_SUCCESS,
            vi\<lparr>entries := (entries vi)(record_name record \<mapsto> (vc, is_collision record))\<rparr>))"

definition model_remove_volume_index_record ::
  "volume_index_model \<Rightarrow> volume_index_record \<Rightarrow> uds_status \<times> volume_index_model" where
  "model_remove_volume_index_record vi record =
     (if \<not> is_found record then (UDS_ERROR 1, vi)
      else (UDS_SUCCESS, vi\<lparr>entries := (entries vi)(record_name record := None)\<rparr>))"

definition model_is_volume_index_sample :: "volume_index_model \<Rightarrow> uds_chunk_name \<Rightarrow> bool" where
  "model_is_volume_index_sample vi name =
     (case name of [] \<Rightarrow> False | b # bs \<Rightarrow> unat b mod sample_rate vi = 0)"

definition model_get_volume_index_zone :: "volume_index_model \<Rightarrow> uds_chunk_name \<Rightarrow> nat" where
  "model_get_volume_index_zone vi name =
     (if length name \<le> 6 then 0 else unat (name ! 6) mod index_zones vi)"

definition model_lookup_volume_index_name ::
  "volume_index_model \<Rightarrow> uds_chunk_name \<Rightarrow> volume_index_triage" where
  "model_lookup_volume_index_name vi name =
     (case entries vi name of
        None \<Rightarrow> \<lparr>in_sampled_chapter = False, triage_virtual_chapter = UINT64_MAX\<rparr>
      | Some (vc, collision) \<Rightarrow>
          if model_is_volume_index_sample vi name
          then \<lparr>in_sampled_chapter = True, triage_virtual_chapter = vc\<rparr>
          else \<lparr>in_sampled_chapter = False, triage_virtual_chapter = UINT64_MAX\<rparr>)"

definition model_set_volume_index_open_chapter :: "volume_index_model \<Rightarrow> vcn \<Rightarrow> volume_index_model" where
  "model_set_volume_index_open_chapter vi vc =
     vi\<lparr>entries :=
          (\<lambda>name. case entries vi name of
                     None \<Rightarrow> None
                   | Some (c, collision) \<Rightarrow>
                       if unat c + unat (index_chapters vi) \<le> unat vc then None
                       else Some (c, collision))\<rparr>"

subsection \<open>Geometry\<close>

text \<open>
  Modelled from the spec: the functions of the geometry (geometry.h, not among the
  sources). The physical chapter is the virtual chapter modulo \<open>chapters_per_volume\<close>; a
  volume is sparse when it has sparse chapters; a chapter is sparse iff its position in the
  window, counted back from the newest, falls within the last
  \<open>sparse_chapters_per_volume\<close> slots. The spec gives no formula for
  \<open>chapters_to_expire\<close>: here one chapter expires once the newest chapter is
  \<open>chapters_per_volume\<close> or more, none before.
\<close>

definition model_map_to_physical_chapter :: "geometry \<Rightarrow> vcn \<Rightarrow> 32 word" where
  "model_map_to_physical_chapter g vc = ucast (vc mod ucast (chapters_per_volume g))"

definition model_map_to_physical_page :: "geometry \<Rightarrow> 32 word \<Rightarrow> 32 word \<Rightarrow> 32 word" where
  "model_map_to_physical_page g chapter page = 1 + chapter * pages_per_chapter g + page"

definition model_is_sparse :: "geometry \<Rightarrow> bool" where
  "model_is_sparse g = (0 < sparse_chapters_per_volume g)"

definition model_is_chapter_sparse :: "geometry \<Rightarrow> vcn \<Rightarrow> vcn \<Rightarrow> vcn \<Rightarrow> bool" where
  "model_is_chapter_sparse g oldest newest vc =
     (model_is_sparse g \<and> oldest \<le> vc \<and> vc \<le> newest
      \<and> unat (chapters_per_volume g) - unat (sparse_chapters_per_volume g)
          \<le> unat newest - unat vc)"

definition model_chapters_to_expire :: "geometry \<Rightarrow> vcn \<Rightarrow> 32 word" where
  "model_chapters_to_expire g newest = (if newest < ucast (chapters_per_volume g) then 0 else 1)"

subsection \<open>Volume, sparse cache, chapter writer, checkpoint\<close>

text \<open>
  Modelled from the spec: the volume with its page cache, the sparse cache, the chapter
  writer and the checkpoint (volume.c, sparseCache.c, chapterWriter.c, indexCheckpoint.c, not
  among the sources).
  \<^item> The volume holds, per physical chapter, the records of the chapter and its pages; a
    search of a chapter returns the metadata stored under the name. No read is ever queued.
  \<^item> The sparse cache is the list of the virtual chapters it holds, most recent first; a
    barrier admits a chapter; a search of the whole cache returns the first cached chapter
    that holds the name.
  \<^item> The chapter writer counts the zones that have submitted the chapter being closed and
    starts again at zero when all have; waiting for the previous chapter returns the result
    of writing it, a field of the model.
  \<^item> Checkpointing, allocation and the scan for the chapter boundaries return the results
    held in the fields of the model.
\<close>

record components_model =
  volume_chapters :: "32 word"
  chapter_records :: "32 word \<Rightarrow> uds_chunk_name \<Rightarrow> uds_chunk_data option"
  chapter_pages :: "32 word \<Rightarrow> 32 word \<Rightarrow> 8 word list"
  lookup_mode :: index_lookup_mode
  boundaries :: "uds_status \<times> vcn \<times> vcn \<times> bool"
  sparse_cache :: "vcn list"
  writer_result :: uds_status
  writer_zones :: nat
  zones_finished :: nat
  checkpoint_result :: uds_status
  allocation_result :: uds_status
  requests_counted :: nat

definition model_physical :: "components_model \<Rightarrow> vcn \<Rightarrow> 32 word" where
  "model_physical x vc = ucast (vc mod ucast (volume_chapters x))"

definition model_search_sparse_cache ::
  "components_model \<Rightarrow> 'oc index_zone \<Rightarrow> uds_chunk_name \<Rightarrow> vcn
     \<Rightarrow> uds_status \<times> vcn \<times> int \<times> components_model" where
  "model_search_sparse_cache x zone name vc =
     (case find (\<lambda>c. (vc = UINT64_MAX \<or> c = vc)
                       \<and> chapter_records x (model_physical x c) name \<noteq> None)
             (sparse_cache x) of
        None \<Rightarrow> (UDS_SUCCESS, UINT64_MAX, - 1, x)
      | Some c \<Rightarrow> (UDS_SUCCESS, c, 0, x))"

definition model_start_closing_chapter ::
  "components_model \<Rightarrow> nat \<Rightarrow> 'oc \<Rightarrow> nat \<times> components_model" where
  "model_start_closing_chapter x zone chapter =
     (let finished = zones_finished x + 1 in
      (finished, x\<lparr>zones_finished := (if writer_zones x \<le> finished then 0 else finished)\<rparr>))"

definition model_externals ::
  "(volume_index_model, open_chapter_zone, components_model) externals" where
  "model_externals =
     \<lparr>get_volume_index_record = model_get_volume_index_record,
      put_volume_index_record = model_put_volume_index_record,
      set_volume_index_record_chapter = model_set_volume_index_record_chapter,
      remove_volume_index_record = model_remove_volume_index_record,
      lookup_volume_index_name = model_lookup_volume_index_name,
      is_volume_index_sample = model_is_volume_index_sample,
      get_volume_index_zone = model_get_volume_index_zone,
      set_volume_index_open_chapter = model_set_volume_index_open_chapter,
      set_volume_index_zone_open_chapter = (\<lambda>vi zone vc. model_set_volume_index_open_chapter vi vc),
      put_open_chapter = model_put_open_chapter,
      search_open_chapter = model_search_open_chapter,
      remove_from_open_chapter = model_remove_from_open_chapter,
      reset_open_chapter = model_reset_open_chapter,
      open_chapter_size = (\<lambda>chapter. of_nat (length (slots chapter))),
      is_chapter_sparse = model_is_chapter_sparse,
      is_sparse = model_is_sparse,
      chapters_to_expire = model_chapters_to_expire,
      map_to_physical_chapter = model_map_to_physical_chapter,
      map_to_physical_page = model_map_to_physical_page,
      finish_previous_chapter = (\<lambda>x vc. (writer_result x, x)),
      start_closing_chapter = model_start_closing_chapter,
      process_checkpointing = (\<lambda>x zone vc. (checkpoint_result x, x)),
      forget_chapter = (\<lambda>x vc. (UDS_SUCCESS, x)),
      update_sparse_cache =
        (\<lambda>x zone vc. (UDS_SUCCESS, x\<lparr>sparse_cache := vc # removeAll vc (sparse_cache x)\<rparr>)),
      sparse_cache_contains = (\<lambda>x vc zone. vc \<in> set (sparse_cache x)),
      search_sparse_cache = model_search_sparse_cache,
      search_cached_record_page =
        (\<lambda>x request name chapter page.
           (UDS_SUCCESS, if page < 0 then None else chapter_records x chapter name, x)),
      search_volume_page_cache =
        (\<lambda>x request name vc. (UDS_SUCCESS, chapter_records x (model_physical x vc) name, x)),
      find_volume_chapter_boundaries =
        (\<lambda>x. case boundaries x of
                (result, lowest, highest, is_empty) \<Rightarrow> (result, lowest, highest, is_empty, x)),
      get_volume_page_index = (\<lambda>x chapter page. (UDS_SUCCESS, (page, page), x)),
      get_volume_page_record = (\<lambda>x chapter page. (UDS_SUCCESS, chapter_pages x chapter page, x)),
      update_index_page_map = (\<lambda>x vc chapter page highest. (UDS_SUCCESS, x)),
      prefetch_volume_pages = (\<lambda>x page count. x),
      get_lookup_mode = lookup_mode,
      set_lookup_mode = (\<lambda>x mode. x\<lparr>lookup_mode := mode\<rparr>),
      uds_allocate = (\<lambda>x. (allocation_result x, x)),
      update_request_context_stats = (\<lambda>x request. x\<lparr>requests_counted := requests_counted x + 1\<rparr>),
      is_successful = (\<lambda>result. result = UDS_SUCCESS \<or> result = UDS_QUEUED),
      BYTES_PER_RECORD = 32,
      indeterminate_found = False\<rparr>"

subsection \<open>An example index\<close>

text \<open>
  The geometry of the concrete scenarios of the spec: 16 records per page, 4 record pages
  and 2 index pages per chapter, 8 chapters per volume of which 2 are sparse, 2 zones, sample
  rate 4. The example index is this index just created: empty, both zones at chapter 0.
\<close>

definition example_geometry :: geometry where
  "example_geometry =
     \<lparr>records_per_page = 16, record_pages_per_chapter = 4, index_pages_per_chapter = 2,
      pages_per_chapter = 6, chapters_per_volume = 8, sparse_chapters_per_volume = 2\<rparr>"

definition example_zone :: "nat \<Rightarrow> open_chapter_zone index_zone" where
  "example_zone i =
     \<lparr>zone_id = i, open_chapter = \<lparr>capacity = 32, slots = []\<rparr>,
      writing_chapter = \<lparr>capacity = 32, slots = []\<rparr>,
      oldest_virtual_chapter = 0, newest_virtual_chapter = 0\<rparr>"

definition example_volume_index :: volume_index_model where
  "example_volume_index =
     \<lparr>entries = (\<lambda>name. None), list_full = (\<lambda>name. False), sample_rate = 4,
      index_zones = 2, index_chapters = 8\<rparr>"

definition example_components :: components_model where
  "example_components =
     \<lparr>volume_chapters = 8, chapter_records = (\<lambda>chapter name. None),
      chapter_pages = (\<lambda>chapter page. []), lookup_mode = LOOKUP_NORMAL,
      boundaries = (UDS_SUCCESS, 0, 7, False), sparse_cache = [],
      writer_result = UDS_SUCCESS, writer_zones = 2, zones_finished = 0,
      checkpoint_result = UDS_SUCCESS, allocation_result = UDS_SUCCESS,
      requests_counted = 0\<rparr>"

definition example_index ::
  "(volume_index_model, open_chapter_zone, components_model) uds_index" where
  "example_index =
     \<lparr>zone_count = 2, zones = [example_zone 0, example_zone 1],
      volume_index = example_volume_index, volume_geometry = example_geometry,
      components = example_components,
      index_oldest_virtual_chapter = 0, index_newest_virtual_chapter = 0,
      loaded_type = LOAD_UNDEFINED, load_context = None,
      zone_queues = [[], []], triage_queue = Some [], need_to_save = False\<rparr>"

text \<open>A request of the given type for a name and its new metadata, as a session submits it.\<close>

definition example_request ::
  "uds_request_type \<Rightarrow> uds_chunk_name \<Rightarrow> uds_chunk_data \<Rightarrow> uds_request" where
  "example_request t name metadata =
     \<lparr>chunk_name = name, old_metadata = replicate 16 0, new_metadata = metadata,
      zone_number = 0, type = t, location = UDS_LOCATION_UNKNOWN, status = UDS_SUCCESS,
      found = False, update = False, requeued = False, has_router = True,
      has_callback = True, zone_message = \<lparr>message_type = UDS_MESSAGE_NONE,
                                           message_virtual_chapter = 0\<rparr>\<rparr>"

text \<open>The name and the metadata of the first scenario: sixteen bytes 00, sixteen bytes AA.\<close>

definition N0 :: uds_chunk_name where
  "N0 = [0, 0, 0, 0, 0, 0, 0, 0, 0, 0, 0, 0, 0, 0, 0, 0]"

definition M0 :: uds_chunk_data where
  "M0 = [170, 170, 170, 170, 170, 170, 170, 170, 170, 170, 170, 170, 170, 170, 170, 170]"

text \<open>The example index with every delta list of its volume index full.\<close>

definition full_index ::
  "(volume_index_model, open_chapter_zone, components_model) uds_index" where
  "full_index =
     example_index\<lparr>volume_index := example_volume_index\<lparr>list_full := (\<lambda>name. True)\<rparr>\<rparr>"

subsection \<open>What a replay may change\<close>

text \<open>
  \<open>only_volume_changed index index'\<close>: the two indexes agree on every field but the
  volume index and the collaborators.
\<close>

definition only_volume_changed ::
  "('vi, 'oc, 'x) uds_index \<Rightarrow> ('vi, 'oc, 'x) uds_index \<Rightarrow> bool" where
  "only_volume_changed index index' =
     (zone_count index' = zone_count index \<and> zones index' = zones index
      \<and> volume_geometry index' = volume_geometry index
      \<and> index_oldest_virtual_chapter index' = index_oldest_virtual_chapter index
      \<and> index_newest_virtual_chapter index' = index_newest_virtual_chapter index
      \<and> loaded_type index' = loaded_type index
      \<and> load_context index' = load_context index
      \<and> zone_queues index' = zone_queues index
      \<and> triage_queue index' = triage_queue index
      \<and> need_to_save index' = need_to_save index)"

text \<open>The example index while a rebuild replays its one chapter, with a load context.\<close>

definition replaying_index ::
  "(volume_index_model, open_chapter_zone, components_model) uds_index" where
  "replaying_index =
     example_index\<lparr>index_newest_virtual_chapter := 1, load_context := Some INDEX_OPENING\<rparr>"

text \<open>
  A sparse index of one zone in which \<open>N0\<close> is a sample recorded in chapter 0, by now a
  sparse chapter that holds no record of the name. Two variants of the collaborators: one
  whose sparse cache fails to read the chapter it is asked to admit, and one in which the
  uninitialised local \<open>found\<close> of \<open>remove_from_index_zone\<close> happens to hold true.
\<close>

definition single_zone_index ::
  "(volume_index_model, open_chapter_zone, components_model) uds_index" where
  "single_zone_index =
     example_index
       \<lparr>zone_count := 1,
        zones := [(example_zone 0)\<lparr>newest_virtual_chapter := 7\<rparr>],
        volume_index := example_volume_index\<lparr>entries := [N0 \<mapsto> (0, False)], index_zones := 1\<rparr>,
        index_newest_virtual_chapter := 7,
        zone_queues := [[]], triage_queue := None\<rparr>"

definition failing_cache_externals ::
  "(volume_index_model, open_chapter_zone, components_model) externals" where
  "failing_cache_externals =
     model_externals\<lparr>update_sparse_cache := (\<lambda>x zone vc. (UDS_CORRUPT_DATA, x))\<rparr>"


text \<open>
  The example index once chapter 7 is open in both zones, with \<open>N0\<close> a sample recorded in
  chapter 0, by now a sparse chapter.
\<close>

definition sparse_hook_index ::
  "(volume_index_model, open_chapter_zone, components_model) uds_index" where
  "sparse_hook_index =
     example_index
       \<lparr>zones := [(example_zone 0)\<lparr>newest_virtual_chapter := 7\<rparr>,
                  (example_zone 1)\<lparr>newest_virtual_chapter := 7\<rparr>],
        volume_index := example_volume_index\<lparr>entries := [N0 \<mapsto> (0, False)]\<rparr>,
        index_newest_virtual_chapter := 7\<rparr>"

text \<open>
  \<open>allocations_succeed E n x\<close>: the next \<open>n\<close> allocations, from the state \<open>x\<close> of the
  collaborators, all succeed.
\<close>

primrec allocations_succeed :: "('vi, 'oc, 'x) externals \<Rightarrow> nat \<Rightarrow> 'x \<Rightarrow> bool" where
  "allocations_succeed E 0 x = True"
| "allocations_succeed E (Suc n) x =
     (case uds_allocate E x of
        (result, x') \<Rightarrow> result = UDS_SUCCESS \<and> allocations_succeed E n x')"

text \<open>
  \<open>launched E zones x\<close>: of the zones to which \<open>launch_zone_message\<close> is called in
  this order, from the state \<open>x\<close> of the collaborators, those for which the allocation
  of the message succeeds. \<open>barrier_request vc zone\<close> is the request carrying a
  \<open>SPARSE_CACHE_BARRIER\<close> message for chapter \<open>vc\<close> to a zone.
\<close>

primrec launched :: "('vi, 'oc, 'x) externals \<Rightarrow> nat list \<Rightarrow> 'x \<Rightarrow> nat list" where
  "launched E [] x = []"
| "launched E (zone # rest) x =
     (case uds_allocate E x of
        (result, x') \<Rightarrow> (if result = UDS_SUCCESS then [zone] else []) @ launched E rest x')"

definition barrier_request :: "vcn \<Rightarrow> nat \<Rightarrow> uds_request" where
  "barrier_request vc zone =
     \<lparr>chunk_name = [], old_metadata = [], new_metadata = [], zone_number = zone,
      type = UDS_POST, location = UDS_LOCATION_UNKNOWN, status = UDS_SUCCESS, found = False,
      update = False, requeued = False, has_router = False, has_callback = False,
      zone_message = \<lparr>message_type = UDS_MESSAGE_SPARSE_CACHE_BARRIER,
                       message_virtual_chapter = vc\<rparr>\<rparr>"

text \<open>
  The example index once chapter 7 is open in both zones, with \<open>N0\<close> a sample recorded
  in chapter 0, when no memory is left to allocate a message.
\<close>

definition starved_index ::
  "(volume_index_model, open_chapter_zone, components_model) uds_index" where
  "starved_index =
     sparse_hook_index\<lparr>components := example_components\<lparr>allocation_result := ENOMEM\<rparr>\<rparr>"

subsection \<open>Closing a chapter\<close>

text \<open>
  \<open>zone_closing index z index'\<close>: from \<open>index\<close> to \<open>index'\<close> zone \<open>z\<close> has advanced
  its newest chapter by one and kept its number and its oldest chapter, and the other zones,
  the queues and the geometry are as they were.
\<close>

definition zone_closing ::
  "('vi, 'oc, 'x) uds_index \<Rightarrow> nat \<Rightarrow> ('vi, 'oc, 'x) uds_index \<Rightarrow> bool" where
  "zone_closing index z index' =
     (length (zones index') = length (zones index)
      \<and> (\<forall>k. k \<noteq> z \<longrightarrow> zones index' ! k = zones index ! k)
      \<and> zone_id (zones index' ! z) = zone_id (zones index ! z)
      \<and> oldest_virtual_chapter (zones index' ! z) = oldest_virtual_chapter (zones index ! z)
      \<and> newest_virtual_chapter (zones index' ! z)
          = newest_virtual_chapter (zones index ! z) + 1
      \<and> zone_count index' = zone_count index
      \<and> zone_queues index' = zone_queues index
      \<and> triage_queue index' = triage_queue index
      \<and> volume_geometry index' = volume_geometry index)"

text \<open>
  \<open>zones_kept c index index'\<close>: every zone whose open chapter is not \<open>c\<close> is in
  \<open>index'\<close> as it is in \<open>index\<close>. \<open>zones_at c index\<close> counts the zones whose open
  chapter is \<open>c\<close>.
\<close>

definition zones_kept ::
  "vcn \<Rightarrow> ('vi, 'oc, 'x) uds_index \<Rightarrow> ('vi, 'oc, 'x) uds_index \<Rightarrow> bool" where
  "zones_kept c index index' =
     (length (zones index') = length (zones index)
      \<and> zone_count index' = zone_count index
      \<and> (\<forall>k. newest_virtual_chapter (zones index ! k) \<noteq> c \<longrightarrow>
                zones index' ! k = zones index ! k))"

definition zones_at :: "vcn \<Rightarrow> ('vi, 'oc, 'x) uds_index \<Rightarrow> nat" where
  "zones_at c index =
     length (filter (\<lambda>zone. newest_virtual_chapter zone = c) (zones index))"

text \<open>The example index with room for one more record in the open chapter of zone 0.\<close>

definition closing_index ::
  "(volume_index_model, open_chapter_zone, components_model) uds_index" where
  "closing_index =
     example_index
       \<lparr>zones := [(example_zone 0)\<lparr>open_chapter := \<lparr>capacity = 1, slots = []\<rparr>\<rparr>,
                  example_zone 1]\<rparr>"

text \<open>
  The example index when zone 0 has closed chapter 0 as the first of the two zones, before
  the announcement.
\<close>

definition closed_index ::
  "(volume_index_model, open_chapter_zone, components_model) uds_index" where
  "closed_index =
     example_index
       \<lparr>zones := [(example_zone 0)\<lparr>newest_virtual_chapter := 1\<rparr>, example_zone 1],
        volume_index := model_set_volume_index_open_chapter example_volume_index 1,
        components := example_components\<lparr>zones_finished := 1\<rparr>\<rparr>"

text \<open>
  The example index with room for one more record in the open chapter of zone 0, when the
  chapter writer fails to write the previous chapter.
\<close>

definition writer_failed_index ::
  "(volume_index_model, open_chapter_zone, components_model) uds_index" where
  "writer_failed_index =
     closing_index\<lparr>components := example_components\<lparr>writer_result := UDS_CORRUPT_DATA\<rparr>\<rparr>"

text \<open>
  \<open>announced E closing zones x\<close>: the zones that \<open>announce_chapter_closed\<close> reaches
  with a message when it visits \<open>zones\<close> in this order, from the state \<open>x\<close> of the
  collaborators: every zone but the closing one, up to the first whose message cannot be
  allocated. \<open>announcement_result\<close> is the result of that first failed allocation, or
  \<open>UDS_SUCCESS\<close>. \<open>chapter_closed_request vc zone\<close> is the request carrying an
  \<open>ANNOUNCE_CHAPTER_CLOSED\<close> message for chapter \<open>vc\<close> to a zone.
\<close>

primrec announced :: "('vi, 'oc, 'x) externals \<Rightarrow> nat \<Rightarrow> nat list \<Rightarrow> 'x \<Rightarrow> nat list" where
  "announced E closing [] x = []"
| "announced E closing (zone # rest) x =
     (if zone = closing then announced E closing rest x
      else case uds_allocate E x of
             (result, x') \<Rightarrow>
               if result \<noteq> UDS_SUCCESS then [] else zone # announced E closing rest x')"

primrec announcement_result ::
  "('vi, 'oc, 'x) externals \<Rightarrow> nat \<Rightarrow> nat list \<Rightarrow> 'x \<Rightarrow> uds_status" where
  "announcement_result E closing [] x = UDS_SUCCESS"
| "announcement_result E closing (zone # rest) x =
     (if zone = closing then announcement_result E closing rest x
      else case uds_allocate E x of
             (result, x') \<Rightarrow>
               if result \<noteq> UDS_SUCCESS then result
               else announcement_result E closing rest x')"

definition chapter_closed_request :: "vcn \<Rightarrow> nat \<Rightarrow> uds_request" where
  "chapter_closed_request vc zone =
     \<lparr>chunk_name = [], old_metadata = [], new_metadata = [], zone_number = zone,
      type = UDS_POST, location = UDS_LOCATION_UNKNOWN, status = UDS_SUCCESS, found = False,
      update = False, requeued = False, has_router = False, has_callback = False,
      zone_message = \<lparr>message_type = UDS_MESSAGE_ANNOUNCE_CHAPTER_CLOSED,
                       message_virtual_chapter = vc\<rparr>\<rparr>"

text \<open>The example index when no memory is left to allocate a message.\<close>

definition starved_closing_index ::
  "(volume_index_model, open_chapter_zone, components_model) uds_index" where
  "starved_closing_index =
     example_index\<lparr>components := example_components\<lparr>allocation_result := ENOMEM\<rparr>\<rparr>"

subsection \<open>Posting a name\<close>

text \<open>
  \<open>post\<close>: a POST request for a name, as a session submits it, executed by zone \<open>z\<close>
  (\<open>execute_zone_request\<close>) and completed through the callback (\<open>handle_callbacks\<close>);
  it returns the request as the user's callback receives it and the index afterwards.
  \<open>post_twice\<close> is the same post executed again on the index the first one leaves.
\<close>

definition post ::
  "nat \<Rightarrow> ('vi, 'oc, 'x) externals \<Rightarrow> ('vi, 'oc, 'x) uds_index \<Rightarrow> nat \<Rightarrow> uds_chunk_name
     \<Rightarrow> uds_chunk_data \<Rightarrow> (uds_request \<times> ('vi, 'oc, 'x) uds_index) option" where
  "post depth E index z name metadata =
     (case execute_zone_request depth E index
             ((example_request UDS_POST name metadata)\<lparr>zone_number := z\<rparr>) of
        Some (Some request, index') \<Rightarrow>
          (case handle_callbacks E (components index') request of
             (Some completed, x) \<Rightarrow> Some (completed, index'\<lparr>components := x\<rparr>)
           | (None, x) \<Rightarrow> None)
      | _ \<Rightarrow> None)"

definition post_twice ::
  "nat \<Rightarrow> ('vi, 'oc, 'x) externals \<Rightarrow> ('vi, 'oc, 'x) uds_index \<Rightarrow> nat \<Rightarrow> uds_chunk_name
     \<Rightarrow> uds_chunk_data \<Rightarrow> (uds_request \<times> ('vi, 'oc, 'x) uds_index) option" where
  "post_twice depth E index z name metadata =
     (case post depth E index z name metadata of
        None \<Rightarrow> None
      | Some (first, index1) \<Rightarrow> post depth E index1 z name metadata)"

text \<open>
  \<open>name_absent index name\<close>: the name is nowhere in the index, neither in the volume
  index nor in a chapter held by the sparse cache.
\<close>

definition name_absent ::
  "(volume_index_model, open_chapter_zone, components_model) uds_index \<Rightarrow> uds_chunk_name \<Rightarrow> bool" where
  "name_absent index name =
     (entries (volume_index index) name = None
      \<and> find (\<lambda>c. chapter_records (components index) (model_physical (components index) c) name
                     \<noteq> None)
           (sparse_cache (components index)) = None)"

section \<open>Properties\<close>

subsection \<open>The fields of the model\<close>

lemma model_externals_fields [simp]:
  "get_volume_index_record model_externals = model_get_volume_index_record"
  "put_volume_index_record model_externals = model_put_volume_index_record"
  "set_volume_index_record_chapter model_externals = model_set_volume_index_record_chapter"
  "remove_volume_index_record model_externals = model_remove_volume_index_record"
  "lookup_volume_index_name model_externals = model_lookup_volume_index_name"
  "is_volume_index_sample model_externals = model_is_volume_index_sample"
  "get_volume_index_zone model_externals = model_get_volume_index_zone"
  "set_volume_index_open_chapter model_externals = model_set_volume_index_open_chapter"
  "set_volume_index_zone_open_chapter model_externals = (\<lambda>vi zone vc. model_set_volume_index_open_chapter vi vc)"
  "put_open_chapter model_externals = model_put_open_chapter"
  "search_open_chapter model_externals = model_search_open_chapter"
  "remove_from_open_chapter model_externals = model_remove_from_open_chapter"
  "reset_open_chapter model_externals = model_reset_open_chapter"
  "open_chapter_size model_externals = (\<lambda>chapter. of_nat (length (slots chapter)))"
  "is_chapter_sparse model_externals = model_is_chapter_sparse"
  "is_sparse model_externals = model_is_sparse"
  "chapters_to_expire model_externals = model_chapters_to_expire"
  "map_to_physical_chapter model_externals = model_map_to_physical_chapter"
  "map_to_physical_page model_externals = model_map_to_physical_page"
  "finish_previous_chapter model_externals = (\<lambda>x vc. (writer_result x, x))"
  "start_closing_chapter model_externals = model_start_closing_chapter"
  "process_checkpointing model_externals = (\<lambda>x zone vc. (checkpoint_result x, x))"
  "forget_chapter model_externals = (\<lambda>x vc. (UDS_SUCCESS, x))"
  "update_sparse_cache model_externals = (\<lambda>x zone vc. (UDS_SUCCESS, x\<lparr>sparse_cache := vc # removeAll vc (sparse_cache x)\<rparr>))"
  "sparse_cache_contains model_externals = (\<lambda>x vc zone. vc \<in> set (sparse_cache x))"
  "search_sparse_cache model_externals = model_search_sparse_cache"
  "search_cached_record_page model_externals = (\<lambda>x request name chapter page. (UDS_SUCCESS, if page < 0 then None else chapter_records x chapter name, x))"
  "search_volume_page_cache model_externals = (\<lambda>x request name vc. (UDS_SUCCESS, chapter_records x (model_physical x vc) name, x))"
  "find_volume_chapter_boundaries model_externals =
     (\<lambda>x. case boundaries x of
             (result, lowest, highest, is_empty) \<Rightarrow> (result, lowest, highest, is_empty, x))"
  "get_volume_page_index model_externals = (\<lambda>x chapter page. (UDS_SUCCESS, (page, page), x))"
  "get_volume_page_record model_externals = (\<lambda>x chapter page. (UDS_SUCCESS, chapter_pages x chapter page, x))"
  "update_index_page_map model_externals = (\<lambda>x vc chapter page highest. (UDS_SUCCESS, x))"
  "prefetch_volume_pages model_externals = (\<lambda>x page count. x)"
  "update_request_context_stats model_externals
     = (\<lambda>x request. x\<lparr>requests_counted := requests_counted x + 1\<rparr>)"
  "get_lookup_mode model_externals = lookup_mode"
  "set_lookup_mode model_externals = (\<lambda>x mode. x\<lparr>lookup_mode := mode\<rparr>)"
  "uds_allocate model_externals = (\<lambda>x. (allocation_result x, x))"
  "is_successful model_externals = (\<lambda>result. result = UDS_SUCCESS \<or> result = UDS_QUEUED)"
  "BYTES_PER_RECORD model_externals = 32"
  "indeterminate_found model_externals = False"
  by (simp_all add: model_externals_def)

lemmas example_defs =
  example_index_def example_zone_def example_volume_index_def example_components_def
  example_geometry_def example_request_def N0_def M0_def

subsection \<open>What a replay leaves unchanged\<close>

lemma replay_record_frame:
  "replay_record E index name vc w = (result, index') \<Longrightarrow> only_volume_changed index index'"
  by (auto simp: replay_record_def only_volume_changed_def split: if_splits prod.splits sum.splits)

lemma replay_records_from_frame:
  "replay_records_from E vc w page ks index = (result, index')
     \<Longrightarrow> only_volume_changed index index'"
proof (induction ks arbitrary: index)
  case Nil
  then show ?case by (simp add: only_volume_changed_def)
next
  case (Cons k ks)
  then show ?case
    by (auto simp: Let_def only_volume_changed_def split: prod.splits if_splits
             dest!: replay_record_frame)
qed

lemma replay_record_pages_from_frame:
  "replay_record_pages_from E vc w chapter js index = (result, index')
     \<Longrightarrow> only_volume_changed index index'"
proof (induction js arbitrary: index)
  case Nil
  then show ?case by (simp add: only_volume_changed_def)
next
  case (Cons j js)
  then show ?case
    by (auto simp: Let_def only_volume_changed_def split: prod.splits if_splits
             dest!: replay_records_from_frame)
qed

lemma rebuild_index_page_map_frame:
  "rebuild_index_page_map E index vc = (result, index') \<Longrightarrow> only_volume_changed index index'"
  by (auto simp: rebuild_index_page_map_def Let_def only_volume_changed_def split: prod.splits)

lemma replay_chapter_frame:
  "replay_chapter E from_vcn upto_vcn vc index = (result, index')
     \<Longrightarrow> only_volume_changed index index'"
  by (auto simp: replay_chapter_def Let_def only_volume_changed_def split: prod.splits if_splits
           dest!: rebuild_index_page_map_frame replay_record_pages_from_frame)

lemma check_for_suspend_window:
  "check_for_suspend index wakeups = Some (b, index')
     \<Longrightarrow> index_newest_virtual_chapter index' = index_newest_virtual_chapter index
         \<and> index_oldest_virtual_chapter index' = index_oldest_virtual_chapter index"
  by (auto simp: check_for_suspend_def split: option.splits if_splits)

lemma other_threads_write_window [simp]:
  "index_newest_virtual_chapter (other_threads_write w index) = index_newest_virtual_chapter index"
  "index_oldest_virtual_chapter (other_threads_write w index) = index_oldest_virtual_chapter index"
  by (simp_all add: other_threads_write_def split: option.splits)

lemma replay_chapters_window:
  "replay_chapters E from_vcn upto_vcn mode vcs activity index = Some (result, index')
     \<Longrightarrow> index_newest_virtual_chapter index' = index_newest_virtual_chapter index
         \<and> index_oldest_virtual_chapter index' = index_oldest_virtual_chapter index"
proof (induction vcs arbitrary: index activity)
  case Nil
  then show ?case by simp
next
  case (Cons vc vcs)
  from Cons.prems show ?case
    by (auto simp: Let_def only_volume_changed_def split: option.splits prod.splits if_splits
             dest!: check_for_suspend_window replay_chapter_frame Cons.IH)
qed

lemma check_for_suspend_no_context:
  "load_context index = None \<Longrightarrow> check_for_suspend index wakeups = Some (False, index)"
  by (simp add: check_for_suspend_def)

lemma other_threads_write_no_context:
  "load_context index = None \<Longrightarrow> other_threads_write w index = index"
  by (simp add: other_threads_write_def split: option.splits)

lemma replay_chapters_no_context:
  "load_context index = None
     \<Longrightarrow> replay_chapters E from_vcn upto_vcn mode vcs activity index \<noteq> None"
proof (induction vcs arbitrary: index activity)
  case Nil
  then show ?case by simp
next
  case (Cons vc vcs)
  obtain result index2 where body: "replay_chapter E from_vcn upto_vcn vc index = (result, index2)"
    by (cases "replay_chapter E from_vcn upto_vcn vc index")
  then have "load_context index2 = None"
    using Cons.prems by (auto dest!: replay_chapter_frame simp: only_volume_changed_def)
  then have "replay_chapters E from_vcn upto_vcn mode vcs later index2 \<noteq> None" for later
    by (rule Cons.IH)
  with body Cons.prems show ?case
    by (simp add: Let_def check_for_suspend_no_context other_threads_write_no_context)
qed

lemma replay_volume_window:
  "replay_volume E index from_vcn activity = Some (result, index')
     \<Longrightarrow> index_newest_virtual_chapter index' = index_newest_virtual_chapter index
         \<and> index_oldest_virtual_chapter index' = index_oldest_virtual_chapter index"
  by (auto simp: replay_volume_def Let_def split: option.splits prod.splits if_splits
           dest!: replay_chapters_window)

lemma replay_volume_no_context:
  "load_context index = None \<Longrightarrow> replay_volume E index from_vcn activity \<noteq> None"
  using replay_chapters_no_context
    [of "index\<lparr>volume_index :=
                 set_volume_index_open_chapter E
                   (set_volume_index_open_chapter E (volume_index index)
                      (index_newest_virtual_chapter index)) from_vcn,
               components := set_lookup_mode E (components index) LOOKUP_FOR_REBUILD\<rparr>"
        E from_vcn "index_newest_virtual_chapter index" "get_lookup_mode E (components index)"
        "chapters_from_upto from_vcn (index_newest_virtual_chapter index)" activity]
  by (auto simp: replay_volume_def Let_def split: option.splits)

lemma fold_set_active_chapters_window:
  "index_newest_virtual_chapter (fold (\<lambda>i index'. set_active_chapters index' i) zs index)
     = index_newest_virtual_chapter index
   \<and> index_oldest_virtual_chapter (fold (\<lambda>i index'. set_active_chapters index' i) zs index)
     = index_oldest_virtual_chapter index"
  by (induction zs arbitrary: index) (simp_all add: set_active_chapters_def set_zone_def)

lemma set_all_active_chapters_window [simp]:
  "index_newest_virtual_chapter (set_all_active_chapters index) = index_newest_virtual_chapter index"
  "index_oldest_virtual_chapter (set_all_active_chapters index) = index_oldest_virtual_chapter index"
  by (simp_all add: set_all_active_chapters_def fold_set_active_chapters_window)

lemma rebuild_window_fields:
  "index_newest_virtual_chapter (rebuild_window index lowest_vcn highest_vcn is_empty)
     = (if is_empty then 0 else highest_vcn + 1)"
  "index_oldest_virtual_chapter (rebuild_window index lowest_vcn highest_vcn is_empty)
     = (if is_empty then 0
        else if highest_vcn + 1 - lowest_vcn = ucast (chapters_per_volume (volume_geometry index))
        then lowest_vcn + 1 else lowest_vcn)"
  "load_context (rebuild_window index lowest_vcn highest_vcn is_empty) = load_context index"
  by (auto simp: rebuild_window_def Let_def algebra_simps)

subsection \<open>The window a rebuild computes\<close>

text \<open>
  Claim C2. Rebuild computes the active window from the chapter boundaries found on disk.
  When the scan of the volume succeeds with a range \<open>lowest_vcn \<le> highest_vcn\<close>, every
  return of \<open>rebuild_index\<close> leaves the index with: for a volume that is not empty,
  \<open>newest_virtual_chapter = highest_vcn + 1\<close> and \<open>oldest_virtual_chapter = lowest_vcn\<close>,
  the oldest incremented by one if the difference of the two equals \<open>chapters_per_volume\<close>;
  for an empty volume, both 0. The arithmetic is that of \<open>uint64_t\<close>. The function does
  return when there is no load context that could suspend the replay.
\<close>

theorem rebuild_index_active_window:
  assumes scan: "find_volume_chapter_boundaries E
                   (set_lookup_mode E (components index) LOOKUP_FOR_REBUILD)
                   = (UDS_SUCCESS, lowest_vcn, highest_vcn, is_empty, x)"
      and range: "lowest_vcn \<le> highest_vcn"
  shows "(load_context index = None \<longrightarrow> rebuild_index E index activity \<noteq> None)
         \<and> (\<forall>result index'.
               rebuild_index E index activity = Some (result, index') \<longrightarrow>
                 index_newest_virtual_chapter index' = (if is_empty then 0 else highest_vcn + 1)
                 \<and> index_oldest_virtual_chapter index'
                     = (if is_empty then 0
                        else if highest_vcn + 1 - lowest_vcn
                                  = ucast (chapters_per_volume (volume_geometry index))
                        then lowest_vcn + 1 else lowest_vcn))"
proof -
  have total: "rebuild_index E index activity \<noteq> None" if "load_context index = None"
    using scan range that
    by (auto simp: rebuild_index_def Let_def not_less rebuild_window_fields
             split: if_splits option.splits dest!: replay_volume_no_context[THEN notE, rotated])
  have window:
    "index_newest_virtual_chapter index' = (if is_empty then 0 else highest_vcn + 1)
     \<and> index_oldest_virtual_chapter index'
         = (if is_empty then 0
            else if highest_vcn + 1 - lowest_vcn
                      = ucast (chapters_per_volume (volume_geometry index))
            then lowest_vcn + 1 else lowest_vcn)"
    if run: "rebuild_index E index activity = Some (result, index')" for result index'
  proof -
    let ?w = "rebuild_window
                (index\<lparr>components := set_lookup_mode E x (get_lookup_mode E (components index))\<rparr>)
                lowest_vcn highest_vcn is_empty"
    have "index_newest_virtual_chapter index' = index_newest_virtual_chapter ?w
          \<and> index_oldest_virtual_chapter index' = index_oldest_virtual_chapter ?w"
      using scan range run
      by (auto simp: rebuild_index_def Let_def not_less split: if_splits option.splits
               dest!: replay_volume_window)
    then show ?thesis
      by (simp add: rebuild_window_fields)
  qed
  from total window show ?thesis by blast
qed


theorem rebuild_index_active_window_witness:
  "find_volume_chapter_boundaries model_externals
     (set_lookup_mode model_externals (components example_index) LOOKUP_FOR_REBUILD)
     = (UDS_SUCCESS, 0, 7, False, example_components\<lparr>lookup_mode := LOOKUP_FOR_REBUILD\<rparr>)
   \<and> (0 :: vcn) \<le> 7
   \<and> map_option (\<lambda>(result, index').
                    (index_newest_virtual_chapter index', index_oldest_virtual_chapter index'))
         (rebuild_index model_externals example_index []) = Some (8, 1)"
proof -
  have scan: "find_volume_chapter_boundaries model_externals
                (set_lookup_mode model_externals (components example_index) LOOKUP_FOR_REBUILD)
                = (UDS_SUCCESS, 0, 7, False, example_components\<lparr>lookup_mode := LOOKUP_FOR_REBUILD\<rparr>)"
    by (simp add: example_index_def example_components_def)
  have range: "(0 :: vcn) \<le> 7"
    by simp
  have no_context: "load_context example_index = None"
    by (simp add: example_index_def)
  have per_volume: "chapters_per_volume (volume_geometry example_index) = 8"
    by (simp add: example_index_def example_geometry_def)
  from rebuild_index_active_window [OF scan range, of "[]"] no_context per_volume
  obtain result index' where
    "rebuild_index model_externals example_index [] = Some (result, index')"
    "index_newest_virtual_chapter index' = 8"
    "index_oldest_virtual_chapter index' = 1"
    by (cases "rebuild_index model_externals example_index []") auto
  with scan range show ?thesis
    by simp
qed

subsection \<open>Suspending a replay\<close>

lemma wait_for_resume_find:
  "wait_for_resume wakeups st =
     (if st = INDEX_OPENING \<or> st = INDEX_FREEING then Some st
      else find (\<lambda>s. s = INDEX_OPENING \<or> s = INDEX_FREEING) wakeups)"
  by (induction wakeups arbitrary: st) auto

lemma find_resume_cases:
  "find (\<lambda>s. s = INDEX_OPENING \<or> s = INDEX_FREEING) wakeups = Some s
     \<Longrightarrow> s = INDEX_OPENING \<or> s = INDEX_FREEING"
  by (induction wakeups) (auto split: if_splits)

lemma check_for_suspend_cases:
  assumes "load_context index = Some st"
  shows "check_for_suspend index wakeups =
           (if st = INDEX_SUSPENDING
            then (case find (\<lambda>s. s = INDEX_OPENING \<or> s = INDEX_FREEING) wakeups of
                    None \<Rightarrow> None
                  | Some s \<Rightarrow> Some (s = INDEX_FREEING, index\<lparr>load_context := Some s\<rparr>))
            else Some (False, index))"
  using assms by (simp add: check_for_suspend_def wait_for_resume_find)

lemma other_threads_write_None [simp]: "other_threads_write None index = index"
  by (simp add: other_threads_write_def)

lemma replay_volume_loop_error:
  assumes "replay_chapters E from_vcn (index_newest_virtual_chapter index)
             (get_lookup_mode E (components index))
             (chapters_from_upto from_vcn (index_newest_virtual_chapter index)) activity
             (index\<lparr>volume_index :=
                      set_volume_index_open_chapter E
                        (set_volume_index_open_chapter E (volume_index index)
                           (index_newest_virtual_chapter index)) from_vcn,
                    components := set_lookup_mode E (components index) LOOKUP_FOR_REBUILD\<rparr>)
             = Some (result, index')"
      and "result \<noteq> UDS_SUCCESS"
  shows "replay_volume E index from_vcn activity = Some (result, index')"
  using assms by (simp add: replay_volume_def Let_def)

text \<open>
  Claim C8, as stated: if the status of the load context becomes \<open>INDEX_SUSPENDING\<close> or
  \<open>INDEX_FREEING\<close> during the replay, the loop exits and \<open>replay_volume\<close> returns
  \<open>-EBUSY\<close>. It fails: here the status becomes \<open>INDEX_SUSPENDING\<close> before the first
  chapter, the replay suspends, the session is resumed (\<open>INDEX_OPENING\<close>), and the replay
  goes on and returns \<open>UDS_SUCCESS\<close>.
\<close>

theorem replay_suspended_then_resumed:
  "map_option fst
     (replay_volume model_externals replaying_index 0
        [(Some INDEX_SUSPENDING, [INDEX_SUSPENDED, INDEX_OPENING])])
   = Some UDS_SUCCESS"
  by code_simp

text \<open>
  Claim C8, amended. At each chapter of the replay the loop looks at the status \<open>st\<close> of
  the load context. If it is \<open>INDEX_SUSPENDING\<close>, the replay marks itself
  \<open>INDEX_SUSPENDED\<close> and waits until the status is \<open>INDEX_OPENING\<close> or
  \<open>INDEX_FREEING\<close>. Woken with \<open>INDEX_FREEING\<close>, the loop exits with \<open>-EBUSY\<close>
  without replaying the chapter, and \<open>replay_volume\<close> returns that. Woken with
  \<open>INDEX_OPENING\<close>, it replays the chapter and goes on with the chapters that follow.
  Never woken, it does not return. With a status other than \<open>INDEX_SUSPENDING\<close> and
  \<open>INDEX_FREEING\<close> at the chapter, the loop replays the chapter and goes on.
\<close>

theorem replay_interrupted_only_when_freed:
  assumes status: "load_context (other_threads_write w index) = Some st"
  shows "(st = INDEX_SUSPENDING
          \<and> find (\<lambda>s. s = INDEX_OPENING \<or> s = INDEX_FREEING) wakeups = Some INDEX_FREEING \<longrightarrow>
            replay_chapters E from_vcn upto_vcn mode (vc # rest) ((w, wakeups) # later) index
              = Some (EBUSY, (other_threads_write w index)\<lparr>load_context := Some INDEX_FREEING\<rparr>))
         \<and> (st = INDEX_SUSPENDING
             \<and> find (\<lambda>s. s = INDEX_OPENING \<or> s = INDEX_FREEING) wakeups = Some INDEX_OPENING \<longrightarrow>
               replay_chapters E from_vcn upto_vcn mode (vc # rest) ((w, wakeups) # later) index
                 = (case replay_chapter E from_vcn upto_vcn vc
                           ((other_threads_write w index)\<lparr>load_context := Some INDEX_OPENING\<rparr>) of
                      (result, index2) \<Rightarrow>
                        if result \<noteq> UDS_SUCCESS
                        then Some (result,
                                   index2\<lparr>components :=
                                            set_lookup_mode E (components index2) mode\<rparr>)
                        else replay_chapters E from_vcn upto_vcn mode rest later index2))
         \<and> (st = INDEX_SUSPENDING
             \<and> find (\<lambda>s. s = INDEX_OPENING \<or> s = INDEX_FREEING) wakeups = None \<longrightarrow>
               replay_chapters E from_vcn upto_vcn mode (vc # rest) ((w, wakeups) # later) index
                 = None)
         \<and> (st \<noteq> INDEX_SUSPENDING \<and> st \<noteq> INDEX_FREEING \<longrightarrow>
               replay_chapters E from_vcn upto_vcn mode (vc # rest) ((w, wakeups) # later) index
                 = (case replay_chapter E from_vcn upto_vcn vc (other_threads_write w index) of
                      (result, index2) \<Rightarrow>
                        if result \<noteq> UDS_SUCCESS
                        then Some (result,
                                   index2\<lparr>components :=
                                            set_lookup_mode E (components index2) mode\<rparr>)
                        else replay_chapters E from_vcn upto_vcn mode rest later index2))
         \<and> (replay_chapters E start_vcn (index_newest_virtual_chapter start)
               (get_lookup_mode E (components start))
               (chapters_from_upto start_vcn (index_newest_virtual_chapter start)) activity
               (start\<lparr>volume_index :=
                        set_volume_index_open_chapter E
                          (set_volume_index_open_chapter E (volume_index start)
                             (index_newest_virtual_chapter start)) start_vcn,
                      components := set_lookup_mode E (components start) LOOKUP_FOR_REBUILD\<rparr>)
               = Some (EBUSY, stopped) \<longrightarrow>
             replay_volume E start start_vcn activity = Some (EBUSY, stopped))"
proof (intro conjI impI)
  assume "st = INDEX_SUSPENDING
          \<and> find (\<lambda>s. s = INDEX_OPENING \<or> s = INDEX_FREEING) wakeups = Some INDEX_FREEING"
  with status
  show "replay_chapters E from_vcn upto_vcn mode (vc # rest) ((w, wakeups) # later) index
          = Some (EBUSY, (other_threads_write w index)\<lparr>load_context := Some INDEX_FREEING\<rparr>)"
    by (simp add: check_for_suspend_cases)
next
  assume "st = INDEX_SUSPENDING
          \<and> find (\<lambda>s. s = INDEX_OPENING \<or> s = INDEX_FREEING) wakeups = Some INDEX_OPENING"
  with status
  show "replay_chapters E from_vcn upto_vcn mode (vc # rest) ((w, wakeups) # later) index
          = (case replay_chapter E from_vcn upto_vcn vc
                    ((other_threads_write w index)\<lparr>load_context := Some INDEX_OPENING\<rparr>) of
               (result, index2) \<Rightarrow>
                 if result \<noteq> UDS_SUCCESS
                 then Some (result,
                            index2\<lparr>components := set_lookup_mode E (components index2) mode\<rparr>)
                 else replay_chapters E from_vcn upto_vcn mode rest later index2)"
    by (simp add: check_for_suspend_cases)
next
  assume "st = INDEX_SUSPENDING
          \<and> find (\<lambda>s. s = INDEX_OPENING \<or> s = INDEX_FREEING) wakeups = None"
  with status
  show "replay_chapters E from_vcn upto_vcn mode (vc # rest) ((w, wakeups) # later) index = None"
    by (simp add: check_for_suspend_cases)
next
  assume "st \<noteq> INDEX_SUSPENDING \<and> st \<noteq> INDEX_FREEING"
  with status
  show "replay_chapters E from_vcn upto_vcn mode (vc # rest) ((w, wakeups) # later) index
          = (case replay_chapter E from_vcn upto_vcn vc (other_threads_write w index) of
               (result, index2) \<Rightarrow>
                 if result \<noteq> UDS_SUCCESS
                 then Some (result,
                            index2\<lparr>components := set_lookup_mode E (components index2) mode\<rparr>)
                 else replay_chapters E from_vcn upto_vcn mode rest later index2)"
    by (simp add: check_for_suspend_cases)
next
  assume "replay_chapters E start_vcn (index_newest_virtual_chapter start)
            (get_lookup_mode E (components start))
            (chapters_from_upto start_vcn (index_newest_virtual_chapter start)) activity
            (start\<lparr>volume_index :=
                     set_volume_index_open_chapter E
                       (set_volume_index_open_chapter E (volume_index start)
                          (index_newest_virtual_chapter start)) start_vcn,
                   components := set_lookup_mode E (components start) LOOKUP_FOR_REBUILD\<rparr>)
            = Some (EBUSY, stopped)"
  then show "replay_volume E start start_vcn activity = Some (EBUSY, stopped)"
    by (rule replay_volume_loop_error) simp
qed

theorem replay_interrupted_only_when_freed_witness:
  "load_context (other_threads_write (Some INDEX_SUSPENDING) replaying_index)
     = Some INDEX_SUSPENDING
   \<and> find (\<lambda>s. s = INDEX_OPENING \<or> s = INDEX_FREEING) [INDEX_SUSPENDED, INDEX_FREEING]
       = Some INDEX_FREEING
   \<and> replay_volume model_externals replaying_index 0
         [(Some INDEX_SUSPENDING, [INDEX_SUSPENDED, INDEX_FREEING])]
       = Some (EBUSY,
               replaying_index
                 \<lparr>volume_index :=
                    model_set_volume_index_open_chapter
                      (model_set_volume_index_open_chapter example_volume_index 1) 0,
                  components := example_components\<lparr>lookup_mode := LOOKUP_FOR_REBUILD\<rparr>,
                  load_context := Some INDEX_FREEING\<rparr>)
   \<and> find (\<lambda>s. s = INDEX_OPENING \<or> s = INDEX_FREEING) [INDEX_SUSPENDED, INDEX_OPENING]
       = Some INDEX_OPENING
   \<and> map_option fst
         (replay_chapters model_externals 0 1 LOOKUP_NORMAL [0]
            [(Some INDEX_SUSPENDING, [INDEX_SUSPENDED, INDEX_OPENING])] replaying_index)
       = Some UDS_SUCCESS
   \<and> load_context (other_threads_write None replaying_index) = Some INDEX_OPENING
   \<and> map_option fst
         (replay_chapters model_externals 0 1 LOOKUP_NORMAL [0] [(None, [])] replaying_index)
       = Some UDS_SUCCESS
   \<and> find (\<lambda>s. s = INDEX_OPENING \<or> s = INDEX_FREEING) [INDEX_SUSPENDED] = None
   \<and> replay_chapters model_externals 0 1 LOOKUP_NORMAL [0]
         [(Some INDEX_SUSPENDING, [INDEX_SUSPENDED])] replaying_index = None"
proof -
  let ?start = "replaying_index
                  \<lparr>volume_index :=
                     model_set_volume_index_open_chapter
                       (model_set_volume_index_open_chapter example_volume_index 1) 0,
                   components := example_components\<lparr>lookup_mode := LOOKUP_FOR_REBUILD\<rparr>\<rparr>"
  have suspending: "load_context (other_threads_write (Some INDEX_SUSPENDING) ?start)
                      = Some INDEX_SUSPENDING"
    "load_context (other_threads_write (Some INDEX_SUSPENDING) replaying_index)
       = Some INDEX_SUSPENDING"
    and unsuspended: "load_context (other_threads_write None replaying_index) = Some INDEX_OPENING"
    by (simp_all add: other_threads_write_def replaying_index_def)
  have freed: "find (\<lambda>s. s = INDEX_OPENING \<or> s = INDEX_FREEING)
                 [INDEX_SUSPENDED, INDEX_FREEING] = Some INDEX_FREEING"
    and resumed: "find (\<lambda>s. s = INDEX_OPENING \<or> s = INDEX_FREEING)
                    [INDEX_SUSPENDED, INDEX_OPENING] = Some INDEX_OPENING"
    by simp_all
  have newest: "index_newest_virtual_chapter replaying_index = 1"
    and mode: "get_lookup_mode model_externals (components replaying_index) = LOOKUP_NORMAL"
    by (simp_all add: replaying_index_def example_defs)
  have chapters: "chapters_from_upto 0 1 = [0]"
    by (simp add: chapters_from_upto_def)
  have started: "replaying_index
             \<lparr>volume_index :=
                set_volume_index_open_chapter model_externals
                  (set_volume_index_open_chapter model_externals (volume_index replaying_index)
                     1) 0,
              components := set_lookup_mode model_externals (components replaying_index)
                              LOOKUP_FOR_REBUILD\<rparr> = ?start"
    by (simp add: replaying_index_def example_index_def example_components_def)
  have freeing: "(other_threads_write (Some INDEX_SUSPENDING) ?start)
                   \<lparr>load_context := Some INDEX_FREEING\<rparr>
                 = ?start\<lparr>load_context := Some INDEX_FREEING\<rparr>"
    by (simp add: other_threads_write_def)
  note claim = replay_interrupted_only_when_freed
  from claim [OF suspending(1), of "[INDEX_SUSPENDED, INDEX_FREEING]" model_externals 0 1
                 LOOKUP_NORMAL 0 "[]" "[]"] freed
  have "replay_chapters model_externals 0 1 LOOKUP_NORMAL [0]
          [(Some INDEX_SUSPENDING, [INDEX_SUSPENDED, INDEX_FREEING])] ?start
        = Some (EBUSY, (other_threads_write (Some INDEX_SUSPENDING) ?start)
                         \<lparr>load_context := Some INDEX_FREEING\<rparr>)"
    by blast
  then have loop: "replay_chapters model_externals 0 (index_newest_virtual_chapter replaying_index)
          (get_lookup_mode model_externals (components replaying_index))
          (chapters_from_upto 0 (index_newest_virtual_chapter replaying_index))
          [(Some INDEX_SUSPENDING, [INDEX_SUSPENDED, INDEX_FREEING])]
          (replaying_index
             \<lparr>volume_index :=
                set_volume_index_open_chapter model_externals
                  (set_volume_index_open_chapter model_externals (volume_index replaying_index)
                     (index_newest_virtual_chapter replaying_index)) 0,
              components := set_lookup_mode model_externals (components replaying_index)
                              LOOKUP_FOR_REBUILD\<rparr>)
        = Some (EBUSY, ?start\<lparr>load_context := Some INDEX_FREEING\<rparr>)"
    by (simp only: newest mode chapters started freeing)
  from claim [OF suspending(1), of "[]" model_externals 0 1 LOOKUP_NORMAL 0 "[]" "[]" 0
                 replaying_index "[(Some INDEX_SUSPENDING, [INDEX_SUSPENDED, INDEX_FREEING])]"
                 "?start\<lparr>load_context := Some INDEX_FREEING\<rparr>"] loop
  have one: "replay_volume model_externals replaying_index 0
               [(Some INDEX_SUSPENDING, [INDEX_SUSPENDED, INDEX_FREEING])]
             = Some (EBUSY, ?start\<lparr>load_context := Some INDEX_FREEING\<rparr>)"
    by blast
  let ?body = "\<lambda>i. case replay_chapter model_externals 0 1 0 i of
                       (result, index2) \<Rightarrow>
                         if result \<noteq> UDS_SUCCESS
                         then Some (result,
                                    index2\<lparr>components :=
                                      set_lookup_mode model_externals (components index2)
                                        LOOKUP_NORMAL\<rparr>)
                         else replay_chapters model_externals 0 1 LOOKUP_NORMAL [] [] index2"
  from claim [OF suspending(2), of "[INDEX_SUSPENDED, INDEX_OPENING]" model_externals 0 1
                 LOOKUP_NORMAL 0 "[]" "[]"] resumed
  have "replay_chapters model_externals 0 1 LOOKUP_NORMAL [0]
          [(Some INDEX_SUSPENDING, [INDEX_SUSPENDED, INDEX_OPENING])] replaying_index
        = ?body ((other_threads_write (Some INDEX_SUSPENDING) replaying_index)
                   \<lparr>load_context := Some INDEX_OPENING\<rparr>)"
    by blast
  moreover
  have "map_option fst
          (?body ((other_threads_write (Some INDEX_SUSPENDING) replaying_index)
                    \<lparr>load_context := Some INDEX_OPENING\<rparr>)) = Some UDS_SUCCESS"
    by code_simp
  ultimately
  have two: "map_option fst
               (replay_chapters model_externals 0 1 LOOKUP_NORMAL [0]
                  [(Some INDEX_SUSPENDING, [INDEX_SUSPENDED, INDEX_OPENING])] replaying_index)
             = Some UDS_SUCCESS"
    by (simp only:)
  from claim [OF unsuspended, of "[]" model_externals 0 1 LOOKUP_NORMAL 0 "[]" "[]"]
  have "replay_chapters model_externals 0 1 LOOKUP_NORMAL [0] [(None, [])] replaying_index
        = ?body (other_threads_write None replaying_index)"
    by simp
  moreover
  have "map_option fst (?body (other_threads_write None replaying_index)) = Some UDS_SUCCESS"
    by code_simp
  ultimately
  have three: "map_option fst
                 (replay_chapters model_externals 0 1 LOOKUP_NORMAL [0] [(None, [])]
                    replaying_index)
               = Some UDS_SUCCESS"
    by (simp only:)
  have asleep: "find (\<lambda>s. s = INDEX_OPENING \<or> s = INDEX_FREEING) [INDEX_SUSPENDED] = None"
    by simp
  from claim [OF suspending(2), of "[INDEX_SUSPENDED]" model_externals 0 1 LOOKUP_NORMAL 0
                 "[]" "[]"] asleep
  have four: "replay_chapters model_externals 0 1 LOOKUP_NORMAL [0]
                [(Some INDEX_SUSPENDING, [INDEX_SUSPENDED])] replaying_index = None"
    by blast
  from suspending(2) freed one resumed two unsuspended three asleep four show ?thesis
    by (simp only: simp_thms)
qed

subsection \<open>Overflow and duplicate names in the volume index\<close>






subsection \<open>Deleting a name\<close>


subsection \<open>Requests with a router always return\<close>

lemma announce_chapter_closed_from_router:
  "announce_chapter_closed_from handle E True z closed_chapter is index \<noteq> None"
proof (induction "is" arbitrary: index)
  case Nil
  then show ?case by simp
next
  case (Cons i rest)
  show ?case
  proof (cases "launch_zone_message E (chapter_closed_message closed_chapter) i index")
    case (Pair result index1)
    with Cons [of index] Cons [of index1] show ?thesis
      by simp
  qed
qed

lemma open_next_chapter_router:
  assumes "has_router request"
  shows "open_next_chapter depth E index z (Some request) \<noteq> None"
proof (cases "start_next_chapter E index z")
  case (Inl early)
  then show ?thesis
    by (simp add: open_next_chapter_def open_next_chapter_with_def)
next
  case (Inr started)
  obtain finished_zones closed_chapter index6 where
    started: "started = (finished_zones, closed_chapter, index6)"
    by (cases started)
  obtain result index7 where
    "announce_chapter_closed_from (handle_chapter_closed depth E) E True z closed_chapter
       [0..<zone_count index6] index6 = Some (result, index7)"
    using announce_chapter_closed_from_router by fastforce
  with Inr started assms show ?thesis
    by (simp add: open_next_chapter_def open_next_chapter_with_def announce_chapter_closed_def)
qed

lemma put_record_in_zone_router:
  assumes "has_router request"
  shows "put_record_in_zone depth E index z request metadata \<noteq> None"
proof -
  obtain result remaining oc where
    "put_open_chapter E (open_chapter (zones index ! z)) (chunk_name request) metadata
       = (result, remaining, oc)"
    by (metis prod.exhaust)
  with open_next_chapter_router [OF assms] show ?thesis
    by (auto simp add: put_record_in_zone_def Let_def)
qed

lemma store_metadata_router [simp]:
  "has_router (store_metadata request m) = has_router request"
  by (simp add: store_metadata_def split: option.splits)

lemma search_sparse_cache_in_zone_router:
  "search_sparse_cache_in_zone E index z request vc found0 = (result, found1, request', x)
     \<Longrightarrow> has_router request' = has_router request"
  by (auto simp: search_sparse_cache_in_zone_def Let_def split: prod.splits if_splits)

lemma get_record_from_zone_router:
  "get_record_from_zone E index z request found0 vc = (result, found1, request', x)
     \<Longrightarrow> has_router request' = has_router request"
  by (auto simp: get_record_from_zone_def Let_def split: prod.splits if_splits
           dest: search_sparse_cache_in_zone_router)

lemma search_index_zone_missing_router:
  "search_index_zone_missing E index z request record found0 chapter
     = Inr (result, found1, request', index')
     \<Longrightarrow> has_router request' = has_router request"
  by (auto simp: search_index_zone_missing_def Let_def split: prod.splits if_splits
           dest: search_sparse_cache_in_zone_router)

lemma search_index_zone_update_router:
  "search_index_zone_update E index z request = Inr (result, found1, request', index')
     \<Longrightarrow> has_router request' = has_router request"
  by (auto simp: search_index_zone_update_def Let_def
           split: prod.splits if_splits sum.splits
           dest: get_record_from_zone_router search_index_zone_missing_router)


lemma search_index_zone_router:
  assumes "has_router request"
  shows "search_index_zone depth E index z request \<noteq> None"
proof (cases "search_index_zone_update E index z request")
  case (Inl early)
  then show ?thesis
    by (simp add: search_index_zone_def)
next
  case (Inr tail)
  obtain result found1 request' index' where tail: "tail = (result, found1, request', index')"
    by (metis prod.exhaust)
  with Inr assms have "has_router request'"
    by (simp add: search_index_zone_update_router)
  then have "put_record_in_zone depth E index' z request' metadata \<noteq> None" for metadata
    by (rule put_record_in_zone_router)
  with Inr tail show ?thesis
    by (auto simp: search_index_zone_def search_index_zone_put_def)
qed

lemma dispatch_index_request_router:
  assumes "has_router request"
  shows "dispatch_index_request depth E index request \<noteq> None"
proof -
  obtain result0 index0 where
    barrier: "(if \<not> requeued request
               then simulate_index_zone_barrier_message E index (zone_number request) request
               else (UDS_SUCCESS, index)) = (result0, index0)"
    by (metis prod.exhaust)
  have "search_index_zone depth E index0 (zone_number request)
          (request\<lparr>location := UDS_LOCATION_UNKNOWN\<rparr>) \<noteq> None"
    using assms by (simp add: search_index_zone_router)
  then obtain r where
    "search_index_zone depth E index0 (zone_number request)
       (request\<lparr>location := UDS_LOCATION_UNKNOWN\<rparr>) = Some r"
    by blast
  with barrier show ?thesis
    by (cases "type request")
       (auto simp add: dispatch_index_request_def Let_def split: prod.splits)
qed

subsection \<open>The location of a completed request\<close>

text \<open>
  On every path but one, \<open>dispatch_index_request\<close> replaces a location left
  \<open>UDS_LOCATION_UNKNOWN\<close> by \<open>UDS_LOCATION_UNAVAILABLE\<close> before it returns, and it
  returns for a request with a router whatever the depth allowed to nested closings. The one
  path is the early return when the request is not requeued and the simulated barrier fails.
  The callback receives \<open>found\<close> equal to \<open>location \<noteq> UDS_LOCATION_UNAVAILABLE\<close>.
\<close>

lemma dispatch_index_request_location:
  "(has_callback request \<longrightarrow>
      fst (handle_callbacks E x request)
        = Some (request\<lparr>found := (location request \<noteq> UDS_LOCATION_UNAVAILABLE)\<rparr>))
   \<and> (has_router request \<longrightarrow> dispatch_index_request depth E index request \<noteq> None)
   \<and> (\<forall>result request' index'.
         dispatch_index_request depth E index request = Some (result, request', index') \<longrightarrow>
           (if \<not> requeued request
                 \<and> fst (simulate_index_zone_barrier_message E index (zone_number request)
                           request) \<noteq> UDS_SUCCESS
            then result = fst (simulate_index_zone_barrier_message E index (zone_number request)
                                 request)
                 \<and> request' = request
            else location request' \<noteq> UDS_LOCATION_UNKNOWN))"
proof (intro conjI impI allI)
  assume "has_callback request"
  then show "fst (handle_callbacks E x request)
               = Some (request\<lparr>found := (location request \<noteq> UDS_LOCATION_UNAVAILABLE)\<rparr>)"
    by (simp add: handle_callbacks_def Let_def)
next
  assume "has_router request"
  then show "dispatch_index_request depth E index request \<noteq> None"
    by (rule dispatch_index_request_router)
next
  fix result request' index'
  assume "dispatch_index_request depth E index request = Some (result, request', index')"
  then show "if \<not> requeued request
                  \<and> fst (simulate_index_zone_barrier_message E index (zone_number request)
                            request) \<noteq> UDS_SUCCESS
             then result = fst (simulate_index_zone_barrier_message E index (zone_number request)
                                  request)
                  \<and> request' = request
             else location request' \<noteq> UDS_LOCATION_UNKNOWN"
    by (auto simp: dispatch_index_request_def Let_def case_prod_beta split: if_splits)
qed

text \<open>
  Claim C9. A request is never completed with its location still
  \<open>UDS_LOCATION_UNKNOWN\<close>. The code does not keep to it. The documentation of
  \<open>simulate_index_zone_barrier_message\<close> says that it returns \<open>UDS_SUCCESS\<close> always,
  but it returns the result of \<open>update_sparse_cache\<close>. On a sparse index of one zone, a
  query for a sample recorded in a sparse chapter first has the barrier simulated; when the
  sparse cache fails to read that chapter, the dispatch returns the error at once and skips
  the replacement that every other path performs: the request is completed with the error
  and its location \<open>UDS_LOCATION_UNKNOWN\<close>. With a sparse cache that does not fail the
  same query completes with \<open>UDS_LOCATION_UNAVAILABLE\<close>.
\<close>

theorem location_unknown_after_failed_barrier:
  "fst (simulate_index_zone_barrier_message failing_cache_externals single_zone_index 0
          (example_request UDS_QUERY N0 M0)) = UDS_CORRUPT_DATA
   \<and> map_option (\<lambda>(result, request', index'). (result, location request'))
        (dispatch_index_request 0 failing_cache_externals single_zone_index
           (example_request UDS_QUERY N0 M0))
       = Some (UDS_CORRUPT_DATA, UDS_LOCATION_UNKNOWN)
   \<and> map_option (\<lambda>(request', index'). map_option (\<lambda>r. (status r, location r)) request')
        (execute_zone_request 0 failing_cache_externals single_zone_index
           (example_request UDS_QUERY N0 M0))
       = Some (Some (UDS_CORRUPT_DATA, UDS_LOCATION_UNKNOWN))
   \<and> map_option (\<lambda>(result, request', index'). (result, location request'))
        (dispatch_index_request 0 model_externals single_zone_index
           (example_request UDS_QUERY N0 M0))
       = Some (UDS_SUCCESS, UDS_LOCATION_UNAVAILABLE)"
  by code_simp

subsection \<open>Triage and the sparse cache barrier\<close>

lemma launch_zone_message_success:
  assumes "uds_allocate E (components index) = (UDS_SUCCESS, x)"
  shows "launch_zone_message E message z index
           = (UDS_SUCCESS,
              index\<lparr>components := x,
                    zone_queues := (zone_queues index)
                      [z := zone_queues index ! z @ [message_request message z]]\<rparr>)"
  using assms
  by (simp add: launch_zone_message_def enqueue_request_def select_index_queue_def
                message_request_def)

lemma launch_zone_message_queues:
  "zone_queues (snd (launch_zone_message E message z index))
     = (if fst (uds_allocate E (components index)) = UDS_SUCCESS
        then (zone_queues index)[z := zone_queues index ! z @ [message_request message z]]
        else zone_queues index)
   \<and> components (snd (launch_zone_message E message z index))
       = snd (uds_allocate E (components index))
   \<and> volume_index (snd (launch_zone_message E message z index)) = volume_index index
   \<and> triage_queue (snd (launch_zone_message E message z index)) = triage_queue index
   \<and> zone_count (snd (launch_zone_message E message z index)) = zone_count index"
  by (simp add: launch_zone_message_def enqueue_request_def select_index_queue_def
                message_request_def split: prod.splits)

lemma all_launched:
  "allocations_succeed E (length zs) x \<Longrightarrow> launched E zs x = zs"
  by (induction zs arbitrary: x) (auto split: prod.splits)

lemma launched_subset: "set (launched E zs x) \<subseteq> set zs"
  by (induction zs arbitrary: x) (auto split: prod.splits if_splits)

lemma enqueue_barrier_messages_from_launched:
  assumes "\<forall>i \<in> set zs. i < length (zone_queues index)"
      and "distinct zs"
  shows "zone_queues (enqueue_barrier_messages_from E vc zs index)
           = map (\<lambda>i. zone_queues index ! i
                        @ (if i \<in> set (launched E zs (components index))
                           then [barrier_request vc i] else []))
               [0..<length (zone_queues index)]
         \<and> volume_index (enqueue_barrier_messages_from E vc zs index) = volume_index index
         \<and> triage_queue (enqueue_barrier_messages_from E vc zs index) = triage_queue index
         \<and> zone_count (enqueue_barrier_messages_from E vc zs index) = zone_count index"
  using assms
proof (induction zs arbitrary: index)
  case Nil
  show ?case
    by (simp add: map_nth)
next
  case (Cons z zs)
  obtain result x where alloc: "uds_allocate E (components index) = (result, x)"
    by (cases "uds_allocate E (components index)")
  let ?index1 = "snd (launch_zone_message E (sparse_cache_barrier_message vc) z index)"
  have same: "message_request (sparse_cache_barrier_message vc) z = barrier_request vc z"
    by (simp add: message_request_def sparse_cache_barrier_message_def barrier_request_def)
  note step = launch_zone_message_queues [of E "sparse_cache_barrier_message vc" z index]
  have queues1: "zone_queues ?index1
                   = (if result = UDS_SUCCESS
                      then (zone_queues index)[z := zone_queues index ! z @ [barrier_request vc z]]
                      else zone_queues index)"
    and x1: "components ?index1 = x"
    and vi1: "volume_index ?index1 = volume_index index"
    and tq1: "triage_queue ?index1 = triage_queue index"
    and zc1: "zone_count ?index1 = zone_count index"
    using step alloc same by simp_all
  have len1: "length (zone_queues ?index1) = length (zone_queues index)"
    using queues1 by simp
  have IH: "zone_queues (enqueue_barrier_messages_from E vc zs ?index1)
          = map (\<lambda>i. zone_queues ?index1 ! i
                       @ (if i \<in> set (launched E zs (components ?index1))
                          then [barrier_request vc i] else []))
              [0..<length (zone_queues ?index1)]
        \<and> volume_index (enqueue_barrier_messages_from E vc zs ?index1) = volume_index ?index1
        \<and> triage_queue (enqueue_barrier_messages_from E vc zs ?index1) = triage_queue ?index1
        \<and> zone_count (enqueue_barrier_messages_from E vc zs ?index1) = zone_count ?index1"
    using Cons.prems len1 by (intro Cons.IH) simp_all
  have notin: "z \<notin> set (launched E zs x)"
    using Cons.prems(2) launched_subset [of E zs x] by auto
  have "map (\<lambda>i. zone_queues ?index1 ! i
                       @ (if i \<in> set (launched E zs (components ?index1))
                          then [barrier_request vc i] else []))
              [0..<length (zone_queues ?index1)]
           = map (\<lambda>i. zone_queues index ! i
                        @ (if i \<in> set (launched E (z # zs) (components index))
                           then [barrier_request vc i] else []))
               [0..<length (zone_queues index)]"
  proof (rule nth_equalityI)
    show "length (map (\<lambda>i. zone_queues ?index1 ! i
                       @ (if i \<in> set (launched E zs (components ?index1))
                          then [barrier_request vc i] else []))
              [0..<length (zone_queues ?index1)])
           = length (map (\<lambda>i. zone_queues index ! i
                        @ (if i \<in> set (launched E (z # zs) (components index))
                           then [barrier_request vc i] else []))
               [0..<length (zone_queues index)])"
      using len1 by simp
  next
    fix i
    assume "i < length (map (\<lambda>i. zone_queues ?index1 ! i
                       @ (if i \<in> set (launched E zs (components ?index1))
                          then [barrier_request vc i] else []))
              [0..<length (zone_queues ?index1)])"
    then have i: "i < length (zone_queues index)"
      using len1 by simp
    show "map (\<lambda>i. zone_queues ?index1 ! i
                       @ (if i \<in> set (launched E zs (components ?index1))
                          then [barrier_request vc i] else []))
              [0..<length (zone_queues ?index1)] ! i
           = map (\<lambda>i. zone_queues index ! i
                        @ (if i \<in> set (launched E (z # zs) (components index))
                           then [barrier_request vc i] else []))
               [0..<length (zone_queues index)] ! i"
      using i notin by (cases "i = z") (simp_all add: len1 x1 queues1 alloc)
  qed
  with IH show ?case
    by (simp add: vi1 tq1 zc1)
qed

lemma enqueue_at_tail:
  "(map f [0..<n])[k := map f [0..<n] ! k @ [q]]
     = map (\<lambda>i. f i @ (if i = k then [q] else [])) [0..<n]"
proof (rule nth_equalityI)
  show "length ((map f [0..<n])[k := map f [0..<n] ! k @ [q]])
          = length (map (\<lambda>i. f i @ (if i = k then [q] else [])) [0..<n])"
    by simp
next
  fix i
  assume "i < length ((map f [0..<n])[k := map f [0..<n] ! k @ [q]])"
  then have "i < n"
    by simp
  then show "(map f [0..<n])[k := map f [0..<n] ! k @ [q]] ! i
               = map (\<lambda>i. f i @ (if i = k then [q] else [])) [0..<n] ! i"
    by (cases "i = k") (simp_all add: nth_list_update)
qed

lemma enqueue_request_index:
  assumes "get_volume_index_zone E (volume_index index) (chunk_name request) = owner"
  shows "zone_queues (enqueue_request E index request STAGE_INDEX)
           = (zone_queues index)
               [owner := zone_queues index ! owner @ [request\<lparr>zone_number := owner\<rparr>]]"
  using assms by (simp add: enqueue_request_def select_index_queue_def Let_def)

text \<open>
  Claim C5, as stated: for a request whose name is a sample that resolves to a sparse
  chapter, the triage enqueues a barrier on every zone queue before the request. It fails
  when a message cannot be allocated: \<open>enqueue_barrier_messages\<close> only logs the failure
  of \<open>launch_zone_message\<close>. Here \<open>N0\<close> is a sample recorded in the sparse chapter 0
  and no memory is left: the request is enqueued on the queue of zone 0 and no queue gets a
  barrier.
\<close>

theorem barrier_not_enqueued_when_allocation_fails:
  "in_sampled_chapter (lookup_volume_index_name model_externals (volume_index starved_index) N0)
   \<and> is_zone_chapter_sparse model_externals starved_index 0 0
   \<and> triage_index_request model_externals starved_index (example_request UDS_QUERY N0 M0) = 0
   \<and> zone_queues (triage_request model_externals starved_index
                     (example_request UDS_QUERY N0 M0))
       = [[example_request UDS_QUERY N0 M0], []]"
  by code_simp

text \<open>
  Claim C5, amended. The index has one queue per zone. The triage stage looks the name of a
  request up in the volume index. When the name is a sample that resolves to a chapter in
  the sparse region (as the zone of the request's zone number sees it) and the chapter is
  not the value \<open>UINT64_MAX\<close> that stands for no chapter, the triage first calls
  \<open>launch_zone_message\<close> for every zone, in zone order, with a
  \<open>SPARSE_CACHE_BARRIER\<close> message carrying that chapter, and then enqueues the request
  on the queue of its owning zone. After the first step every zone whose message could be
  allocated has the barrier at the tail of its queue and the other queues are as they were;
  in the end the owner's queue has the request behind the barrier. A failed allocation is
  only logged. When every allocation succeeds, every zone gets the barrier. For any other
  request only the request is enqueued, on the queue of its owner.
\<close>

theorem triage_request_barriers:
  assumes queues: "zone_count index = length (zone_queues index)"
      and routed: "get_volume_index_zone E (volume_index index) (chunk_name request) = owner"
      and triaged: "lookup_volume_index_name E (volume_index index) (chunk_name request) = triage"
  shows "(in_sampled_chapter triage
          \<and> is_zone_chapter_sparse E index (zone_number request) (triage_virtual_chapter triage)
          \<and> triage_virtual_chapter triage \<noteq> UINT64_MAX \<longrightarrow>
            triage_request E index request
              = enqueue_request E
                  (enqueue_barrier_messages E index (triage_virtual_chapter triage))
                  request STAGE_INDEX
            \<and> zone_queues (enqueue_barrier_messages E index (triage_virtual_chapter triage))
                = map (\<lambda>i. zone_queues index ! i
                             @ (if i \<in> set (launched E [0..<zone_count index] (components index))
                                then [barrier_request (triage_virtual_chapter triage) i]
                                else []))
                    [0..<zone_count index]
            \<and> zone_queues (triage_request E index request)
                = map (\<lambda>i. zone_queues index ! i
                             @ (if i \<in> set (launched E [0..<zone_count index] (components index))
                                then [barrier_request (triage_virtual_chapter triage) i]
                                else [])
                             @ (if i = owner then [request\<lparr>zone_number := owner\<rparr>] else []))
                    [0..<zone_count index]
            \<and> (allocations_succeed E (zone_count index) (components index) \<longrightarrow>
                  launched E [0..<zone_count index] (components index)
                    = [0..<zone_count index]))
         \<and> (\<not> (in_sampled_chapter triage
                \<and> is_zone_chapter_sparse E index (zone_number request)
                      (triage_virtual_chapter triage))
             \<or> triage_virtual_chapter triage = UINT64_MAX \<longrightarrow>
              zone_queues (triage_request E index request)
                = map (\<lambda>i. zone_queues index ! i
                             @ (if i = owner then [request\<lparr>zone_number := owner\<rparr>] else []))
                    [0..<zone_count index])"
proof (intro conjI impI)
  assume hook: "in_sampled_chapter triage
                \<and> is_zone_chapter_sparse E index (zone_number request)
                      (triage_virtual_chapter triage)
                \<and> triage_virtual_chapter triage \<noteq> UINT64_MAX"
  let ?vc = "triage_virtual_chapter triage"
  let ?index1 = "enqueue_barrier_messages E index ?vc"
  let ?sent = "launched E [0..<zone_count index] (components index)"
  from hook triaged have barrier_chapter: "triage_index_request E index request = ?vc"
    by (simp add: triage_index_request_def Let_def)
  with hook
  show before: "triage_request E index request = enqueue_request E ?index1 request STAGE_INDEX"
    by (simp add: triage_request_def Let_def)
  have barriers:
    "zone_queues ?index1
       = map (\<lambda>i. zone_queues index ! i
                    @ (if i \<in> set ?sent then [barrier_request ?vc i] else []))
           [0..<length (zone_queues index)]
     \<and> volume_index ?index1 = volume_index index
     \<and> triage_queue ?index1 = triage_queue index
     \<and> zone_count ?index1 = zone_count index"
    unfolding enqueue_barrier_messages_def
    using queues by (intro enqueue_barrier_messages_from_launched) simp_all
  then show sent: "zone_queues ?index1
               = map (\<lambda>i. zone_queues index ! i
                            @ (if i \<in> set ?sent then [barrier_request ?vc i] else []))
                   [0..<zone_count index]"
    using queues by simp
  from barriers have owner: "get_volume_index_zone E (volume_index ?index1) (chunk_name request)
                               = owner"
    using routed by simp
  have "zone_queues (triage_request E index request)
          = (zone_queues ?index1)
              [owner := zone_queues ?index1 ! owner @ [request\<lparr>zone_number := owner\<rparr>]]"
    using before enqueue_request_index [OF owner] by simp
  also have "\<dots> = (map (\<lambda>i. zone_queues index ! i
                            @ (if i \<in> set ?sent then [barrier_request ?vc i] else []))
                   [0..<zone_count index])
              [owner := map (\<lambda>i. zone_queues index ! i
                            @ (if i \<in> set ?sent then [barrier_request ?vc i] else []))
                   [0..<zone_count index] ! owner @ [request\<lparr>zone_number := owner\<rparr>]]"
    by (simp only: sent)
  also have "\<dots> = map (\<lambda>i. (zone_queues index ! i
                       @ (if i \<in> set ?sent then [barrier_request ?vc i] else []))
                       @ (if i = owner then [request\<lparr>zone_number := owner\<rparr>] else []))
              [0..<zone_count index]"
    by (rule enqueue_at_tail)
  finally
  show "zone_queues (triage_request E index request)
          = map (\<lambda>i. zone_queues index ! i
                       @ (if i \<in> set ?sent then [barrier_request ?vc i] else [])
                       @ (if i = owner then [request\<lparr>zone_number := owner\<rparr>] else []))
              [0..<zone_count index]"
    by simp
next
  assume "allocations_succeed E (zone_count index) (components index)"
  then have "allocations_succeed E (length [0..<zone_count index]) (components index)"
    by simp
  then show "launched E [0..<zone_count index] (components index) = [0..<zone_count index]"
    by (rule all_launched)
next
  assume other: "\<not> (in_sampled_chapter triage
                      \<and> is_zone_chapter_sparse E index (zone_number request)
                            (triage_virtual_chapter triage))
                 \<or> triage_virtual_chapter triage = UINT64_MAX"
  with triaged have "triage_index_request E index request = UINT64_MAX"
    by (auto simp: triage_index_request_def Let_def)
  then have "zone_queues (triage_request E index request)
               = (zone_queues index)
                   [owner := zone_queues index ! owner @ [request\<lparr>zone_number := owner\<rparr>]]"
    using enqueue_request_index [OF routed]
    by (simp add: triage_request_def Let_def)
  moreover have "zone_queues index = map (\<lambda>i. zone_queues index ! i) [0..<zone_count index]"
    using queues by (simp add: map_nth)
  ultimately
  have "zone_queues (triage_request E index request)
          = (map (\<lambda>i. zone_queues index ! i) [0..<zone_count index])
              [owner := map (\<lambda>i. zone_queues index ! i) [0..<zone_count index] ! owner
                        @ [request\<lparr>zone_number := owner\<rparr>]]"
    by simp
  then
  show "zone_queues (triage_request E index request)
          = map (\<lambda>i. zone_queues index ! i
                       @ (if i = owner then [request\<lparr>zone_number := owner\<rparr>] else []))
              [0..<zone_count index]"
    by (simp only: enqueue_at_tail)
qed

theorem triage_request_barriers_witness:
  "zone_count sparse_hook_index = length (zone_queues sparse_hook_index)
   \<and> get_volume_index_zone model_externals (volume_index sparse_hook_index)
         (chunk_name (example_request UDS_QUERY N0 M0)) = 0
   \<and> lookup_volume_index_name model_externals (volume_index sparse_hook_index)
         (chunk_name (example_request UDS_QUERY N0 M0))
       = \<lparr>in_sampled_chapter = True, triage_virtual_chapter = 0\<rparr>
   \<and> is_zone_chapter_sparse model_externals sparse_hook_index 0 0
   \<and> (0 :: vcn) \<noteq> UINT64_MAX
   \<and> allocations_succeed model_externals (zone_count sparse_hook_index)
         (components sparse_hook_index)
   \<and> zone_queues (enqueue_barrier_messages model_externals sparse_hook_index 0)
       = [[barrier_request 0 0], [barrier_request 0 1]]
   \<and> zone_queues (triage_request model_externals sparse_hook_index
                     (example_request UDS_QUERY N0 M0))
       = [[barrier_request 0 0, example_request UDS_QUERY N0 M0], [barrier_request 0 1]]
   \<and> launched model_externals [0..<zone_count starved_index] (components starved_index) = []
   \<and> zone_queues (triage_request model_externals starved_index
                     (example_request UDS_QUERY N0 M0))
       = [[example_request UDS_QUERY N0 M0], []]
   \<and> lookup_volume_index_name model_externals (volume_index example_index)
         (chunk_name (example_request UDS_QUERY N0 M0))
       = \<lparr>in_sampled_chapter = False, triage_virtual_chapter = UINT64_MAX\<rparr>
   \<and> zone_queues (triage_request model_externals example_index
                     (example_request UDS_QUERY N0 M0))
       = [[example_request UDS_QUERY N0 M0], []]"
proof -
  let ?r = "example_request UDS_QUERY N0 M0"
  let ?hook = "\<lparr>in_sampled_chapter = True, triage_virtual_chapter = 0\<rparr>"
  have queues: "zone_count sparse_hook_index = length (zone_queues sparse_hook_index)"
    and queues': "zone_count example_index = length (zone_queues example_index)"
    and queues'': "zone_count starved_index = length (zone_queues starved_index)"
    by (simp_all add: starved_index_def sparse_hook_index_def example_index_def)
  have routed: "get_volume_index_zone model_externals (volume_index sparse_hook_index)
                  (chunk_name ?r) = 0"
    and routed': "get_volume_index_zone model_externals (volume_index example_index)
                    (chunk_name ?r) = 0"
    and routed'': "get_volume_index_zone model_externals (volume_index starved_index)
                    (chunk_name ?r) = 0"
    by (simp_all add: starved_index_def sparse_hook_index_def example_defs
                      model_get_volume_index_zone_def)
  have triaged: "lookup_volume_index_name model_externals (volume_index sparse_hook_index)
                   (chunk_name ?r) = ?hook"
    and triaged'': "lookup_volume_index_name model_externals (volume_index starved_index)
                   (chunk_name ?r) = ?hook"
    by (simp_all add: starved_index_def sparse_hook_index_def example_defs
                      model_lookup_volume_index_name_def model_is_volume_index_sample_def)
  have triaged': "lookup_volume_index_name model_externals (volume_index example_index)
                    (chunk_name ?r)
                    = \<lparr>in_sampled_chapter = False, triage_virtual_chapter = UINT64_MAX\<rparr>"
    by (simp add: example_defs model_lookup_volume_index_name_def)
  have sparse: "is_zone_chapter_sparse model_externals sparse_hook_index 0 0"
    and sparse'': "is_zone_chapter_sparse model_externals starved_index 0 0"
    by (simp_all add: is_zone_chapter_sparse_def starved_index_def sparse_hook_index_def
                      example_defs model_is_chapter_sparse_def model_is_sparse_def)
  have sentinel: "(0 :: vcn) \<noteq> UINT64_MAX"
    by (simp add: UINT64_MAX_def)
  have allocated: "allocations_succeed model_externals (zone_count sparse_hook_index)
                     (components sparse_hook_index)"
    by (simp add: sparse_hook_index_def example_defs eval_nat_numeral)
  have starved: "launched model_externals [0..<zone_count starved_index]
                   (components starved_index) = []"
    by (simp add: starved_index_def sparse_hook_index_def example_defs upt_rec)
  have number: "zone_number ?r = 0" and same: "?r\<lparr>zone_number := 0\<rparr> = ?r"
    by (simp_all add: example_request_def)
  have zones: "[0..<zone_count sparse_hook_index] = [0, 1]"
    "[0..<zone_count example_index] = [0, 1]"
    "[0..<zone_count starved_index] = [0, 1]"
    by (simp_all add: starved_index_def sparse_hook_index_def example_index_def upt_rec)
  have empty: "zone_queues sparse_hook_index = [[], []]" "zone_queues example_index = [[], []]"
    "zone_queues starved_index = [[], []]"
    and count: "zone_count sparse_hook_index = Suc (Suc 0)" "zone_count example_index = Suc (Suc 0)"
    "zone_count starved_index = Suc (Suc 0)"
    by (simp_all add: starved_index_def sparse_hook_index_def example_index_def)
  note hooked = triage_request_barriers [OF queues routed triaged, THEN conjunct1, rule_format]
  have hook: "in_sampled_chapter ?hook
              \<and> is_zone_chapter_sparse model_externals sparse_hook_index (zone_number ?r)
                    (triage_virtual_chapter ?hook)
              \<and> triage_virtual_chapter ?hook \<noteq> UINT64_MAX"
    using sparse sentinel number by simp
  have all: "launched model_externals [0..<zone_count sparse_hook_index]
               (components sparse_hook_index) = [0..<zone_count sparse_hook_index]"
    using hooked [OF hook] allocated by blast
  have one: "zone_queues (enqueue_barrier_messages model_externals sparse_hook_index 0)
               = [[barrier_request 0 0], [barrier_request 0 1]]"
    using hooked [OF hook, THEN conjunct2, THEN conjunct1]
    by (simp add: all) (simp add: zones empty count)
  have two: "zone_queues (triage_request model_externals sparse_hook_index ?r)
               = [[barrier_request 0 0, ?r], [barrier_request 0 1]]"
    using hooked [OF hook, THEN conjunct2, THEN conjunct2, THEN conjunct1]
    by (simp add: all) (simp add: zones empty same count)
  have hook'': "in_sampled_chapter ?hook
              \<and> is_zone_chapter_sparse model_externals starved_index (zone_number ?r)
                    (triage_virtual_chapter ?hook)
              \<and> triage_virtual_chapter ?hook \<noteq> UINT64_MAX"
    using sparse'' sentinel number by simp
  have three: "zone_queues (triage_request model_externals starved_index ?r) = [[?r], []]"
    using triage_request_barriers [OF queues'' routed'' triaged'', THEN conjunct1, rule_format,
            OF hook'', THEN conjunct2, THEN conjunct2, THEN conjunct1]
    by (simp add: starved) (simp add: zones empty same count)
  have four: "zone_queues (triage_request model_externals example_index ?r) = [[?r], []]"
    using triage_request_barriers [OF queues' routed' triaged', THEN conjunct2]
    by (simp add: zones empty same count)
  from queues routed triaged sparse sentinel allocated one two starved three triaged' four
  show ?thesis
    by (simp only: simp_thms)
qed

subsection \<open>Closing a chapter and announcing it\<close>

lemma set_zone_fields [simp]:
  "zones (set_zone index z zone) = (zones index)[z := zone]"
  "zone_count (set_zone index z zone) = zone_count index"
  "zone_queues (set_zone index z zone) = zone_queues index"
  "triage_queue (set_zone index z zone) = triage_queue index"
  "volume_index (set_zone index z zone) = volume_index index"
  "volume_geometry (set_zone index z zone) = volume_geometry index"
  "components (set_zone index z zone) = components index"
  by (simp_all add: set_zone_def)

lemma swap_open_chapter_cases:
  "swap_open_chapter E index z = (result, index1) \<Longrightarrow>
     (result \<noteq> UDS_SUCCESS
      \<and> result = fst (finish_previous_chapter E (components index)
                        (newest_virtual_chapter (zones index ! z)))
      \<and> index1 = index\<lparr>components := snd (finish_previous_chapter E (components index)
                                              (newest_virtual_chapter (zones index ! z)))\<rparr>)
     \<or> (result = UDS_SUCCESS
        \<and> fst (finish_previous_chapter E (components index)
                 (newest_virtual_chapter (zones index ! z))) = UDS_SUCCESS
        \<and> index1 = set_zone (index\<lparr>components := snd (finish_previous_chapter E (components index)
                                              (newest_virtual_chapter (zones index ! z)))\<rparr>) z
                      ((zones index ! z)\<lparr>open_chapter := writing_chapter (zones index ! z),
                                         writing_chapter := open_chapter (zones index ! z)\<rparr>))"
  by (auto simp: swap_open_chapter_def Let_def split: prod.splits if_splits)

lemma start_next_chapter_started:
  assumes "start_next_chapter E index z = Inr (finished_zones, closed_chapter, index6)"
      and "z < length (zones index)"
  shows "closed_chapter = newest_virtual_chapter (zones index ! z)
         \<and> fst (finish_previous_chapter E (components index)
                  (newest_virtual_chapter (zones index ! z))) = UDS_SUCCESS
         \<and> zone_closing index z index6"
  using assms
  apply (simp add: start_next_chapter_def Let_def split: prod.splits if_splits)
  apply (elim conjE exE)
  apply (drule swap_open_chapter_cases)
  apply (auto simp: reap_oldest_chapter_def Let_def zone_closing_def nth_list_update
              split: if_splits)
  done

lemma start_next_chapter_early:
  assumes "start_next_chapter E index z = Inl (result, index1)"
      and "z < length (zones index)"
      and "fst (finish_previous_chapter E (components index)
                  (newest_virtual_chapter (zones index ! z))) = UDS_SUCCESS"
  shows "zone_closing index z index1"
  using assms
  by (auto simp: start_next_chapter_def swap_open_chapter_def reap_oldest_chapter_def Let_def
                 zone_closing_def nth_list_update
           split: prod.splits if_splits)

lemma zones_kept_refl [simp]: "zones_kept c index index"
  by (simp add: zones_kept_def)

lemma zones_kept_trans:
  "zones_kept c index1 index2 \<Longrightarrow> zones_kept c index2 index3 \<Longrightarrow> zones_kept c index1 index3"
  by (simp add: zones_kept_def)

lemma launch_zone_message_zones:
  "launch_zone_message E message i index = (result, index')
     \<Longrightarrow> zones index' = zones index \<and> zone_count index' = zone_count index"
  by (auto simp: launch_zone_message_def enqueue_request_def select_index_queue_def
                 message_request_def split: prod.splits if_splits)

lemma start_next_chapter_zones:
  assumes "z < length (zones index)"
  shows "start_next_chapter E index z = Inl (result, index1)
           \<Longrightarrow> zones_kept (newest_virtual_chapter (zones index ! z)) index index1"
    and "start_next_chapter E index z = Inr (finished_zones, closed_chapter, index6)
           \<Longrightarrow> zones_kept (newest_virtual_chapter (zones index ! z)) index index6"
  using assms
  by (auto simp: start_next_chapter_def swap_open_chapter_def reap_oldest_chapter_def Let_def
                 zones_kept_def nth_list_update
           split: prod.splits if_splits)

lemma finish_next_chapter_zones:
  assumes "finish_next_chapter E index z finished_zones result = (result', index')"
      and "z < length (zones index)"
  shows "length (zones index') = length (zones index)
         \<and> zone_count index' = zone_count index
         \<and> zone_queues index' = zone_queues index
         \<and> (\<forall>k. k \<noteq> z \<longrightarrow> zones index' ! k = zones index ! k)
         \<and> newest_virtual_chapter (zones index' ! z) = newest_virtual_chapter (zones index ! z)"
  using assms
  by (auto simp: finish_next_chapter_def Let_def split: prod.splits if_splits)

lemma announce_chapter_closed_from_zones:
  assumes handler: "\<And>index j result index'.
                      handle index j c = Some (result, index') \<Longrightarrow> j < length (zones index)
                        \<Longrightarrow> zone_count index \<le> length (zones index)
                        \<Longrightarrow> zones_kept c index index'"
      and "announce_chapter_closed_from handle E router z c js index = Some (result, index')"
      and "\<forall>j \<in> set js. j < length (zones index)"
      and "zone_count index \<le> length (zones index)"
  shows "zones_kept c index index'"
  using assms(2,3,4)
proof (induction js arbitrary: index)
  case Nil
  then show ?case by simp
next
  case (Cons j js)
  show ?case
  proof (cases "zone_id (zones index ! z) = j")
    case True
    with Cons.prems show ?thesis
      by (intro Cons.IH) simp_all
  next
    case False
    let ?delivered = "if router
                      then Some (launch_zone_message E (chapter_closed_message c) j index)
                      else handle index j c"
    from False Cons.prems(1) obtain result1 index1 where
      delivered: "?delivered = Some (result1, index1)"
      by (cases ?delivered) (auto split: if_splits)
    have kept1: "zones_kept c index index1"
    proof (cases router)
      case True
      with delivered show ?thesis
        by (auto simp: zones_kept_def dest: launch_zone_message_zones)
    next
      case False
      with delivered Cons.prems(2,3) show ?thesis
        by (intro handler [of index j result1 index1]) simp_all
    qed
    show ?thesis
    proof (cases "result1 = UDS_SUCCESS")
      case False
      with \<open>zone_id (zones index ! z) \<noteq> j\<close> delivered Cons.prems(1) kept1 show ?thesis
        by (auto split: if_splits)
    next
      case True
      with \<open>zone_id (zones index ! z) \<noteq> j\<close> delivered Cons.prems(1)
      have rest: "announce_chapter_closed_from handle E router z c js index1
                    = Some (result, index')"
        by (auto split: if_splits)
      from kept1 Cons.prems(2,3) have "\<forall>j \<in> set js. j < length (zones index1)"
        and "zone_count index1 \<le> length (zones index1)"
        by (simp_all add: zones_kept_def)
      with rest have "zones_kept c index1 index'"
        by (rule Cons.IH)
      with kept1 show ?thesis
        by (rule zones_kept_trans)
    qed
  qed
qed

lemma open_next_chapter_with_zones:
  assumes handler: "\<And>index j result index'.
                      handle index j c = Some (result, index') \<Longrightarrow> j < length (zones index)
                        \<Longrightarrow> zone_count index \<le> length (zones index)
                        \<Longrightarrow> zones_kept c index index'"
      and opened: "open_next_chapter_with handle E index z request = Some (result, index')"
      and newest: "newest_virtual_chapter (zones index ! z) = c"
      and z: "z < length (zones index)"
      and zs: "zone_count index \<le> length (zones index)"
  shows "zones_kept c index index'"
proof (cases "start_next_chapter E index z")
  case (Inl early)
  with opened have "start_next_chapter E index z = Inl (result, index')"
    by (simp add: open_next_chapter_with_def)
  with z newest show ?thesis
    by (auto dest: start_next_chapter_zones(1))
next
  case (Inr started)
  then obtain finished_zones closed_chapter index6 where
    started: "start_next_chapter E index z = Inr (finished_zones, closed_chapter, index6)"
    by (cases started) auto
  from started z newest have closed: "closed_chapter = c"
    and closing: "zone_closing index z index6"
    by (auto dest: start_next_chapter_started)
  from started z newest have kept6: "zones_kept c index index6"
    by (auto dest: start_next_chapter_zones(2))
  have finish: "zones_kept c index index''"
    if "zones_kept c index index7"
      and "finish_next_chapter E index7 z finished_zones r = (result'', index'')"
    for index7 r result'' index''
  proof -
    from that(1) z have "z < length (zones index7)"
      by (simp add: zones_kept_def)
    with that(2) have "length (zones index'') = length (zones index7)
         \<and> zone_count index'' = zone_count index7
         \<and> (\<forall>k. k \<noteq> z \<longrightarrow> zones index'' ! k = zones index7 ! k)"
      by (auto dest: finish_next_chapter_zones)
    with that(1) newest show ?thesis
      by (auto simp: zones_kept_def)
  qed
  show ?thesis
  proof (cases "finished_zones = 1 \<and> 1 < zone_count index6")
    case False
    with opened started have
      "finish_next_chapter E index6 z finished_zones UDS_SUCCESS = (result, index')"
      by (auto simp: open_next_chapter_with_def)
    with kept6 show ?thesis
      by (rule finish)
  next
    case True
    let ?router = "case request of None \<Rightarrow> False | Some r \<Rightarrow> has_router r"
    from True opened started closed obtain result7 index7 where
      announced: "announce_chapter_closed_from handle E ?router z c
                    [0..<zone_count index6] index6 = Some (result7, index7)"
      and finished: "(result, index')
                       = (if result7 \<noteq> UDS_SUCCESS then (result7, index7)
                          else finish_next_chapter E index7 z finished_zones result7)"
      by (auto simp: open_next_chapter_with_def announce_chapter_closed_def
               split: option.splits if_splits)
    from kept6 zs have "\<forall>j \<in> set [0..<zone_count index6]. j < length (zones index6)"
      and "zone_count index6 \<le> length (zones index6)"
      by (simp_all add: zones_kept_def)
    with handler announced have "zones_kept c index6 index7"
      by (rule announce_chapter_closed_from_zones)
    with kept6 have kept7: "zones_kept c index index7"
      by (rule zones_kept_trans)
    show ?thesis
    proof (cases "result7 = UDS_SUCCESS")
      case False
      with finished kept7 show ?thesis by simp
    next
      case True
      with finished have
        "finish_next_chapter E index7 z finished_zones result7 = (result, index')"
        by simp
      with kept7 show ?thesis
        by (rule finish)
    qed
  qed
qed

lemma handle_chapter_closed_zones:
  "handle_chapter_closed depth E index j c = Some (result, index')
     \<Longrightarrow> j < length (zones index) \<Longrightarrow> zone_count index \<le> length (zones index)
     \<Longrightarrow> zones_kept c index index'"
proof (induction depth arbitrary: index j result index')
  case 0
  then show ?case
    by (auto split: if_splits)
next
  case (Suc depth)
  show ?case
  proof (cases "newest_virtual_chapter (zones index ! j) = c")
    case False
    with Suc.prems(1) show ?thesis by simp
  next
    case True
    with Suc.prems(1) have
      opened: "open_next_chapter_with (handle_chapter_closed depth E) E index j None
                 = Some (result, index')"
      by simp
    from Suc.IH opened True Suc.prems(2,3) show ?thesis
      by (rule open_next_chapter_with_zones)
  qed
qed

lemma open_next_chapter_zones:
  assumes "open_next_chapter depth E index z request = Some (result, index')"
      and "z < length (zones index)"
      and "zone_count index \<le> length (zones index)"
  shows "zones_kept (newest_virtual_chapter (zones index ! z)) index index'"
  using handle_chapter_closed_zones assms(1) refl assms(2,3)
  unfolding open_next_chapter_def
  by (rule open_next_chapter_with_zones)

lemma zones_at_card:
  "zones_at c index
     = card {k. k < length (zones index) \<and> newest_virtual_chapter (zones index ! k) = c}"
  by (simp add: zones_at_def length_filter_conv_card)

lemma zones_kept_zones_at:
  assumes "zones_kept c index index'"
  shows "zones_at c index' \<le> zones_at c index"
  unfolding zones_at_card
proof (rule card_mono)
  show "finite {k. k < length (zones index) \<and> newest_virtual_chapter (zones index ! k) = c}"
    by simp
  from assms
  show "{k. k < length (zones index') \<and> newest_virtual_chapter (zones index' ! k) = c}
          \<subseteq> {k. k < length (zones index) \<and> newest_virtual_chapter (zones index ! k) = c}"
    by (auto simp: zones_kept_def)
qed

lemma zone_closing_zones_at:
  assumes "zone_closing index z index'"
      and "z < length (zones index)"
      and "newest_virtual_chapter (zones index ! z) = c"
  shows "zones_at c index' < zones_at c index"
  unfolding zones_at_card
proof (rule psubset_card_mono)
  show "finite {k. k < length (zones index) \<and> newest_virtual_chapter (zones index ! k) = c}"
    by simp
  from assms have "z \<notin> {k. k < length (zones index')
                              \<and> newest_virtual_chapter (zones index' ! k) = c}"
    by (simp add: zone_closing_def)
  moreover from assms
  have "z \<in> {k. k < length (zones index) \<and> newest_virtual_chapter (zones index ! k) = c}"
    by simp
  moreover from assms
  have "{k. k < length (zones index') \<and> newest_virtual_chapter (zones index' ! k) = c}
          \<subseteq> {k. k < length (zones index) \<and> newest_virtual_chapter (zones index ! k) = c}"
    by (auto simp: zone_closing_def)
  ultimately
  show "{k. k < length (zones index') \<and> newest_virtual_chapter (zones index' ! k) = c}
          \<subset> {k. k < length (zones index) \<and> newest_virtual_chapter (zones index ! k) = c}"
    by blast
qed

lemma zones_at_positive:
  assumes "z < length (zones index)"
      and "newest_virtual_chapter (zones index ! z) = c"
  shows "0 < zones_at c index"
proof -
  from assms have "zones index ! z \<in> set (filter (\<lambda>zone. newest_virtual_chapter zone = c)
                                             (zones index))"
    by simp
  then show ?thesis
    unfolding zones_at_def by (metis length_pos_if_in_set)
qed

lemma announce_chapter_closed_from_returns:
  assumes kept: "\<And>index j result index'.
                   handle index j c = Some (result, index') \<Longrightarrow> j < length (zones index)
                     \<Longrightarrow> zone_count index \<le> length (zones index)
                     \<Longrightarrow> zones_kept c index index'"
      and returns: "\<And>index j. zones_at c index \<le> d \<Longrightarrow> j < length (zones index)
                      \<Longrightarrow> zone_count index \<le> length (zones index)
                      \<Longrightarrow> handle index j c \<noteq> None"
      and "zones_at c index \<le> d"
      and "\<forall>j \<in> set js. j < length (zones index)"
      and "zone_count index \<le> length (zones index)"
  shows "announce_chapter_closed_from handle E router z c js index \<noteq> None"
  using assms(3,4,5)
proof (induction js arbitrary: index)
  case Nil
  show ?case by simp
next
  case (Cons j js)
  show ?case
  proof (cases "zone_id (zones index ! z) = j")
    case True
    with Cons.prems show ?thesis
      by (simp add: Cons.IH)
  next
    case False
    let ?delivered = "if router
                      then Some (launch_zone_message E (chapter_closed_message c) j index)
                      else handle index j c"
    from Cons.prems have "handle index j c \<noteq> None"
      by (intro returns) simp_all
    then have "?delivered \<noteq> None"
      by simp
    then obtain result1 index1 where delivered: "?delivered = Some (result1, index1)"
      by (cases ?delivered) auto
    have kept1: "zones_kept c index index1"
    proof (cases router)
      case True
      with delivered show ?thesis
        by (auto simp: zones_kept_def dest: launch_zone_message_zones)
    next
      case False
      with delivered Cons.prems(2,3) show ?thesis
        by (intro kept [of index j result1 index1]) simp_all
    qed
    from kept1 Cons.prems have "zones_at c index1 \<le> d"
      and "\<forall>j \<in> set js. j < length (zones index1)"
      and "zone_count index1 \<le> length (zones index1)"
      using zones_kept_zones_at [OF kept1] by (simp_all add: zones_kept_def)
    then have "announce_chapter_closed_from handle E router z c js index1 \<noteq> None"
      by (rule Cons.IH)
    with False delivered show ?thesis
      by (cases router) auto
  qed
qed

lemma open_next_chapter_with_returns:
  assumes kept: "\<And>index j result index'.
                   handle index j c = Some (result, index') \<Longrightarrow> j < length (zones index)
                     \<Longrightarrow> zone_count index \<le> length (zones index)
                     \<Longrightarrow> zones_kept c index index'"
      and returns: "\<And>index j. zones_at c index \<le> d \<Longrightarrow> j < length (zones index)
                      \<Longrightarrow> zone_count index \<le> length (zones index)
                      \<Longrightarrow> handle index j c \<noteq> None"
      and newest: "newest_virtual_chapter (zones index ! z) = c"
      and z: "z < length (zones index)"
      and zs: "zone_count index \<le> length (zones index)"
      and bound: "zones_at c index \<le> Suc d"
  shows "open_next_chapter_with handle E index z request \<noteq> None"
proof (cases "start_next_chapter E index z")
  case (Inl early)
  then show ?thesis
    by (simp add: open_next_chapter_with_def)
next
  case (Inr started)
  then obtain finished_zones closed_chapter index6 where
    started: "start_next_chapter E index z = Inr (finished_zones, closed_chapter, index6)"
    by (cases started) auto
  from started z newest have closed: "closed_chapter = c"
    and closing: "zone_closing index z index6"
    by (auto dest: start_next_chapter_started)
  from closing z newest have "zones_at c index6 < zones_at c index"
    by (rule zone_closing_zones_at)
  with bound have bound6: "zones_at c index6 \<le> d"
    by simp
  from closing z zs have "\<forall>j \<in> set [0..<zone_count index6]. j < length (zones index6)"
    and "zone_count index6 \<le> length (zones index6)"
    by (simp_all add: zone_closing_def)
  with kept returns bound6
  have "announce_chapter_closed_from handle E
          (case request of None \<Rightarrow> False | Some r \<Rightarrow> has_router r) z c
          [0..<zone_count index6] index6 \<noteq> None"
    by (rule announce_chapter_closed_from_returns)
  with started closed show ?thesis
    by (auto simp: open_next_chapter_with_def announce_chapter_closed_def
             split: option.splits)
qed

lemma handle_chapter_closed_returns:
  "zones_at c index \<le> depth \<Longrightarrow> j < length (zones index)
     \<Longrightarrow> zone_count index \<le> length (zones index)
     \<Longrightarrow> handle_chapter_closed depth E index j c \<noteq> None"
proof (induction depth arbitrary: index j)
  case 0
  then show ?case
    using zones_at_positive [of j index c] by auto
next
  case (Suc depth)
  show ?case
  proof (cases "newest_virtual_chapter (zones index ! j) = c")
    case False
    then show ?thesis by simp
  next
    case True
    from handle_chapter_closed_zones Suc.IH True Suc.prems(2,3,1)
    have "open_next_chapter_with (handle_chapter_closed depth E) E index j None \<noteq> None"
      by (rule open_next_chapter_with_returns)
    with True show ?thesis by simp
  qed
qed

lemma open_next_chapter_returns:
  assumes "zones_at (newest_virtual_chapter (zones index ! z)) index \<le> Suc depth"
      and "z < length (zones index)"
      and "zone_count index \<le> length (zones index)"
  shows "open_next_chapter depth E index z request \<noteq> None"
  using handle_chapter_closed_zones handle_chapter_closed_returns refl assms(2,3,1)
  unfolding open_next_chapter_def
  by (rule open_next_chapter_with_returns)

lemma open_next_chapter_newest:
  assumes opened: "open_next_chapter depth E index z request = Some (result, index')"
      and z: "z < length (zones index)"
      and zs: "zone_count index \<le> length (zones index)"
      and writer: "fst (finish_previous_chapter E (components index)
                          (newest_virtual_chapter (zones index ! z))) = UDS_SUCCESS"
  shows "newest_virtual_chapter (zones index' ! z)
           = newest_virtual_chapter (zones index ! z) + 1"
proof (cases "start_next_chapter E index z")
  case (Inl early)
  with opened have "start_next_chapter E index z = Inl (result, index')"
    by (simp add: open_next_chapter_def open_next_chapter_with_def)
  from this z writer have "zone_closing index z index'"
    by (rule start_next_chapter_early)
  then show ?thesis
    by (simp add: zone_closing_def)
next
  case (Inr started)
  let ?c = "newest_virtual_chapter (zones index ! z)"
  from Inr obtain finished_zones closed_chapter index6 where
    started: "start_next_chapter E index z = Inr (finished_zones, closed_chapter, index6)"
    by (cases started) auto
  from started z have closed: "closed_chapter = ?c"
    and closing: "zone_closing index z index6"
    by (auto dest: start_next_chapter_started)
  from closing z have z6: "z < length (zones index6)"
    and newest6: "newest_virtual_chapter (zones index6 ! z) = ?c + 1"
    by (simp_all add: zone_closing_def)
  have finish: "newest_virtual_chapter (zones index'' ! z) = ?c + 1"
    if "zones_kept ?c index6 index7"
      and "finish_next_chapter E index7 z finished_zones r = (result'', index'')"
    for index7 r result'' index''
  proof -
    from that(1) z6 newest6 have "z < length (zones index7)"
      and "zones index7 ! z = zones index6 ! z"
      by (simp_all add: zones_kept_def)
    with that(2) newest6 show ?thesis
      by (auto dest: finish_next_chapter_zones)
  qed
  show ?thesis
  proof (cases "finished_zones = 1 \<and> 1 < zone_count index6")
    case False
    with opened started have
      "finish_next_chapter E index6 z finished_zones UDS_SUCCESS = (result, index')"
      by (auto simp: open_next_chapter_def open_next_chapter_with_def)
    with zones_kept_refl show ?thesis
      by (rule finish)
  next
    case True
    let ?router = "case request of None \<Rightarrow> False | Some r \<Rightarrow> has_router r"
    from True opened started closed obtain result7 index7 where
      announced: "announce_chapter_closed_from (handle_chapter_closed depth E) E ?router z ?c
                    [0..<zone_count index6] index6 = Some (result7, index7)"
      and finished: "(result, index')
                       = (if result7 \<noteq> UDS_SUCCESS then (result7, index7)
                          else finish_next_chapter E index7 z finished_zones result7)"
      by (auto simp: open_next_chapter_def open_next_chapter_with_def
                     announce_chapter_closed_def
               split: option.splits if_splits)
    from closing zs have "\<forall>j \<in> set [0..<zone_count index6]. j < length (zones index6)"
      and "zone_count index6 \<le> length (zones index6)"
      by (simp_all add: zone_closing_def)
    with handle_chapter_closed_zones announced have kept7: "zones_kept ?c index6 index7"
      by (rule announce_chapter_closed_from_zones)
    show ?thesis
    proof (cases "result7 = UDS_SUCCESS")
      case False
      with finished kept7 newest6 show ?thesis
        by (simp add: zones_kept_def)
    next
      case True
      with finished have
        "finish_next_chapter E index7 z finished_zones result7 = (result, index')"
        by simp
      with kept7 show ?thesis
        by (rule finish)
    qed
  qed
qed

lemma zones_at_length: "zones_at c index \<le> length (zones index)"
  by (simp add: zones_at_def)

lemma start_next_chapter_writer_failed:
  assumes "finish_previous_chapter E (components index) (newest_virtual_chapter (zones index ! z))
             = (result, x)"
      and "result \<noteq> UDS_SUCCESS"
  shows "start_next_chapter E index z = Inl (result, index\<lparr>components := x\<rparr>)"
  using assms by (simp add: start_next_chapter_def swap_open_chapter_def Let_def)

text \<open>
  Claim C1, as stated: a put into the open chapter that leaves no remaining slot closes the
  chapter and advances the newest virtual chapter of the zone by one. It fails when the
  chapter writer has failed to write the previous chapter: here the put leaves no slot,
  \<open>open_next_chapter\<close> returns the writer's error before the chapters are swapped, and
  the newest virtual chapter of the zone is still 0.
\<close>

theorem full_chapter_not_closed_when_writer_fails:
  "fst (snd (put_open_chapter model_externals (open_chapter (zones writer_failed_index ! 0))
               N0 M0)) = 0
   \<and> newest_virtual_chapter (zones writer_failed_index ! 0) = 0
   \<and> map_option (\<lambda>(result, index'). (result, newest_virtual_chapter (zones index' ! 0)))
         (put_record_in_zone 0 model_externals writer_failed_index 0
            (example_request UDS_POST N0 M0) M0)
       = Some (UDS_CORRUPT_DATA, 0)"
  by code_simp

text \<open>
  Claim C1, amended. \<open>z\<close> is a zone of the index, and the request came through the zone
  queues or the nested closings allowed are as many as there are zones. When a put into the
  open chapter of the zone succeeds and leaves no remaining slot, \<open>put_record_in_zone\<close>
  is \<open>open_next_chapter\<close> on the index that holds the record. If waiting for the chapter
  writer (\<open>finish_previous_chapter\<close>, which returns \<open>written\<close>) succeeds, the call
  returns and the newest virtual chapter of the zone has advanced by exactly one. If it
  fails, the call returns the writer's error and the index that holds the record, with the
  newest virtual chapter as it was. A put that succeeds and leaves a slot returns
  \<open>UDS_SUCCESS\<close> with only the open chapter changed.
\<close>

theorem put_record_in_zone_closes_full_chapter:
  assumes put: "put_open_chapter E (open_chapter (zones index ! z)) (chunk_name request)
                  metadata = (UDS_SUCCESS, remaining, filled)"
      and z: "z < length (zones index)"
      and zs: "zone_count index \<le> length (zones index)"
      and depth: "has_router request \<or> length (zones index) \<le> Suc depth"
      and writer: "finish_previous_chapter E (components index)
                     (newest_virtual_chapter (zones index ! z)) = (written, x)"
  shows "(remaining = 0 \<longrightarrow>
            put_record_in_zone depth E index z request metadata
              = open_next_chapter depth E
                  (set_zone index z ((zones index ! z)\<lparr>open_chapter := filled\<rparr>)) z
                  (Some request)
            \<and> (written = UDS_SUCCESS \<longrightarrow>
                 (\<exists>result index'.
                    put_record_in_zone depth E index z request metadata = Some (result, index')
                    \<and> newest_virtual_chapter (zones index' ! z)
                        = newest_virtual_chapter (zones index ! z) + 1))
            \<and> (written \<noteq> UDS_SUCCESS \<longrightarrow>
                 put_record_in_zone depth E index z request metadata
                   = Some (written,
                           (set_zone index z ((zones index ! z)\<lparr>open_chapter := filled\<rparr>))
                             \<lparr>components := x\<rparr>)))
         \<and> (remaining \<noteq> 0 \<longrightarrow>
              put_record_in_zone depth E index z request metadata
                = Some (UDS_SUCCESS,
                        set_zone index z ((zones index ! z)\<lparr>open_chapter := filled\<rparr>)))"
proof (intro conjI impI)
  assume "remaining \<noteq> 0"
  with put show "put_record_in_zone depth E index z request metadata
      = Some (UDS_SUCCESS, set_zone index z ((zones index ! z)\<lparr>open_chapter := filled\<rparr>))"
    by (simp add: put_record_in_zone_def Let_def)
next
  let ?index1 = "set_zone index z ((zones index ! z)\<lparr>open_chapter := filled\<rparr>)"
  assume full: "remaining = 0"
  with put show run: "put_record_in_zone depth E index z request metadata
                        = open_next_chapter depth E ?index1 z (Some request)"
    by (simp add: put_record_in_zone_def Let_def)
  from z have z1: "z < length (zones ?index1)"
    and newest1: "newest_virtual_chapter (zones ?index1 ! z)
                    = newest_virtual_chapter (zones index ! z)"
    by simp_all
  from zs have zs1: "zone_count ?index1 \<le> length (zones ?index1)"
    by simp
  from writer z have writer1: "finish_previous_chapter E (components ?index1)
                                 (newest_virtual_chapter (zones ?index1 ! z)) = (written, x)"
    by simp
  {
    assume ok: "written = UDS_SUCCESS"
    have "open_next_chapter depth E ?index1 z (Some request) \<noteq> None"
    proof (cases "has_router request")
      case True
      then show ?thesis
        by (rule open_next_chapter_router)
    next
      case False
      with depth have "zones_at (newest_virtual_chapter (zones ?index1 ! z)) ?index1 \<le> Suc depth"
        using zones_at_length [of "newest_virtual_chapter (zones ?index1 ! z)" ?index1]
        by simp
      from this z1 zs1 show ?thesis
        by (rule open_next_chapter_returns)
    qed
    then obtain result index' where
      opened: "open_next_chapter depth E ?index1 z (Some request) = Some (result, index')"
      by (cases "open_next_chapter depth E ?index1 z (Some request)") auto
    from writer1 ok have "fst (finish_previous_chapter E (components ?index1)
                                 (newest_virtual_chapter (zones ?index1 ! z))) = UDS_SUCCESS"
      by simp
    with opened z1 zs1
    have "newest_virtual_chapter (zones index' ! z)
            = newest_virtual_chapter (zones ?index1 ! z) + 1"
      by (rule open_next_chapter_newest)
    with run opened newest1
    show "\<exists>result index'.
            put_record_in_zone depth E index z request metadata = Some (result, index')
            \<and> newest_virtual_chapter (zones index' ! z)
                = newest_virtual_chapter (zones index ! z) + 1"
      by simp
  }
  {
    assume failed: "written \<noteq> UDS_SUCCESS"
    with writer1 have "start_next_chapter E ?index1 z = Inl (written, ?index1\<lparr>components := x\<rparr>)"
      by (rule start_next_chapter_writer_failed)
    with run show "put_record_in_zone depth E index z request metadata
                     = Some (written, ?index1\<lparr>components := x\<rparr>)"
      by (simp add: open_next_chapter_def open_next_chapter_with_def)
  }
qed

theorem put_record_in_zone_closes_full_chapter_witness:
  "put_open_chapter model_externals (open_chapter (zones closing_index ! 0))
       (chunk_name (example_request UDS_POST N0 M0)) M0
     = (UDS_SUCCESS, 0, \<lparr>capacity = 1, slots = [(N0, M0, False)]\<rparr>)
   \<and> finish_previous_chapter model_externals (components closing_index)
         (newest_virtual_chapter (zones closing_index ! 0))
       = (UDS_SUCCESS, components closing_index)
   \<and> (\<exists>result index'.
         put_record_in_zone 0 model_externals closing_index 0
             (example_request UDS_POST N0 M0) M0 = Some (result, index')
         \<and> newest_virtual_chapter (zones index' ! 0) = 1)
   \<and> put_open_chapter model_externals (open_chapter (zones writer_failed_index ! 0))
         (chunk_name (example_request UDS_POST N0 M0)) M0
       = (UDS_SUCCESS, 0, \<lparr>capacity = 1, slots = [(N0, M0, False)]\<rparr>)
   \<and> finish_previous_chapter model_externals (components writer_failed_index)
         (newest_virtual_chapter (zones writer_failed_index ! 0))
       = (UDS_CORRUPT_DATA, components writer_failed_index)
   \<and> (\<exists>index'.
         put_record_in_zone 0 model_externals writer_failed_index 0
             (example_request UDS_POST N0 M0) M0 = Some (UDS_CORRUPT_DATA, index')
         \<and> newest_virtual_chapter (zones index' ! 0) = 0)
   \<and> put_open_chapter model_externals (open_chapter (zones example_index ! 0))
         (chunk_name (example_request UDS_POST N0 M0)) M0
       = (UDS_SUCCESS, 31, \<lparr>capacity = 32, slots = [(N0, M0, False)]\<rparr>)
   \<and> (\<exists>index'.
         put_record_in_zone 0 model_externals example_index 0
             (example_request UDS_POST N0 M0) M0 = Some (UDS_SUCCESS, index')
         \<and> newest_virtual_chapter (zones index' ! 0) = 0)"
proof -
  let ?r = "example_request UDS_POST N0 M0"
  have put: "put_open_chapter model_externals (open_chapter (zones closing_index ! 0))
               (chunk_name ?r) M0
               = (UDS_SUCCESS, 0, \<lparr>capacity = 1, slots = [(N0, M0, False)]\<rparr>)"
    and put': "put_open_chapter model_externals (open_chapter (zones writer_failed_index ! 0))
                 (chunk_name ?r) M0
                 = (UDS_SUCCESS, 0, \<lparr>capacity = 1, slots = [(N0, M0, False)]\<rparr>)"
    and put'': "put_open_chapter model_externals (open_chapter (zones example_index ! 0))
                  (chunk_name ?r) M0
                  = (UDS_SUCCESS, 31, \<lparr>capacity = 32, slots = [(N0, M0, False)]\<rparr>)"
    by (simp_all add: writer_failed_index_def closing_index_def example_defs
                      model_put_open_chapter_def)
  have writer: "finish_previous_chapter model_externals (components closing_index)
                  (newest_virtual_chapter (zones closing_index ! 0))
                  = (UDS_SUCCESS, components closing_index)"
    and writer': "finish_previous_chapter model_externals (components writer_failed_index)
                    (newest_virtual_chapter (zones writer_failed_index ! 0))
                    = (UDS_CORRUPT_DATA, components writer_failed_index)"
    and writer'': "finish_previous_chapter model_externals (components example_index)
                     (newest_virtual_chapter (zones example_index ! 0))
                     = (UDS_SUCCESS, components example_index)"
    by (simp_all add: writer_failed_index_def closing_index_def example_defs)
  have z: "0 < length (zones closing_index)" "0 < length (zones writer_failed_index)"
      "0 < length (zones example_index)"
    and zs: "zone_count closing_index \<le> length (zones closing_index)"
      "zone_count writer_failed_index \<le> length (zones writer_failed_index)"
      "zone_count example_index \<le> length (zones example_index)"
    and router: "has_router ?r \<or> length (zones closing_index) \<le> Suc 0"
      "has_router ?r \<or> length (zones writer_failed_index) \<le> Suc 0"
      "has_router ?r \<or> length (zones example_index) \<le> Suc 0"
    and newest: "newest_virtual_chapter (zones closing_index ! 0) = 0"
      "newest_virtual_chapter (zones example_index ! 0) = 0"
    by (simp_all add: writer_failed_index_def closing_index_def example_defs)
  from put_record_in_zone_closes_full_chapter [OF put z(1) zs(1) router(1) writer]
  have "\<exists>result index'.
          put_record_in_zone 0 model_externals closing_index 0 ?r M0 = Some (result, index')
          \<and> newest_virtual_chapter (zones index' ! 0)
              = newest_virtual_chapter (zones closing_index ! 0) + 1"
    by blast
  then have one: "\<exists>result index'.
               put_record_in_zone 0 model_externals closing_index 0 ?r M0
                 = Some (result, index')
               \<and> newest_virtual_chapter (zones index' ! 0) = 1"
    by (simp add: newest)
  from put_record_in_zone_closes_full_chapter [OF put' z(2) zs(2) router(2) writer']
  have "put_record_in_zone 0 model_externals writer_failed_index 0 ?r M0
          = Some (UDS_CORRUPT_DATA,
                  (set_zone writer_failed_index 0
                     ((zones writer_failed_index ! 0)
                        \<lparr>open_chapter := \<lparr>capacity = 1, slots = [(N0, M0, False)]\<rparr>\<rparr>))
                    \<lparr>components := components writer_failed_index\<rparr>)"
    by blast
  moreover
  have "newest_virtual_chapter
          (zones ((set_zone writer_failed_index 0
                     ((zones writer_failed_index ! 0)
                        \<lparr>open_chapter := \<lparr>capacity = 1, slots = [(N0, M0, False)]\<rparr>\<rparr>))
                    \<lparr>components := components writer_failed_index\<rparr>) ! 0) = 0"
    by (simp add: writer_failed_index_def closing_index_def example_defs)
  ultimately
  have two: "\<exists>index'.
               put_record_in_zone 0 model_externals writer_failed_index 0 ?r M0
                 = Some (UDS_CORRUPT_DATA, index')
               \<and> newest_virtual_chapter (zones index' ! 0) = 0"
    by blast
  from put_record_in_zone_closes_full_chapter [OF put'' z(3) zs(3) router(3) writer'']
  have "put_record_in_zone 0 model_externals example_index 0 ?r M0
          = Some (UDS_SUCCESS,
                  set_zone example_index 0
                    ((zones example_index ! 0)
                       \<lparr>open_chapter := \<lparr>capacity = 32, slots = [(N0, M0, False)]\<rparr>\<rparr>))"
    by simp
  moreover
  have "newest_virtual_chapter
          (zones (set_zone example_index 0
                    ((zones example_index ! 0)
                       \<lparr>open_chapter := \<lparr>capacity = 32, slots = [(N0, M0, False)]\<rparr>\<rparr>)) ! 0)
        = 0"
    by (simp add: example_defs)
  ultimately
  have three: "\<exists>index'.
               put_record_in_zone 0 model_externals example_index 0 ?r M0
                 = Some (UDS_SUCCESS, index')
               \<and> newest_virtual_chapter (zones index' ! 0) = 0"
    by blast
  from put writer one put' writer' two put'' three show ?thesis
    by (simp only: simp_thms)
qed

lemma allocations_succeed_fewer:
  "allocations_succeed E (Suc n) x \<Longrightarrow> allocations_succeed E n x"
proof (induction n arbitrary: x)
  case 0
  show ?case by simp
next
  case (Suc n)
  obtain result x' where alloc: "uds_allocate E x = (result, x')"
    by (cases "uds_allocate E x")
  with Suc.prems have "result = UDS_SUCCESS" and "allocations_succeed E (Suc n) x'"
    by simp_all
  from this(2) have "allocations_succeed E n x'"
    by (rule Suc.IH)
  with alloc \<open>result = UDS_SUCCESS\<close> show ?case
    by simp
qed

lemma announced_subset: "set (announced E closing js x) \<subseteq> set js - {closing}"
  by (induction js arbitrary: x) (auto split: prod.splits if_splits)

lemma all_announced:
  "allocations_succeed E (length js) x
     \<Longrightarrow> announced E closing js x = filter (\<lambda>i. i \<noteq> closing) js
         \<and> announcement_result E closing js x = UDS_SUCCESS"
proof (induction js arbitrary: x)
  case Nil
  show ?case by simp
next
  case (Cons j js)
  obtain result x' where alloc: "uds_allocate E x = (result, x')"
    by (cases "uds_allocate E x")
  have "length (j # js) = Suc (length js)"
    by simp
  with Cons.prems have all: "allocations_succeed E (Suc (length js)) x"
    by (simp only:)
  show ?case
  proof (cases "j = closing")
    case True
    from all have "allocations_succeed E (length js) x"
      by (rule allocations_succeed_fewer)
    then have "announced E closing js x = filter (\<lambda>i. i \<noteq> closing) js
               \<and> announcement_result E closing js x = UDS_SUCCESS"
      by (rule Cons.IH)
    with True show ?thesis
      by simp
  next
    case False
    from all alloc have "result = UDS_SUCCESS" and "allocations_succeed E (length js) x'"
      by simp_all
    from this(2) have "announced E closing js x' = filter (\<lambda>i. i \<noteq> closing) js
               \<and> announcement_result E closing js x' = UDS_SUCCESS"
      by (rule Cons.IH)
    with False alloc \<open>result = UDS_SUCCESS\<close> show ?thesis
      by simp
  qed
qed

lemma announce_chapter_closed_from_launches:
  assumes "\<forall>i \<in> set js. i < length (zone_queues index)"
      and "distinct js"
  shows "\<exists>index'. announce_chapter_closed_from handle E True z c js index
                    = Some (announcement_result E (zone_id (zones index ! z)) js
                              (components index), index')
                  \<and> zone_queues index'
                      = map (\<lambda>i. zone_queues index ! i
                                   @ (if i \<in> set (announced E (zone_id (zones index ! z)) js
                                                    (components index))
                                      then [chapter_closed_request c i] else []))
                          [0..<length (zone_queues index)]
                  \<and> zones index' = zones index
                  \<and> zone_count index' = zone_count index"
  using assms
proof (induction js arbitrary: index)
  case Nil
  show ?case
    by (simp add: map_nth)
next
  case (Cons j js)
  let ?id = "zone_id (zones index ! z)"
  show ?case
  proof (cases "?id = j")
    case True
    from Cons.prems have "\<forall>i \<in> set js. i < length (zone_queues index)" and "distinct js"
      by simp_all
    then obtain index' where
      "announce_chapter_closed_from handle E True z c js index
         = Some (announcement_result E ?id js (components index), index')"
      and "zone_queues index'
             = map (\<lambda>i. zone_queues index ! i
                          @ (if i \<in> set (announced E ?id js (components index))
                             then [chapter_closed_request c i] else []))
                 [0..<length (zone_queues index)]"
      and "zones index' = zones index" "zone_count index' = zone_count index"
      using Cons.IH [of index] by blast
    with True show ?thesis
      by simp
  next
    case False
    obtain result x where alloc: "uds_allocate E (components index) = (result, x)"
      by (cases "uds_allocate E (components index)")
    have same: "message_request (chapter_closed_message c) j = chapter_closed_request c j"
      by (simp add: message_request_def chapter_closed_message_def chapter_closed_request_def)
    show ?thesis
    proof (cases "result = UDS_SUCCESS")
      case failed: False
      with alloc have "launch_zone_message E (chapter_closed_message c) j index
                         = (result, index\<lparr>components := x\<rparr>)"
        by (simp add: launch_zone_message_def)
      with False failed alloc
      have "announce_chapter_closed_from handle E True z c (j # js) index
              = Some (announcement_result E ?id (j # js) (components index),
                      index\<lparr>components := x\<rparr>)"
        and "announced E ?id (j # js) (components index) = []"
        by auto
      then show ?thesis
        by (simp add: map_nth)
    next
      case True
      let ?index1 = "index\<lparr>components := x,
                            zone_queues := (zone_queues index)
                              [j := zone_queues index ! j @ [chapter_closed_request c j]]\<rparr>"
      from alloc True have "uds_allocate E (components index) = (UDS_SUCCESS, x)"
        by simp
      then have "launch_zone_message E (chapter_closed_message c) j index
                   = (UDS_SUCCESS,
                      index\<lparr>components := x,
                            zone_queues := (zone_queues index)
                              [j := zone_queues index ! j
                                      @ [message_request (chapter_closed_message c) j]]\<rparr>)"
        by (rule launch_zone_message_success)
      then have step: "launch_zone_message E (chapter_closed_message c) j index
                         = (UDS_SUCCESS, ?index1)"
        by (simp only: same)
      from Cons.prems have "\<forall>i \<in> set js. i < length (zone_queues ?index1)" and "distinct js"
        by simp_all
      then obtain index' where
        rest: "announce_chapter_closed_from handle E True z c js ?index1
                 = Some (announcement_result E (zone_id (zones ?index1 ! z)) js
                           (components ?index1), index')"
        and queues: "zone_queues index'
               = map (\<lambda>i. zone_queues ?index1 ! i
                            @ (if i \<in> set (announced E (zone_id (zones ?index1 ! z)) js
                                             (components ?index1))
                               then [chapter_closed_request c i] else []))
                   [0..<length (zone_queues ?index1)]"
        and kept: "zones index' = zones ?index1" "zone_count index' = zone_count ?index1"
        using Cons.IH [of ?index1] by blast
      have notin: "j \<notin> set (announced E ?id js x)"
        using Cons.prems(2) announced_subset [of E ?id js x] by auto
      note queues
      also have "map (\<lambda>i. zone_queues ?index1 ! i
                            @ (if i \<in> set (announced E (zone_id (zones ?index1 ! z)) js
                                             (components ?index1))
                               then [chapter_closed_request c i] else []))
                   [0..<length (zone_queues ?index1)]
            = map (\<lambda>i. zone_queues index ! i
                         @ (if i \<in> set (announced E ?id (j # js) (components index))
                            then [chapter_closed_request c i] else []))
                [0..<length (zone_queues index)]"
      proof (rule map_cong)
        show "[0..<length (zone_queues ?index1)] = [0..<length (zone_queues index)]"
          by simp
      next
        fix i
        assume "i \<in> set [0..<length (zone_queues index)]"
        then have "i < length (zone_queues index)"
          by simp
        with notin False alloc True
        show "zone_queues ?index1 ! i
                @ (if i \<in> set (announced E (zone_id (zones ?index1 ! z)) js
                                 (components ?index1))
                   then [chapter_closed_request c i] else [])
              = zone_queues index ! i
                  @ (if i \<in> set (announced E ?id (j # js) (components index))
                     then [chapter_closed_request c i] else [])"
          by (cases "i = j") auto
      qed
      finally have queues': "zone_queues index'
            = map (\<lambda>i. zone_queues index ! i
                         @ (if i \<in> set (announced E ?id (j # js) (components index))
                            then [chapter_closed_request c i] else []))
                [0..<length (zone_queues index)]" .
      from rest step False alloc True
      have "announce_chapter_closed_from handle E True z c (j # js) index
              = Some (announcement_result E ?id (j # js) (components index), index')"
        by simp
      moreover from kept have "zones index' = zones index" "zone_count index' = zone_count index"
        by simp_all
      ultimately show ?thesis
        using queues' by blast
    qed
  qed
qed


lemma start_next_chapter_Inl_failed:
  "start_next_chapter E index z = Inl (result, index1) \<Longrightarrow> result \<noteq> UDS_SUCCESS"
  by (auto simp: start_next_chapter_def Let_def split: prod.splits if_splits)

lemma open_next_chapter_succeeded:
  assumes opened: "open_next_chapter depth E index z request = Some (UDS_SUCCESS, index')"
      and z: "z < length (zones index)"
      and zs: "zone_count index \<le> length (zones index)"
  shows "newest_virtual_chapter (zones index' ! z)
           = newest_virtual_chapter (zones index ! z) + 1"
proof -
  have "fst (finish_previous_chapter E (components index)
               (newest_virtual_chapter (zones index ! z))) = UDS_SUCCESS"
  proof (cases "start_next_chapter E index z")
    case (Inl early)
    with opened have "start_next_chapter E index z = Inl (UDS_SUCCESS, index')"
      by (simp add: open_next_chapter_def open_next_chapter_with_def)
    then show ?thesis
      by (auto dest: start_next_chapter_Inl_failed)
  next
    case (Inr started)
    then obtain finished_zones closed_chapter index6 where
      "start_next_chapter E index z = Inr (finished_zones, closed_chapter, index6)"
      by (cases started) auto
    with z show ?thesis
      by (auto dest: start_next_chapter_started)
  qed
  with opened z zs show ?thesis
    by (rule open_next_chapter_newest)
qed

lemma handle_chapter_closed_succeeded:
  assumes handled: "handle_chapter_closed depth E index j c = Some (UDS_SUCCESS, index')"
      and j: "j < length (zones index)"
      and zs: "zone_count index \<le> length (zones index)"
  shows "newest_virtual_chapter (zones index' ! j) \<noteq> c"
proof (cases "newest_virtual_chapter (zones index ! j) = c")
  case False
  with handled have "index' = index"
    by (cases depth) simp_all
  with False show ?thesis
    by simp
next
  case True
  with handled obtain d where depth: "depth = Suc d"
    by (cases depth) simp_all
  with handled True have "open_next_chapter d E index j None = Some (UDS_SUCCESS, index')"
    by (simp add: open_next_chapter_def)
  from this j zs have "newest_virtual_chapter (zones index' ! j)
                         = newest_virtual_chapter (zones index ! j) + 1"
    by (rule open_next_chapter_succeeded)
  with True show ?thesis
    by simp
qed

lemma announce_chapter_closed_from_direct:
  assumes "announce_chapter_closed_from (handle_chapter_closed depth E) E False z c js index
             = Some (UDS_SUCCESS, index')"
      and "\<forall>j \<in> set js. j < length (zones index)"
      and "zone_count index \<le> length (zones index)"
      and "newest_virtual_chapter (zones index ! z) \<noteq> c"
  shows "\<forall>j \<in> set js. j \<noteq> zone_id (zones index ! z)
                          \<longrightarrow> newest_virtual_chapter (zones index' ! j) \<noteq> c"
  using assms
proof (induction js arbitrary: index)
  case Nil
  show ?case by simp
next
  case (Cons j js)
  let ?id = "zone_id (zones index ! z)"
  show ?case
  proof (cases "?id = j")
    case True
    with Cons.prems(1)
    have "announce_chapter_closed_from (handle_chapter_closed depth E) E False z c js index
             = Some (UDS_SUCCESS, index')"
      by simp
    moreover from Cons.prems(2) have "\<forall>j \<in> set js. j < length (zones index)"
      by simp
    ultimately
    have "\<forall>j \<in> set js. j \<noteq> ?id \<longrightarrow> newest_virtual_chapter (zones index' ! j) \<noteq> c"
      using Cons.prems(3,4) by (rule Cons.IH)
    with True show ?thesis
      by simp
  next
    case False
    from False Cons.prems(1) obtain result1 index1 where
      delivered: "handle_chapter_closed depth E index j c = Some (result1, index1)"
      by (cases "handle_chapter_closed depth E index j c") auto
    with False Cons.prems(1) have result1: "result1 = UDS_SUCCESS"
      by (auto split: if_splits)
    with False delivered Cons.prems(1)
    have rest: "announce_chapter_closed_from (handle_chapter_closed depth E) E False z c js
                  index1 = Some (UDS_SUCCESS, index')"
      by simp
    from Cons.prems(2) have j: "j < length (zones index)"
      by simp
    from delivered j Cons.prems(3) have kept1: "zones_kept c index index1"
      by (rule handle_chapter_closed_zones)
    then have wf1: "\<forall>j \<in> set js. j < length (zones index1)"
      "zone_count index1 \<le> length (zones index1)"
      and closing: "zones index1 ! z = zones index ! z"
      using Cons.prems(2,3,4) by (simp_all add: zones_kept_def)
    from delivered result1 j Cons.prems(3)
    have moved: "newest_virtual_chapter (zones index1 ! j) \<noteq> c"
      by (intro handle_chapter_closed_succeeded [of depth E index j c index1]) simp_all
    from handle_chapter_closed_zones rest wf1
    have kept: "zones_kept c index1 index'"
      by (rule announce_chapter_closed_from_zones)
    with moved have "zones index' ! j = zones index1 ! j"
      by (simp add: zones_kept_def)
    with moved have here: "newest_virtual_chapter (zones index' ! j) \<noteq> c"
      by simp
    from Cons.prems(4) closing have "newest_virtual_chapter (zones index1 ! z) \<noteq> c"
      by simp
    with rest wf1
    have "\<forall>j \<in> set js. j \<noteq> zone_id (zones index1 ! z)
                          \<longrightarrow> newest_virtual_chapter (zones index' ! j) \<noteq> c"
      by (rule Cons.IH)
    with closing here show ?thesis
      by simp
  qed
qed


lemma open_next_chapter_launches:
  assumes started: "start_next_chapter E index z = Inr (finished_zones, closed_chapter, index6)"
      and router: "has_router request"
      and z: "z < length (zones index)"
      and queues: "zone_count index = length (zone_queues index)"
  shows "\<exists>result index'.
           open_next_chapter depth E index z (Some request) = Some (result, index')
           \<and> zone_queues index'
               = map (\<lambda>i. zone_queues index ! i
                            @ (if finished_zones = 1 \<and> 1 < zone_count index
                                  \<and> i \<in> set (announced E (zone_id (zones index ! z))
                                                [0..<zone_count index] (components index6))
                               then [chapter_closed_request closed_chapter i] else []))
                   [0..<zone_count index]
           \<and> (finished_zones = 1 \<and> 1 < zone_count index
               \<and> announcement_result E (zone_id (zones index ! z)) [0..<zone_count index]
                     (components index6) \<noteq> UDS_SUCCESS \<longrightarrow>
                 result = announcement_result E (zone_id (zones index ! z))
                            [0..<zone_count index] (components index6)
                 \<and> zones index' = zones index6)"
proof -
  let ?id = "zone_id (zones index ! z)"
  let ?sent = "announced E ?id [0..<zone_count index] (components index6)"
  let ?sending = "announcement_result E ?id [0..<zone_count index] (components index6)"
  let ?m = "\<lambda>i. chapter_closed_request closed_chapter i"
  from started z have closing: "zone_closing index z index6"
    by (auto dest: start_next_chapter_started)
  then have same6: "zone_queues index6 = zone_queues index"
    "zone_count index6 = zone_count index" "zone_id (zones index6 ! z) = ?id"
    "length (zones index6) = length (zones index)"
    by (simp_all add: zone_closing_def)
  show ?thesis
  proof (cases "finished_zones = 1 \<and> 1 < zone_count index")
    case False
    obtain result index' where
      finished: "finish_next_chapter E index6 z finished_zones UDS_SUCCESS = (result, index')"
      by (cases "finish_next_chapter E index6 z finished_zones UDS_SUCCESS")
    with z same6 have "zone_queues index' = zone_queues index"
      by (auto dest: finish_next_chapter_zones)
    also from False queues
    have "zone_queues index
            = map (\<lambda>i. zone_queues index ! i
                         @ (if finished_zones = 1 \<and> 1 < zone_count index \<and> i \<in> set ?sent
                            then [?m i] else []))
                [0..<zone_count index]"
      by (auto simp: map_nth)
    finally have "zone_queues index'
            = map (\<lambda>i. zone_queues index ! i
                         @ (if finished_zones = 1 \<and> 1 < zone_count index \<and> i \<in> set ?sent
                            then [?m i] else []))
                [0..<zone_count index]" .
    moreover from started False finished same6
    have "open_next_chapter depth E index z (Some request) = Some (result, index')"
      by (auto simp: open_next_chapter_def open_next_chapter_with_def)
    ultimately show ?thesis
      using False by blast
  next
    case True
    from queues same6
    have "\<forall>i \<in> set [0..<zone_count index6]. i < length (zone_queues index6)"
      by simp
    moreover have "distinct [0..<zone_count index6]"
      by simp
    ultimately obtain index7 where
      announced: "announce_chapter_closed_from (handle_chapter_closed depth E) E True z
                    closed_chapter [0..<zone_count index6] index6
                    = Some (announcement_result E (zone_id (zones index6 ! z))
                              [0..<zone_count index6] (components index6), index7)"
      and queues7: "zone_queues index7
             = map (\<lambda>i. zone_queues index6 ! i
                          @ (if i \<in> set (announced E (zone_id (zones index6 ! z))
                                           [0..<zone_count index6] (components index6))
                             then [?m i] else []))
                 [0..<length (zone_queues index6)]"
      and same7: "zones index7 = zones index6"
      using announce_chapter_closed_from_launches
              [of "[0..<zone_count index6]" index6 "handle_chapter_closed depth E" E z
                  closed_chapter]
      by blast
    from announced same6
    have announced': "announce_chapter_closed_from (handle_chapter_closed depth E) E True z
                        closed_chapter [0..<zone_count index6] index6 = Some (?sending, index7)"
      by simp
    from queues7 same6 queues True
    have queues7': "zone_queues index7
            = map (\<lambda>i. zone_queues index ! i
                         @ (if finished_zones = 1 \<and> 1 < zone_count index \<and> i \<in> set ?sent
                            then [?m i] else []))
                [0..<zone_count index]"
      by simp
    show ?thesis
    proof (cases "?sending = UDS_SUCCESS")
      case failed: False
      with started True announced' same6 router
      have "open_next_chapter depth E index z (Some request) = Some (?sending, index7)"
        by (auto simp: open_next_chapter_def open_next_chapter_with_def
                       announce_chapter_closed_def)
      with queues7' same7 show ?thesis
        by blast
    next
      case sent: True
      obtain result index' where
        finished: "finish_next_chapter E index7 z finished_zones UDS_SUCCESS = (result, index')"
        by (cases "finish_next_chapter E index7 z finished_zones UDS_SUCCESS")
      with z same6 same7 have "zone_queues index' = zone_queues index7"
        by (auto dest: finish_next_chapter_zones)
      with queues7' have "zone_queues index'
            = map (\<lambda>i. zone_queues index ! i
                         @ (if finished_zones = 1 \<and> 1 < zone_count index \<and> i \<in> set ?sent
                            then [?m i] else []))
                [0..<zone_count index]"
        by (simp only:)
      moreover from started True announced' finished same6 router sent
      have "open_next_chapter depth E index z (Some request) = Some (result, index')"
        by (auto simp: open_next_chapter_def open_next_chapter_with_def
                       announce_chapter_closed_def)
      ultimately show ?thesis
        using sent by blast
    qed
  qed
qed

lemma open_next_chapter_calls:
  assumes started: "start_next_chapter E index z = Inr (finished_zones, closed_chapter, index6)"
      and z: "z < length (zones index)"
      and zs: "zone_count index \<le> length (zones index)"
      and direct: "\<not> (case request of None \<Rightarrow> False | Some r \<Rightarrow> has_router r)"
      and first: "finished_zones = 1 \<and> 1 < zone_count index"
      and delivered: "announce_chapter_closed (handle_chapter_closed depth E) E request index6 z
                        closed_chapter = Some (result, index7)"
  shows "(result = UDS_SUCCESS \<longrightarrow>
            zones_kept closed_chapter index6 index7
            \<and> (\<forall>i < zone_count index.
                  i \<noteq> zone_id (zones index ! z)
                    \<longrightarrow> newest_virtual_chapter (zones index7 ! i) \<noteq> closed_chapter)
            \<and> open_next_chapter depth E index z request
                = Some (finish_next_chapter E index7 z finished_zones UDS_SUCCESS))
         \<and> (result \<noteq> UDS_SUCCESS \<longrightarrow>
              open_next_chapter depth E index z request = Some (result, index7))"
proof -
  from started z have closing: "zone_closing index z index6"
    and closed: "closed_chapter = newest_virtual_chapter (zones index ! z)"
    by (auto dest: start_next_chapter_started)
  then have same6: "zone_count index6 = zone_count index"
    "zone_id (zones index6 ! z) = zone_id (zones index ! z)"
    "length (zones index6) = length (zones index)"
    and moved: "newest_virtual_chapter (zones index6 ! z) \<noteq> closed_chapter"
    by (simp_all add: zone_closing_def)
  from delivered direct
  have loop: "announce_chapter_closed_from (handle_chapter_closed depth E) E False z
                closed_chapter [0..<zone_count index6] index6 = Some (result, index7)"
    by (simp add: announce_chapter_closed_def)
  have wf6: "\<forall>j \<in> set [0..<zone_count index6]. j < length (zones index6)"
    "zone_count index6 \<le> length (zones index6)"
    using zs same6 by simp_all
  from handle_chapter_closed_zones loop wf6
  have kept: "zones_kept closed_chapter index6 index7"
    by (rule announce_chapter_closed_from_zones)
  show ?thesis
  proof (intro conjI impI)
    show "zones_kept closed_chapter index6 index7"
      by (rule kept)
  next
    assume "result = UDS_SUCCESS"
    with loop
    have "announce_chapter_closed_from (handle_chapter_closed depth E) E False z
            closed_chapter [0..<zone_count index6] index6 = Some (UDS_SUCCESS, index7)"
      by simp
    from this wf6 moved
    have "\<forall>j \<in> set [0..<zone_count index6].
            j \<noteq> zone_id (zones index6 ! z)
              \<longrightarrow> newest_virtual_chapter (zones index7 ! j) \<noteq> closed_chapter"
      by (rule announce_chapter_closed_from_direct)
    with same6
    show "\<forall>i < zone_count index.
            i \<noteq> zone_id (zones index ! z)
              \<longrightarrow> newest_virtual_chapter (zones index7 ! i) \<noteq> closed_chapter"
      by simp
  next
    assume "result = UDS_SUCCESS"
    with started first delivered same6
    show "open_next_chapter depth E index z request
            = Some (finish_next_chapter E index7 z finished_zones UDS_SUCCESS)"
      by (simp add: open_next_chapter_def open_next_chapter_with_def)
  next
    assume "result \<noteq> UDS_SUCCESS"
    with started first delivered same6
    show "open_next_chapter depth E index z request = Some (result, index7)"
      by (simp add: open_next_chapter_def open_next_chapter_with_def)
  qed
qed

text \<open>
  Claim C6, as stated: when a zone is the first to close a chapter in an index of more than
  one zone, an \<open>ANNOUNCE_CHAPTER_CLOSED\<close> message is sent to every other zone. It fails
  when the message cannot be allocated: \<open>announce_chapter_closed\<close> returns the error of
  \<open>launch_zone_message\<close> at once. Here zone 0 of two closes chapter 0 as the first and no
  memory is left: \<open>open_next_chapter\<close> returns \<open>ENOMEM\<close>, the queue of zone 1 is
  empty, and zone 0 is already at chapter 1.
\<close>

theorem announcement_stops_when_allocation_fails:
  "(case start_next_chapter model_externals starved_closing_index 0 of
      Inl early \<Rightarrow> None
    | Inr (finished_zones, closed_chapter, index6) \<Rightarrow> Some (finished_zones, closed_chapter))
     = Some (1, 0)
   \<and> zone_count starved_closing_index = 2
   \<and> map_option (\<lambda>(result, index').
                    (result, zone_queues index', map newest_virtual_chapter (zones index')))
        (open_next_chapter 0 model_externals starved_closing_index 0
           (Some (example_request UDS_POST N0 M0)))
       = Some (ENOMEM, [[], []], [1, 0])"
  by code_simp

text \<open>
  Claim C6, amended. Zone \<open>z\<close> of the index closes chapter \<open>closed_chapter\<close>, its
  newest, and the chapter writer reports \<open>finished_zones\<close>; the zone count is at most the
  number of zones. The announcement is made when \<open>finished_zones\<close> is 1 and the index has
  more than one zone, to the zones in zone order, the one with the id of the closing zone
  left out; otherwise \<open>open_next_chapter\<close> goes on to its end with no message and
  no call.
  \<^item> For a request with a router, in an index with one queue per zone, an
    \<open>ANNOUNCE_CHAPTER_CLOSED\<close> message for the closed chapter is appended to the queue of
    each of these zones up to the first whose message cannot be allocated;
    \<open>open_next_chapter\<close> then returns that error with the zones as they are after the
    closing, and the zones that follow get no message. When every allocation succeeds every
    other zone gets the message. When no announcement is made the queues are unchanged.
  \<^item> Without a router, \<open>handle_chapter_closed\<close> is called on these zones directly. When
    the calls return \<open>UDS_SUCCESS\<close>, none of these zones has the closed chapter as its
    newest any more, the zones that did not have it are unchanged, and
    \<open>open_next_chapter\<close> goes on to its end; when a call returns an error,
    \<open>open_next_chapter\<close> returns it. The calls return when the nested closings allowed
    are as many as there are zones.
  \<^item> A zone that executes the message, or is called directly, calls
    \<open>open_next_chapter\<close> when its newest virtual chapter is the announced chapter;
    otherwise it returns \<open>UDS_SUCCESS\<close> and leaves the index unchanged.
\<close>

theorem chapter_closed_announced_to_other_zones:
  assumes started: "start_next_chapter E index z = Inr (finished_zones, closed_chapter, index6)"
      and z: "z < length (zones index)"
      and zs: "zone_count index \<le> length (zones index)"
  shows "closed_chapter = newest_virtual_chapter (zones index ! z)
   \<and> (has_router request \<and> zone_count index = length (zone_queues index) \<longrightarrow>
        (\<exists>result index'.
           open_next_chapter depth E index z (Some request) = Some (result, index')
           \<and> zone_queues index'
               = map (\<lambda>i. zone_queues index ! i
                            @ (if finished_zones = 1 \<and> 1 < zone_count index
                                  \<and> i \<in> set (announced E (zone_id (zones index ! z))
                                                [0..<zone_count index] (components index6))
                               then [chapter_closed_request closed_chapter i] else []))
                   [0..<zone_count index]
           \<and> (finished_zones = 1 \<and> 1 < zone_count index
               \<and> announcement_result E (zone_id (zones index ! z)) [0..<zone_count index]
                     (components index6) \<noteq> UDS_SUCCESS \<longrightarrow>
                 result = announcement_result E (zone_id (zones index ! z))
                            [0..<zone_count index] (components index6)
                 \<and> zones index' = zones index6)))
   \<and> (allocations_succeed E (zone_count index) (components index6) \<longrightarrow>
        announced E (zone_id (zones index ! z)) [0..<zone_count index] (components index6)
          = filter (\<lambda>i. i \<noteq> zone_id (zones index ! z)) [0..<zone_count index]
        \<and> announcement_result E (zone_id (zones index ! z)) [0..<zone_count index]
              (components index6) = UDS_SUCCESS)
   \<and> (\<not> (case direct of None \<Rightarrow> False | Some r \<Rightarrow> has_router r)
       \<and> finished_zones = 1 \<and> 1 < zone_count index \<longrightarrow>
        (\<forall>result index7.
           announce_chapter_closed (handle_chapter_closed depth E) E direct index6 z
               closed_chapter = Some (result, index7) \<longrightarrow>
             (result = UDS_SUCCESS \<longrightarrow>
                zones_kept closed_chapter index6 index7
                \<and> (\<forall>i < zone_count index.
                      i \<noteq> zone_id (zones index ! z)
                        \<longrightarrow> newest_virtual_chapter (zones index7 ! i) \<noteq> closed_chapter)
                \<and> open_next_chapter depth E index z direct
                    = Some (finish_next_chapter E index7 z finished_zones UDS_SUCCESS))
             \<and> (result \<noteq> UDS_SUCCESS \<longrightarrow>
                  open_next_chapter depth E index z direct = Some (result, index7))))
   \<and> (length (zones index) \<le> Suc depth \<longrightarrow> open_next_chapter depth E index z direct \<noteq> None)
   \<and> dispatch_index_zone_control_request (Suc depth) E receiver (chapter_closed_request vc i)
       = (if newest_virtual_chapter (zones receiver ! i) = vc
          then open_next_chapter depth E receiver i None
          else Some (UDS_SUCCESS, receiver))
   \<and> handle_chapter_closed (Suc depth) E receiver i vc
       = (if newest_virtual_chapter (zones receiver ! i) = vc
          then open_next_chapter depth E receiver i None
          else Some (UDS_SUCCESS, receiver))
   \<and> (i < length (zones receiver) \<and> zone_count receiver \<le> length (zones receiver)
       \<and> length (zones receiver) \<le> Suc depth \<longrightarrow>
         handle_chapter_closed (Suc depth) E receiver i vc \<noteq> None)
   \<and> (\<not> (finished_zones = 1 \<and> 1 < zone_count index) \<longrightarrow>
        open_next_chapter depth E index z direct
          = Some (finish_next_chapter E index6 z finished_zones UDS_SUCCESS))"
proof (intro conjI)
  from started z show "closed_chapter = newest_virtual_chapter (zones index ! z)"
    by (auto dest: start_next_chapter_started)
next
  show "has_router request \<and> zone_count index = length (zone_queues index) \<longrightarrow>
        (\<exists>result index'.
           open_next_chapter depth E index z (Some request) = Some (result, index')
           \<and> zone_queues index'
               = map (\<lambda>i. zone_queues index ! i
                            @ (if finished_zones = 1 \<and> 1 < zone_count index
                                  \<and> i \<in> set (announced E (zone_id (zones index ! z))
                                                [0..<zone_count index] (components index6))
                               then [chapter_closed_request closed_chapter i] else []))
                   [0..<zone_count index]
           \<and> (finished_zones = 1 \<and> 1 < zone_count index
               \<and> announcement_result E (zone_id (zones index ! z)) [0..<zone_count index]
                     (components index6) \<noteq> UDS_SUCCESS \<longrightarrow>
                 result = announcement_result E (zone_id (zones index ! z))
                            [0..<zone_count index] (components index6)
                 \<and> zones index' = zones index6))"
  proof
    assume "has_router request \<and> zone_count index = length (zone_queues index)"
    then have "has_router request" and "zone_count index = length (zone_queues index)"
      by simp_all
    with started z
    show "\<exists>result index'.
           open_next_chapter depth E index z (Some request) = Some (result, index')
           \<and> zone_queues index'
               = map (\<lambda>i. zone_queues index ! i
                            @ (if finished_zones = 1 \<and> 1 < zone_count index
                                  \<and> i \<in> set (announced E (zone_id (zones index ! z))
                                                [0..<zone_count index] (components index6))
                               then [chapter_closed_request closed_chapter i] else []))
                   [0..<zone_count index]
           \<and> (finished_zones = 1 \<and> 1 < zone_count index
               \<and> announcement_result E (zone_id (zones index ! z)) [0..<zone_count index]
                     (components index6) \<noteq> UDS_SUCCESS \<longrightarrow>
                 result = announcement_result E (zone_id (zones index ! z))
                            [0..<zone_count index] (components index6)
                 \<and> zones index' = zones index6)"
      by (intro open_next_chapter_launches)
  qed
next
  show "allocations_succeed E (zone_count index) (components index6) \<longrightarrow>
        announced E (zone_id (zones index ! z)) [0..<zone_count index] (components index6)
          = filter (\<lambda>i. i \<noteq> zone_id (zones index ! z)) [0..<zone_count index]
        \<and> announcement_result E (zone_id (zones index ! z)) [0..<zone_count index]
              (components index6) = UDS_SUCCESS"
  proof
    assume "allocations_succeed E (zone_count index) (components index6)"
    then have "allocations_succeed E (length [0..<zone_count index]) (components index6)"
      by simp
    then
    show "announced E (zone_id (zones index ! z)) [0..<zone_count index] (components index6)
            = filter (\<lambda>i. i \<noteq> zone_id (zones index ! z)) [0..<zone_count index]
          \<and> announcement_result E (zone_id (zones index ! z)) [0..<zone_count index]
                (components index6) = UDS_SUCCESS"
      by (rule all_announced)
  qed
next
  show "\<not> (case direct of None \<Rightarrow> False | Some r \<Rightarrow> has_router r)
       \<and> finished_zones = 1 \<and> 1 < zone_count index \<longrightarrow>
        (\<forall>result index7.
           announce_chapter_closed (handle_chapter_closed depth E) E direct index6 z
               closed_chapter = Some (result, index7) \<longrightarrow>
             (result = UDS_SUCCESS \<longrightarrow>
                zones_kept closed_chapter index6 index7
                \<and> (\<forall>i < zone_count index.
                      i \<noteq> zone_id (zones index ! z)
                        \<longrightarrow> newest_virtual_chapter (zones index7 ! i) \<noteq> closed_chapter)
                \<and> open_next_chapter depth E index z direct
                    = Some (finish_next_chapter E index7 z finished_zones UDS_SUCCESS))
             \<and> (result \<noteq> UDS_SUCCESS \<longrightarrow>
                  open_next_chapter depth E index z direct = Some (result, index7)))"
  proof (intro impI allI)
    fix result index7
    assume direct: "\<not> (case direct of None \<Rightarrow> False | Some r \<Rightarrow> has_router r)
                    \<and> finished_zones = 1 \<and> 1 < zone_count index"
      and delivered: "announce_chapter_closed (handle_chapter_closed depth E) E direct index6 z
                        closed_chapter = Some (result, index7)"
    from started z zs direct [THEN conjunct1] direct [THEN conjunct2] delivered
    show "(result = UDS_SUCCESS \<longrightarrow>
                zones_kept closed_chapter index6 index7
                \<and> (\<forall>i < zone_count index.
                      i \<noteq> zone_id (zones index ! z)
                        \<longrightarrow> newest_virtual_chapter (zones index7 ! i) \<noteq> closed_chapter)
                \<and> open_next_chapter depth E index z direct
                    = Some (finish_next_chapter E index7 z finished_zones UDS_SUCCESS))
             \<and> (result \<noteq> UDS_SUCCESS \<longrightarrow>
                  open_next_chapter depth E index z direct = Some (result, index7))"
      by (rule open_next_chapter_calls)
  qed
next
  show "length (zones index) \<le> Suc depth \<longrightarrow> open_next_chapter depth E index z direct \<noteq> None"
  proof
    assume "length (zones index) \<le> Suc depth"
    then have "zones_at (newest_virtual_chapter (zones index ! z)) index \<le> Suc depth"
      using zones_at_length [of "newest_virtual_chapter (zones index ! z)" index] by simp
    from this z zs show "open_next_chapter depth E index z direct \<noteq> None"
      by (rule open_next_chapter_returns)
  qed
next
  show "dispatch_index_zone_control_request (Suc depth) E receiver (chapter_closed_request vc i)
       = (if newest_virtual_chapter (zones receiver ! i) = vc
          then open_next_chapter depth E receiver i None
          else Some (UDS_SUCCESS, receiver))"
    by (simp add: dispatch_index_zone_control_request_def chapter_closed_request_def
                  open_next_chapter_def Let_def)
next
  show "handle_chapter_closed (Suc depth) E receiver i vc
       = (if newest_virtual_chapter (zones receiver ! i) = vc
          then open_next_chapter depth E receiver i None
          else Some (UDS_SUCCESS, receiver))"
    by (simp add: open_next_chapter_def)
next
  show "i < length (zones receiver) \<and> zone_count receiver \<le> length (zones receiver)
       \<and> length (zones receiver) \<le> Suc depth \<longrightarrow>
         handle_chapter_closed (Suc depth) E receiver i vc \<noteq> None"
  proof
    assume receiving: "i < length (zones receiver)
      \<and> zone_count receiver \<le> length (zones receiver) \<and> length (zones receiver) \<le> Suc depth"
    then have "zones_at vc receiver \<le> Suc depth"
      using zones_at_length [of vc receiver] by simp
    with receiving show "handle_chapter_closed (Suc depth) E receiver i vc \<noteq> None"
      by (intro handle_chapter_closed_returns) simp_all
  qed
next
  show "\<not> (finished_zones = 1 \<and> 1 < zone_count index) \<longrightarrow>
        open_next_chapter depth E index z direct
          = Some (finish_next_chapter E index6 z finished_zones UDS_SUCCESS)"
  proof
    assume silent: "\<not> (finished_zones = 1 \<and> 1 < zone_count index)"
    from started z have "zone_closing index z index6"
      by (auto dest: start_next_chapter_started)
    then have "zone_count index6 = zone_count index"
      by (simp add: zone_closing_def)
    with started silent
    show "open_next_chapter depth E index z direct
            = Some (finish_next_chapter E index6 z finished_zones UDS_SUCCESS)"
      by (auto simp: open_next_chapter_def open_next_chapter_with_def)
  qed
qed

theorem chapter_closed_announced_to_other_zones_witness:
  "start_next_chapter model_externals example_index 0 = Inr (1, 0, closed_index)
   \<and> has_router (example_request UDS_POST N0 M0)
   \<and> zone_count example_index = length (zone_queues example_index)
   \<and> allocations_succeed model_externals (zone_count example_index) (components closed_index)
   \<and> (\<exists>result index'.
         open_next_chapter 1 model_externals example_index 0
             (Some (example_request UDS_POST N0 M0)) = Some (result, index')
         \<and> zone_queues index' = [[], [chapter_closed_request 0 1]])
   \<and> (\<exists>index7.
         announce_chapter_closed (handle_chapter_closed 1 model_externals) model_externals None
             closed_index 0 0 = Some (UDS_SUCCESS, index7)
         \<and> newest_virtual_chapter (zones index7 ! 1) \<noteq> 0
         \<and> open_next_chapter 1 model_externals example_index 0 None
             = Some (finish_next_chapter model_externals index7 0 1 UDS_SUCCESS))
   \<and> open_next_chapter 1 model_externals example_index 0 None \<noteq> None
   \<and> dispatch_index_zone_control_request (Suc 1) model_externals example_index
         (chapter_closed_request 0 1)
       = open_next_chapter 1 model_externals example_index 1 None
   \<and> handle_chapter_closed (Suc 1) model_externals example_index 1 0 \<noteq> None
   \<and> handle_chapter_closed (Suc 1) model_externals example_index 1 5
       = Some (UDS_SUCCESS, example_index)
   \<and> start_next_chapter model_externals starved_closing_index 0
       = Inr (1, 0, closed_index\<lparr>components := example_components
                                     \<lparr>allocation_result := ENOMEM, zones_finished := 1\<rparr>\<rparr>)
   \<and> (\<exists>index'.
         open_next_chapter 0 model_externals starved_closing_index 0
             (Some (example_request UDS_POST N0 M0)) = Some (ENOMEM, index')
         \<and> zone_queues index' = [[], []]
         \<and> zones index' = zones closed_index)
   \<and> \<not> 1 < zone_count single_zone_index
   \<and> (\<exists>index6.
         start_next_chapter model_externals single_zone_index 0 = Inr (1, 7, index6)
         \<and> open_next_chapter 0 model_externals single_zone_index 0 None
             = Some (finish_next_chapter model_externals index6 0 1 UDS_SUCCESS))"
proof -
  let ?r = "example_request UDS_POST N0 M0"
  let ?starved6 = "closed_index\<lparr>components := example_components
                                   \<lparr>allocation_result := ENOMEM, zones_finished := 1\<rparr>\<rparr>"
  have started: "start_next_chapter model_externals example_index 0 = Inr (1, 0, closed_index)"
    by (simp add: start_next_chapter_def swap_open_chapter_def reap_oldest_chapter_def
                  ASSERT_def Let_def set_zone_def closed_index_def example_defs
                  model_reset_open_chapter_def model_start_closing_chapter_def)
  have started': "start_next_chapter model_externals starved_closing_index 0
                    = Inr (1, 0, ?starved6)"
    by (simp add: start_next_chapter_def swap_open_chapter_def reap_oldest_chapter_def
                  ASSERT_def Let_def set_zone_def closed_index_def starved_closing_index_def
                  example_defs model_reset_open_chapter_def model_start_closing_chapter_def)
  have router: "has_router ?r"
    and z: "0 < length (zones example_index)" "0 < length (zones starved_closing_index)"
    and zs: "zone_count example_index \<le> length (zones example_index)"
      "zone_count starved_closing_index \<le> length (zones starved_closing_index)"
    and queues: "zone_count example_index = length (zone_queues example_index)"
      "zone_count starved_closing_index = length (zone_queues starved_closing_index)"
    and allocated: "allocations_succeed model_externals (zone_count example_index)
                      (components closed_index)"
    and receiver: "1 < length (zones example_index)"
      "length (zones example_index) \<le> Suc 1"
    and zones: "[0..<zone_count example_index] = [0, 1]"
      "[0..<zone_count starved_closing_index] = [0, 1]"
    and empty: "zone_queues example_index = [[], []]"
      "zone_queues starved_closing_index = [[], []]"
    and count: "zone_count example_index = Suc (Suc 0)"
      "zone_count starved_closing_index = Suc (Suc 0)"
    and id: "zone_id (zones example_index ! 0) = 0"
      "zone_id (zones starved_closing_index ! 0) = 0"
    by (simp_all add: closed_index_def starved_closing_index_def example_defs eval_nat_numeral
                      upt_rec)
  have newest: "newest_virtual_chapter (zones example_index ! 1) = 0"
    and other: "(newest_virtual_chapter (zones example_index ! 1) = 5) = False"
    by (simp_all add: example_defs)
  have direct: "\<not> (case None :: uds_request option of None \<Rightarrow> False | Some r \<Rightarrow> has_router r)"
    by simp
  have first: "(1 :: nat) = 1 \<and> 1 < zone_count example_index"
    by (simp add: count)
  note announced =
    chapter_closed_announced_to_other_zones
      [OF started z(1) zs(1), where request = ?r and depth = 1 and direct = None
         and receiver = example_index and i = 1]
  note starved =
    chapter_closed_announced_to_other_zones
      [OF started' z(2) zs(2), where request = ?r and depth = 0]
  have all: "announced model_externals (zone_id (zones example_index ! 0))
               [0..<zone_count example_index] (components closed_index)
               = filter (\<lambda>i. i \<noteq> zone_id (zones example_index ! 0))
                   [0..<zone_count example_index]"
    using announced [THEN conjunct2, THEN conjunct2, THEN conjunct1] allocated by blast
  from announced [THEN conjunct2, THEN conjunct1] router queues(1)
  have "\<exists>result index'.
          open_next_chapter 1 model_externals example_index 0 (Some ?r) = Some (result, index')
          \<and> zone_queues index'
              = map (\<lambda>i. zone_queues example_index ! i
                           @ (if (1 :: nat) = 1 \<and> 1 < zone_count example_index
                                 \<and> i \<in> set (announced model_externals
                                               (zone_id (zones example_index ! 0))
                                               [0..<zone_count example_index]
                                               (components closed_index))
                              then [chapter_closed_request 0 i] else []))
                  [0..<zone_count example_index]"
    by blast
  then have one: "\<exists>result index'.
          open_next_chapter 1 model_externals example_index 0 (Some ?r) = Some (result, index')
          \<and> zone_queues index' = [[], [chapter_closed_request 0 1]]"
    by (simp add: all) (simp add: zones empty count id)
  have "map_option fst
          (announce_chapter_closed (handle_chapter_closed 1 model_externals) model_externals
             None closed_index 0 0) = Some UDS_SUCCESS"
    by code_simp
  then obtain index7 where
    delivered: "announce_chapter_closed (handle_chapter_closed 1 model_externals)
                  model_externals None closed_index 0 0 = Some (UDS_SUCCESS, index7)"
    by (cases "announce_chapter_closed (handle_chapter_closed 1 model_externals)
                 model_externals None closed_index 0 0") auto
  from announced [THEN conjunct2, THEN conjunct2, THEN conjunct2, THEN conjunct1, rule_format,
                  OF conjI [OF direct first] delivered, THEN conjunct1, THEN mp, OF refl]
  have "(\<forall>i < zone_count example_index.
           i \<noteq> zone_id (zones example_index ! 0)
             \<longrightarrow> newest_virtual_chapter (zones index7 ! i) \<noteq> 0)
        \<and> open_next_chapter 1 model_externals example_index 0 None
            = Some (finish_next_chapter model_externals index7 0 1 UDS_SUCCESS)"
    by (rule conjunct2)
  then have "newest_virtual_chapter (zones index7 ! 1) \<noteq> 0
        \<and> open_next_chapter 1 model_externals example_index 0 None
            = Some (finish_next_chapter model_externals index7 0 1 UDS_SUCCESS)"
    by (simp add: count id)
  with delivered have two: "\<exists>index7.
         announce_chapter_closed (handle_chapter_closed 1 model_externals) model_externals None
             closed_index 0 0 = Some (UDS_SUCCESS, index7)
         \<and> newest_virtual_chapter (zones index7 ! 1) \<noteq> 0
         \<and> open_next_chapter 1 model_externals example_index 0 None
             = Some (finish_next_chapter model_externals index7 0 1 UDS_SUCCESS)"
    by blast
  from announced [THEN conjunct2, THEN conjunct2, THEN conjunct2, THEN conjunct2,
                  THEN conjunct1] receiver(2)
  have three: "open_next_chapter 1 model_externals example_index 0 None \<noteq> None"
    by blast
  from announced [where vc = 0, THEN conjunct2, THEN conjunct2, THEN conjunct2, THEN conjunct2,
                  THEN conjunct2, THEN conjunct1]
  have four: "dispatch_index_zone_control_request (Suc 1) model_externals example_index
               (chapter_closed_request 0 1)
             = open_next_chapter 1 model_externals example_index 1 None"
    by (simp only: newest refl if_True)
  from announced [where vc = 0, THEN conjunct2, THEN conjunct2, THEN conjunct2, THEN conjunct2,
                  THEN conjunct2, THEN conjunct2, THEN conjunct2, THEN conjunct1] receiver zs(1)
  have five: "handle_chapter_closed (Suc 1) model_externals example_index 1 0 \<noteq> None"
    by blast
  from announced [where vc = 5, THEN conjunct2, THEN conjunct2, THEN conjunct2, THEN conjunct2,
                  THEN conjunct2, THEN conjunct2, THEN conjunct1]
  have six: "handle_chapter_closed (Suc 1) model_externals example_index 1 5
               = Some (UDS_SUCCESS, example_index)"
    by (simp only: other if_False)
  have failing: "announcement_result model_externals (zone_id (zones starved_closing_index ! 0))
                   [0..<zone_count starved_closing_index] (components ?starved6) = ENOMEM"
    and none: "announced model_externals (zone_id (zones starved_closing_index ! 0))
                 [0..<zone_count starved_closing_index] (components ?starved6) = []"
    by (simp_all add: zones id example_defs)
  from starved [THEN conjunct2, THEN conjunct1] router queues(2)
  obtain result index' where
    opened: "open_next_chapter 0 model_externals starved_closing_index 0 (Some ?r)
               = Some (result, index')"
    and queues': "zone_queues index'
              = map (\<lambda>i. zone_queues starved_closing_index ! i
                           @ (if (1 :: nat) = 1 \<and> 1 < zone_count starved_closing_index
                                 \<and> i \<in> set (announced model_externals
                                               (zone_id (zones starved_closing_index ! 0))
                                               [0..<zone_count starved_closing_index]
                                               (components ?starved6))
                              then [chapter_closed_request 0 i] else []))
                  [0..<zone_count starved_closing_index]"
    and failed: "(1 :: nat) = 1 \<and> 1 < zone_count starved_closing_index
               \<and> announcement_result model_externals
                     (zone_id (zones starved_closing_index ! 0))
                     [0..<zone_count starved_closing_index] (components ?starved6)
                   \<noteq> UDS_SUCCESS \<longrightarrow>
                 result = announcement_result model_externals
                            (zone_id (zones starved_closing_index ! 0))
                            [0..<zone_count starved_closing_index] (components ?starved6)
                 \<and> zones index' = zones ?starved6"
    by blast
  from failed have "result = ENOMEM" and "zones index' = zones closed_index"
    by (simp_all add: failing count)
  moreover from queues' have "zone_queues index' = [[], []]"
    by (simp add: none) (simp add: zones empty)
  ultimately have seven: "\<exists>index'.
         open_next_chapter 0 model_externals starved_closing_index 0 (Some ?r)
           = Some (ENOMEM, index')
         \<and> zone_queues index' = [[], []]
         \<and> zones index' = zones closed_index"
    using opened by blast
  have alone: "\<not> 1 < zone_count single_zone_index"
    and z1: "0 < length (zones single_zone_index)"
    and zs1: "zone_count single_zone_index \<le> length (zones single_zone_index)"
    by (simp_all add: single_zone_index_def example_defs)
  have "(case start_next_chapter model_externals single_zone_index 0 of
           Inl early \<Rightarrow> None
         | Inr (finished_zones, closed_chapter, index6) \<Rightarrow>
             Some (finished_zones, closed_chapter)) = Some (1, 7)"
    by code_simp
  then obtain index6 where
    single: "start_next_chapter model_externals single_zone_index 0 = Inr (1, 7, index6)"
    by (auto split: sum.splits prod.splits)
  from alone have silent: "\<not> ((1 :: nat) = 1 \<and> 1 < zone_count single_zone_index)"
    by simp
  from chapter_closed_announced_to_other_zones
         [OF single z1 zs1, where depth = 0 and direct = None,
          THEN conjunct2, THEN conjunct2, THEN conjunct2, THEN conjunct2, THEN conjunct2,
          THEN conjunct2, THEN conjunct2, THEN conjunct2, THEN mp, OF silent]
  have "open_next_chapter 0 model_externals single_zone_index 0 None
          = Some (finish_next_chapter model_externals index6 0 1 UDS_SUCCESS)" .
  with single have eight: "\<exists>index6.
         start_next_chapter model_externals single_zone_index 0 = Inr (1, 7, index6)
         \<and> open_next_chapter 0 model_externals single_zone_index 0 None
             = Some (finish_next_chapter model_externals index6 0 1 UDS_SUCCESS)"
    by blast
  from started router queues(1) allocated one two three four five six started' seven alone
    eight
  show ?thesis
    by (simp only: simp_thms)
qed

subsection \<open>Posting a name twice\<close>

lemma start_next_chapter_zone:
  assumes "start_next_chapter E index z = Inr (finished_zones, closed_chapter, index6)"
      and "z < length (zones index)"
  shows "open_chapter (zones index6 ! z)
           = reset_open_chapter E (writing_chapter (zones index ! z))
         \<and> writing_chapter (zones index6 ! z) = open_chapter (zones index ! z)
         \<and> volume_index index6
             = set_volume_index_zone_open_chapter E (volume_index index)
                 (zone_id (zones index ! z)) (newest_virtual_chapter (zones index ! z) + 1)"
  using assms
  by (auto simp: start_next_chapter_def swap_open_chapter_def reap_oldest_chapter_def Let_def
           split: prod.splits if_splits)

lemma start_next_chapter_failed:
  "start_next_chapter E index z = Inl (result, index1) \<Longrightarrow> result \<noteq> UDS_SUCCESS"
  by (auto simp: start_next_chapter_def swap_open_chapter_def reap_oldest_chapter_def Let_def
           split: prod.splits if_splits)

lemma launch_zone_message_volume_index:
  "launch_zone_message E message i index = (result, index')
     \<Longrightarrow> volume_index index' = volume_index index
         \<and> volume_geometry index' = volume_geometry index"
  by (auto simp: launch_zone_message_def enqueue_request_def select_index_queue_def
                 message_request_def split: prod.splits if_splits)

lemma announce_chapter_closed_from_launched:
  "announce_chapter_closed_from handle E True z c js index = Some (result, index')
     \<Longrightarrow> zones index' = zones index \<and> volume_index index' = volume_index index
         \<and> zone_count index' = zone_count index
         \<and> volume_geometry index' = volume_geometry index"
proof (induction js arbitrary: index)
  case Nil
  then show ?case by simp
next
  case (Cons j js)
  show ?case
  proof (cases "zone_id (zones index ! z) = j")
    case True
    with Cons.prems show ?thesis
      by (simp add: Cons.IH)
  next
    case False
    obtain result1 index1 where
      launched: "launch_zone_message E (chapter_closed_message c) j index = (result1, index1)"
      by (cases "launch_zone_message E (chapter_closed_message c) j index")
    then have same: "zones index1 = zones index" "volume_index index1 = volume_index index"
      "zone_count index1 = zone_count index" "volume_geometry index1 = volume_geometry index"
      by (auto dest: launch_zone_message_zones launch_zone_message_volume_index)
    show ?thesis
    proof (cases "result1 = UDS_SUCCESS")
      case True
      with False launched Cons.prems
      have "announce_chapter_closed_from handle E True z c js index1 = Some (result, index')"
        by simp
      then have "zones index' = zones index1 \<and> volume_index index' = volume_index index1
                 \<and> zone_count index' = zone_count index1
                 \<and> volume_geometry index' = volume_geometry index1"
        by (rule Cons.IH)
      with same show ?thesis by simp
    next
      case failed: False
      with False launched Cons.prems have "index' = index1"
        by simp
      with same show ?thesis by simp
    qed
  qed
qed

lemma finish_next_chapter_zone:
  assumes "finish_next_chapter E index z finished_zones result = (result', index')"
      and "z < length (zones index)"
  shows "open_chapter (zones index' ! z) = open_chapter (zones index ! z)
         \<and> writing_chapter (zones index' ! z) = writing_chapter (zones index ! z)
         \<and> volume_index index' = volume_index index
         \<and> volume_geometry index' = volume_geometry index"
  using assms
  by (auto simp: finish_next_chapter_def Let_def split: prod.splits if_splits)

lemma open_next_chapter_router_zone:
  assumes opened: "open_next_chapter depth E index z (Some request) = Some (UDS_SUCCESS, index')"
      and router: "has_router request"
      and z: "z < length (zones index)"
  shows "open_chapter (zones index' ! z)
           = reset_open_chapter E (writing_chapter (zones index ! z))
         \<and> writing_chapter (zones index' ! z) = open_chapter (zones index ! z)
         \<and> newest_virtual_chapter (zones index' ! z)
             = newest_virtual_chapter (zones index ! z) + 1
         \<and> volume_index index'
             = set_volume_index_zone_open_chapter E (volume_index index)
                 (zone_id (zones index ! z)) (newest_virtual_chapter (zones index ! z) + 1)
         \<and> length (zones index') = length (zones index)
         \<and> zone_count index' = zone_count index
         \<and> volume_geometry index' = volume_geometry index"
proof (cases "start_next_chapter E index z")
  case (Inl early)
  with opened have "start_next_chapter E index z = Inl (UDS_SUCCESS, index')"
    by (simp add: open_next_chapter_def open_next_chapter_with_def)
  then show ?thesis
    by (auto dest: start_next_chapter_failed)
next
  case (Inr started)
  then obtain finished_zones closed_chapter index6 where
    started: "start_next_chapter E index z = Inr (finished_zones, closed_chapter, index6)"
    by (cases started) auto
  from started z have closing: "zone_closing index z index6"
    by (auto dest: start_next_chapter_started)
  from started z have zone6:
    "open_chapter (zones index6 ! z) = reset_open_chapter E (writing_chapter (zones index ! z))"
    "writing_chapter (zones index6 ! z) = open_chapter (zones index ! z)"
    "volume_index index6
       = set_volume_index_zone_open_chapter E (volume_index index)
           (zone_id (zones index ! z)) (newest_virtual_chapter (zones index ! z) + 1)"
    by (auto dest: start_next_chapter_zone)
  have finish: ?thesis
    if "zones index7 = zones index6" "volume_index index7 = volume_index index6"
      "zone_count index7 = zone_count index6" "volume_geometry index7 = volume_geometry index6"
      and "finish_next_chapter E index7 z finished_zones r = (result'', index')"
    for index7 r result''
  proof -
    from that(1) closing z have z7: "z < length (zones index7)"
      by (simp add: zone_closing_def)
    from that(5) z7 have "open_chapter (zones index' ! z) = open_chapter (zones index7 ! z)
         \<and> writing_chapter (zones index' ! z) = writing_chapter (zones index7 ! z)
         \<and> volume_index index' = volume_index index7
         \<and> volume_geometry index' = volume_geometry index7"
      by (rule finish_next_chapter_zone)
    moreover from that(5) z7 have "length (zones index') = length (zones index7)
         \<and> zone_count index' = zone_count index7
         \<and> newest_virtual_chapter (zones index' ! z)
             = newest_virtual_chapter (zones index7 ! z)"
      by (auto dest: finish_next_chapter_zones)
    ultimately show ?thesis
      using that(1-4) zone6 closing by (simp add: zone_closing_def)
  qed
  show ?thesis
  proof (cases "finished_zones = 1 \<and> 1 < zone_count index6")
    case False
    with opened started obtain result'' where
      "finish_next_chapter E index6 z finished_zones UDS_SUCCESS = (result'', index')"
      by (auto simp: open_next_chapter_def open_next_chapter_with_def)
    with refl refl refl refl show ?thesis
      by (rule finish)
  next
    case True
    with opened started router obtain result7 index7 where
      announced: "announce_chapter_closed_from (handle_chapter_closed depth E) E True z
                    closed_chapter [0..<zone_count index6] index6 = Some (result7, index7)"
      and finished: "(UDS_SUCCESS, index')
                       = (if result7 \<noteq> UDS_SUCCESS then (result7, index7)
                          else finish_next_chapter E index7 z finished_zones result7)"
      by (auto simp: open_next_chapter_def open_next_chapter_with_def
                     announce_chapter_closed_def
               split: option.splits if_splits)
    from announced have same: "zones index7 = zones index6"
      "volume_index index7 = volume_index index6" "zone_count index7 = zone_count index6"
      "volume_geometry index7 = volume_geometry index6"
      by (auto dest: announce_chapter_closed_from_launched)
    from finished have
      "finish_next_chapter E index7 z finished_zones result7 = (UDS_SUCCESS, index')"
      by (cases "result7 = UDS_SUCCESS") simp_all
    with same show ?thesis
      by (rule finish)
  qed
qed

lemma find_rewritten:
  "find (live_slot name) xs \<noteq> None
     \<Longrightarrow> find (live_slot name)
           (map (\<lambda>slot. if live_slot name slot then (name, metadata, False) else slot) xs)
         = Some (name, metadata, False)"
  by (induction xs) (auto simp: live_slot_def)

lemma find_appended:
  "find P xs = None \<Longrightarrow> find P (xs @ [x]) = (if P x then Some x else None)"
  by (induction xs) auto

lemma model_put_then_search:
  assumes "model_put_open_chapter chapter name metadata = (UDS_SUCCESS, remaining, chapter')"
  shows "model_search_open_chapter chapter' name = Some metadata"
proof (cases "find (live_slot name) (slots chapter) = None")
  case True
  with assms have "slots chapter' = slots chapter @ [(name, metadata, False)]"
    by (auto simp: model_put_open_chapter_def split: if_splits)
  with True show ?thesis
    by (simp add: model_search_open_chapter_def find_appended live_slot_def)
next
  case False
  with assms have "slots chapter'
      = map (\<lambda>slot. if live_slot name slot then (name, metadata, False) else slot)
          (slots chapter)"
    by (auto simp: model_put_open_chapter_def split: if_splits)
  with False show ?thesis
    by (simp add: model_search_open_chapter_def find_rewritten)
qed

lemma model_put_size:
  assumes "model_put_open_chapter chapter name metadata = (UDS_SUCCESS, remaining, chapter')"
      and "length (slots chapter) \<le> capacity chapter"
  shows "capacity chapter' = capacity chapter \<and> 0 < length (slots chapter')
         \<and> length (slots chapter') \<le> capacity chapter"
  using assms
  by (cases "slots chapter")
     (auto simp: model_put_open_chapter_def split: if_splits)

lemma search_absent_name:
  assumes "name_absent index name"
      and "\<not> list_full (volume_index index) name"
      and "chunk_name request = name"
      and "type request = UDS_POST"
  shows "search_index_zone_update model_externals index z request
           = Inr (UDS_SUCCESS, False, request,
                  index\<lparr>volume_index := (volume_index index)
                    \<lparr>entries := (entries (volume_index index))
                       (name \<mapsto> (newest_virtual_chapter (zones index ! z), False))\<rparr>\<rparr>)"
proof -
  from assms(1) have "find (\<lambda>c. chapter_records (components index)
                                   (model_physical (components index) c) name \<noteq> None)
                        (sparse_cache (components index)) = None"
    by (simp add: name_absent_def)
  then have cache: "model_search_sparse_cache (components index) (zones index ! z) name
                      UINT64_MAX = (UDS_SUCCESS, UINT64_MAX, - 1, components index)"
    by (simp add: model_search_sparse_cache_def)
  from assms cache show ?thesis
    by (simp add: search_index_zone_update_def search_index_zone_missing_def
                  search_sparse_cache_in_zone_def model_get_volume_index_record_def
                  model_put_volume_index_record_def name_absent_def Let_def)
qed

lemma barrier_absent_name:
  assumes "entries (volume_index index) (chunk_name request) = None"
  shows "simulate_index_zone_barrier_message model_externals index z request
           = (UDS_SUCCESS, index)"
  using assms
  by (simp add: simulate_index_zone_barrier_message_def triage_index_request_def
                model_lookup_volume_index_name_def Let_def)

lemma barrier_model:
  "\<exists>x. simulate_index_zone_barrier_message model_externals index z request
         = (UDS_SUCCESS, index\<lparr>components := x\<rparr>)"
proof (cases "simulate_index_zone_barrier_message model_externals index z request
                = (UDS_SUCCESS, index)")
  case True
  then have "simulate_index_zone_barrier_message model_externals index z request
               = (UDS_SUCCESS, index\<lparr>components := components index\<rparr>)"
    by simp
  then show ?thesis ..
next
  case False
  then show ?thesis
    by (auto simp: simulate_index_zone_barrier_message_def Let_def split: if_splits)
qed

lemma search_name_in_open_chapter:
  assumes "entries (volume_index index) name
             = Some (newest_virtual_chapter (zones index ! z), False)"
      and "model_search_open_chapter (open_chapter (zones index ! z)) name = Some metadata"
      and "chunk_name request = name"
      and "type request = UDS_POST"
  shows "search_index_zone depth model_externals index z request
           = Some (UDS_SUCCESS,
                   request\<lparr>old_metadata := metadata,
                           location := UDS_LOCATION_IN_OPEN_CHAPTER\<rparr>,
                   index)"
  using assms
  by (simp add: search_index_zone_def search_index_zone_update_def
                search_index_zone_found_def get_record_from_zone_def store_metadata_def
                compute_index_region_def model_get_volume_index_record_def Let_def)

lemma search_name_in_writing_chapter:
  assumes entry: "entries (volume_index index) name = Some (c, False)"
      and newest: "newest_virtual_chapter (zones index ! z) = c + 1"
      and nowrap: "c + 1 \<noteq> 0"
      and written: "model_search_open_chapter (writing_chapter (zones index ! z)) name
                      = Some metadata"
      and size: "0 < length (slots (writing_chapter (zones index ! z)))"
        "length (slots (writing_chapter (zones index ! z))) < 2 ^ 32"
      and fresh: "slots (open_chapter (zones index ! z)) = []"
        "1 < capacity (open_chapter (zones index ! z))"
        "capacity (open_chapter (zones index ! z)) < 2 ^ 32"
      and z: "z < length (zones index)"
      and request: "chunk_name request = name" "type request = UDS_POST"
  shows "\<exists>request' index'.
           search_index_zone depth model_externals index z request
             = Some (UDS_SUCCESS, request', index')
           \<and> location request' \<noteq> UDS_LOCATION_UNKNOWN
           \<and> location request' \<noteq> UDS_LOCATION_UNAVAILABLE
           \<and> has_callback request' = has_callback request
           \<and> model_search_open_chapter (open_chapter (zones index' ! z)) name = Some metadata"
proof -
  let ?zone = "zones index ! z"
  let ?found = "request\<lparr>old_metadata := metadata\<rparr>"
  let ?located = "?found\<lparr>location := compute_index_region model_externals index z c\<rparr>"
  let ?vi = "(volume_index index)\<lparr>entries := (entries (volume_index index))
                                                (name \<mapsto> (c + 1, False))\<rparr>"
  from size have nonempty: "(of_nat (length (slots (writing_chapter ?zone))) :: 32 word) \<noteq> 0"
    by (intro of_nat_neq_0) simp_all
  from nowrap have positive: "0 < c + 1"
    by (simp add: word_greater_zero_iff)
  have other: "c \<noteq> c + 1"
    by simp
  from newest positive nonempty written request other
  have got: "get_record_from_zone model_externals index z request False c
               = (UDS_SUCCESS, True, ?found, components index)"
    by (simp add: get_record_from_zone_def store_metadata_def Let_def word_greater_zero_iff)
  from newest other have region: "compute_index_region model_externals index z c
                                    \<noteq> UDS_LOCATION_UNKNOWN"
    "compute_index_region model_externals index z c \<noteq> UDS_LOCATION_UNAVAILABLE"
    by (simp_all add: compute_index_region_def)
  from entry got newest request other
  have updated: "search_index_zone_update model_externals index z request
                   = Inr (UDS_SUCCESS, True, ?located, index\<lparr>volume_index := ?vi\<rparr>)"
    by (simp add: search_index_zone_update_def search_index_zone_found_def
                  model_get_volume_index_record_def
                  model_set_volume_index_record_chapter_def Let_def)
  let ?chapter = "(open_chapter ?zone)\<lparr>slots := [(name, metadata, False)]\<rparr>"
  from fresh have "capacity (open_chapter ?zone) - Suc 0 < 2 ^ 32"
    and "0 < capacity (open_chapter ?zone) - Suc 0"
    by simp_all
  then have room: "(of_nat (capacity (open_chapter ?zone) - Suc 0) :: 32 word) \<noteq> 0"
    by (intro of_nat_neq_0) simp_all
  from fresh have put: "model_put_open_chapter (open_chapter ?zone) name metadata
                          = (UDS_SUCCESS, of_nat (capacity (open_chapter ?zone) - Suc 0),
                             ?chapter)"
    by (simp add: model_put_open_chapter_def)
  let ?index' = "set_zone (index\<lparr>volume_index := ?vi\<rparr>) z (?zone\<lparr>open_chapter := ?chapter\<rparr>)"
  from put room request
  have "put_record_in_zone depth model_externals (index\<lparr>volume_index := ?vi\<rparr>) z ?located
          metadata = Some (UDS_SUCCESS, ?index')"
    by (simp add: put_record_in_zone_def Let_def)
  with updated request
  have "search_index_zone depth model_externals index z request
          = Some (UDS_SUCCESS, ?located, ?index')"
    by (simp add: search_index_zone_def search_index_zone_put_def Let_def)
  moreover from z have "model_search_open_chapter (open_chapter (zones ?index' ! z)) name
                          = Some metadata"
    by (simp add: model_search_open_chapter_def live_slot_def)
  ultimately show ?thesis
    using region by simp
qed

lemma post_via_search:
  assumes "simulate_index_zone_barrier_message model_externals (index\<lparr>need_to_save := True\<rparr>) z
             ((example_request UDS_POST name metadata)\<lparr>zone_number := z\<rparr>)
             = (UDS_SUCCESS, index0)"
      and "search_index_zone depth model_externals index0 z
             ((example_request UDS_POST name metadata)\<lparr>zone_number := z\<rparr>)
             = Some (result, request', index')"
      and "result \<noteq> UDS_QUEUED"
      and "has_callback request'"
  shows "\<exists>completed index''.
           post depth model_externals index z name metadata = Some (completed, index'')
           \<and> zones index'' = zones index' \<and> volume_index index'' = volume_index index'
           \<and> status completed = result
           \<and> found completed = (location request' \<noteq> UDS_LOCATION_UNKNOWN
                                 \<and> location request' \<noteq> UDS_LOCATION_UNAVAILABLE)"
  using assms
  by (simp add: post_def execute_zone_request_def dispatch_index_request_def
                handle_callbacks_def example_request_def Let_def)

lemma post_status:
  assumes "simulate_index_zone_barrier_message model_externals (index\<lparr>need_to_save := True\<rparr>) z
             ((example_request UDS_POST name metadata)\<lparr>zone_number := z\<rparr>)
             = (UDS_SUCCESS, index0)"
      and "search_index_zone depth model_externals index0 z
             ((example_request UDS_POST name metadata)\<lparr>zone_number := z\<rparr>)
             = Some (result, request', index')"
      and "has_callback request'"
  shows "map_option (\<lambda>(first, index1). status first)
           (post depth model_externals index z name metadata)
         = (if result = UDS_QUEUED then None else Some result)"
  using assms
  by (simp add: post_def execute_zone_request_def dispatch_index_request_def
                handle_callbacks_def example_request_def Let_def)

lemma second_post:
  assumes entry: "entries (volume_index index1) name = Some (c, False)"
      and z: "z < length (zones index1)"
      and place:
        "newest_virtual_chapter (zones index1 ! z) = c
         \<and> model_search_open_chapter (open_chapter (zones index1 ! z)) name = Some metadata
         \<or> newest_virtual_chapter (zones index1 ! z) = c + 1 \<and> c + 1 \<noteq> 0
           \<and> model_search_open_chapter (writing_chapter (zones index1 ! z)) name
               = Some metadata
           \<and> 0 < length (slots (writing_chapter (zones index1 ! z)))
           \<and> length (slots (writing_chapter (zones index1 ! z))) < 2 ^ 32
           \<and> slots (open_chapter (zones index1 ! z)) = []
           \<and> 1 < capacity (open_chapter (zones index1 ! z))
           \<and> capacity (open_chapter (zones index1 ! z)) < 2 ^ 32"
  shows "\<exists>second index2.
           post depth model_externals index1 z name metadata = Some (second, index2)
           \<and> status second = UDS_SUCCESS \<and> found second
           \<and> model_search_open_chapter (open_chapter (zones index2 ! z)) name = Some metadata"
proof -
  let ?r = "(example_request UDS_POST name metadata)\<lparr>zone_number := z\<rparr>"
  have r: "chunk_name ?r = name" "type ?r = UDS_POST" "has_callback ?r"
    by (simp_all add: example_request_def)
  obtain x where
    barrier: "simulate_index_zone_barrier_message model_externals
                (index1\<lparr>need_to_save := True\<rparr>) z ?r
                = (UDS_SUCCESS, index1\<lparr>need_to_save := True, components := x\<rparr>)"
    using barrier_model [of "index1\<lparr>need_to_save := True\<rparr>" z ?r] by auto
  let ?B = "index1\<lparr>need_to_save := True, components := x\<rparr>"
  have same: "zones ?B = zones index1" "volume_index ?B = volume_index index1"
    by simp_all
  have "\<exists>request' index'.
          search_index_zone depth model_externals ?B z ?r = Some (UDS_SUCCESS, request', index')
          \<and> location request' \<noteq> UDS_LOCATION_UNKNOWN
          \<and> location request' \<noteq> UDS_LOCATION_UNAVAILABLE
          \<and> has_callback request'
          \<and> model_search_open_chapter (open_chapter (zones index' ! z)) name = Some metadata"
  proof (cases "newest_virtual_chapter (zones index1 ! z) = c")
    case True
    with place have "model_search_open_chapter (open_chapter (zones index1 ! z)) name
                       = Some metadata"
      by auto
    with entry True have
      "search_index_zone depth model_externals ?B z ?r
         = Some (UDS_SUCCESS,
                 ?r\<lparr>old_metadata := metadata, location := UDS_LOCATION_IN_OPEN_CHAPTER\<rparr>, ?B)"
      by (intro search_name_in_open_chapter) (simp_all add: r)
    moreover have "model_search_open_chapter (open_chapter (zones ?B ! z)) name = Some metadata"
      using \<open>model_search_open_chapter (open_chapter (zones index1 ! z)) name = Some metadata\<close>
      by simp
    ultimately show ?thesis
      using r by simp
  next
    case False
    with place have rolled: "newest_virtual_chapter (zones index1 ! z) = c + 1" "c + 1 \<noteq> 0"
      "model_search_open_chapter (writing_chapter (zones index1 ! z)) name = Some metadata"
      "0 < length (slots (writing_chapter (zones index1 ! z)))"
      "length (slots (writing_chapter (zones index1 ! z))) < 2 ^ 32"
      "slots (open_chapter (zones index1 ! z)) = []"
      "1 < capacity (open_chapter (zones index1 ! z))"
      "capacity (open_chapter (zones index1 ! z)) < 2 ^ 32"
      by auto
    have "\<exists>request' index'.
            search_index_zone depth model_externals ?B z ?r
              = Some (UDS_SUCCESS, request', index')
            \<and> location request' \<noteq> UDS_LOCATION_UNKNOWN
            \<and> location request' \<noteq> UDS_LOCATION_UNAVAILABLE
            \<and> has_callback request' = has_callback ?r
            \<and> model_search_open_chapter (open_chapter (zones index' ! z)) name = Some metadata"
      using entry rolled z by (intro search_name_in_writing_chapter [where c = c]) (simp_all add: r)
    with r(3) show ?thesis
      by auto
  qed
  then obtain request' index' where
    searched: "search_index_zone depth model_externals ?B z ?r
                 = Some (UDS_SUCCESS, request', index')"
    and located: "location request' \<noteq> UDS_LOCATION_UNKNOWN"
      "location request' \<noteq> UDS_LOCATION_UNAVAILABLE"
    and callback: "has_callback request'"
    and mapped: "model_search_open_chapter (open_chapter (zones index' ! z)) name
                   = Some metadata"
    by blast
  from barrier searched _ callback
  have "\<exists>completed index''.
           post depth model_externals index1 z name metadata = Some (completed, index'')
           \<and> zones index'' = zones index' \<and> volume_index index'' = volume_index index'
           \<and> status completed = UDS_SUCCESS
           \<and> found completed = (location request' \<noteq> UDS_LOCATION_UNKNOWN
                                 \<and> location request' \<noteq> UDS_LOCATION_UNAVAILABLE)"
    by (rule post_via_search) simp
  with located mapped show ?thesis
    by auto
qed

lemma search_overflowing_name:
  assumes "name_absent index name"
      and "list_full (volume_index index) name"
      and "chunk_name request = name"
      and "type request = UDS_POST"
  shows "search_index_zone depth model_externals index z request
           = Some (UDS_SUCCESS, request, index)"
proof -
  from assms(1) have "find (\<lambda>c. chapter_records (components index)
                                   (model_physical (components index) c) name \<noteq> None)
                        (sparse_cache (components index)) = None"
    by (simp add: name_absent_def)
  then have cache: "model_search_sparse_cache (components index) (zones index ! z) name
                      UINT64_MAX = (UDS_SUCCESS, UINT64_MAX, - 1, components index)"
    by (simp add: model_search_sparse_cache_def)
  from assms cache
  have "search_index_zone_update model_externals index z request
          = Inr (UDS_OVERFLOW, False, request, index)"
    by (simp add: search_index_zone_update_def search_index_zone_missing_def
                  search_sparse_cache_in_zone_def model_get_volume_index_record_def
                  model_put_volume_index_record_def name_absent_def Let_def)
  then show ?thesis
    by (simp add: search_index_zone_def search_index_zone_put_def)
qed

lemma overflowing_post:
  assumes absent: "name_absent index name"
      and full: "list_full (volume_index index) name"
  shows "\<exists>completed index1.
           post depth model_externals index z name metadata = Some (completed, index1)
           \<and> status completed = UDS_SUCCESS \<and> \<not> found completed
           \<and> zones index1 = zones index \<and> volume_index index1 = volume_index index
           \<and> name_absent index1 name"
proof -
  let ?r = "(example_request UDS_POST name metadata)\<lparr>zone_number := z\<rparr>"
  let ?S = "index\<lparr>need_to_save := True\<rparr>"
  have r: "chunk_name ?r = name" "type ?r = UDS_POST" "has_callback ?r"
    "location ?r = UDS_LOCATION_UNKNOWN"
    by (simp_all add: example_request_def)
  from absent full have absent': "name_absent ?S name" and full': "list_full (volume_index ?S) name"
    and "entries (volume_index ?S) (chunk_name ?r) = None"
    by (simp_all add: name_absent_def r)
  then have barrier: "simulate_index_zone_barrier_message model_externals ?S z ?r
                        = (UDS_SUCCESS, ?S)"
    by (intro barrier_absent_name)
  from absent' full' r(1,2)
  have searched: "search_index_zone depth model_externals ?S z ?r = Some (UDS_SUCCESS, ?r, ?S)"
    by (rule search_overflowing_name)
  from barrier searched r absent show ?thesis
    by (simp add: post_def execute_zone_request_def dispatch_index_request_def
                  handle_callbacks_def example_request_def name_absent_def
                  model_physical_def Let_def)
qed

lemma overflowing_post_twice:
  assumes absent: "name_absent index name"
      and full: "list_full (volume_index index) name"
  shows "\<exists>second index2.
           post_twice depth model_externals index z name metadata = Some (second, index2)
           \<and> status second = UDS_SUCCESS \<and> \<not> found second
           \<and> zones index2 = zones index \<and> volume_index index2 = volume_index index"
proof -
  from overflowing_post [OF absent full, of depth z metadata] obtain first index1 where
    first: "post depth model_externals index z name metadata = Some (first, index1)"
    and same: "zones index1 = zones index" "volume_index index1 = volume_index index"
    and absent1: "name_absent index1 name"
    by blast
  from full same have full1: "list_full (volume_index index1) name"
    by simp
  from overflowing_post [OF absent1 full1, of depth z metadata] obtain second index2 where
    "post depth model_externals index1 z name metadata = Some (second, index2)"
    and "status second = UDS_SUCCESS" "\<not> found second"
    and "zones index2 = zones index1" "volume_index index2 = volume_index index1"
    by blast
  with first same show ?thesis
    by (simp add: post_twice_def)
qed

lemma first_post:
  assumes absent: "name_absent index name"
      and room: "\<not> list_full (volume_index index) name"
      and stored: "map_option (\<lambda>(first, index1). status first)
                     (post depth model_externals index z name metadata) = Some UDS_SUCCESS"
      and z: "z < length (zones index)"
      and closing:
        "fst (snd (model_put_open_chapter (open_chapter (zones index ! z)) name metadata)) = 0
           \<longrightarrow> length (slots (open_chapter (zones index ! z)))
                 \<le> capacity (open_chapter (zones index ! z))
               \<and> capacity (open_chapter (zones index ! z)) < 2 ^ 32
               \<and> 1 < capacity (writing_chapter (zones index ! z))
               \<and> capacity (writing_chapter (zones index ! z)) < 2 ^ 32
               \<and> 1 < unat (index_chapters (volume_index index))
               \<and> newest_virtual_chapter (zones index ! z) + 1 \<noteq> 0"
  shows "\<exists>first index1 c.
           post depth model_externals index z name metadata = Some (first, index1)
           \<and> entries (volume_index index1) name = Some (c, False)
           \<and> z < length (zones index1)
           \<and> (newest_virtual_chapter (zones index1 ! z) = c
                \<and> model_search_open_chapter (open_chapter (zones index1 ! z)) name
                    = Some metadata
              \<or> newest_virtual_chapter (zones index1 ! z) = c + 1 \<and> c + 1 \<noteq> 0
                \<and> model_search_open_chapter (writing_chapter (zones index1 ! z)) name
                    = Some metadata
                \<and> 0 < length (slots (writing_chapter (zones index1 ! z)))
                \<and> length (slots (writing_chapter (zones index1 ! z))) < 2 ^ 32
                \<and> slots (open_chapter (zones index1 ! z)) = []
                \<and> 1 < capacity (open_chapter (zones index1 ! z))
                \<and> capacity (open_chapter (zones index1 ! z)) < 2 ^ 32)"
proof -
  let ?r = "(example_request UDS_POST name metadata)\<lparr>zone_number := z\<rparr>"
  let ?S = "index\<lparr>need_to_save := True\<rparr>"
  let ?c = "newest_virtual_chapter (zones index ! z)"
  let ?vi = "(volume_index index)\<lparr>entries := (entries (volume_index index))
                                                (name \<mapsto> (?c, False))\<rparr>"
  let ?V = "?S\<lparr>volume_index := ?vi\<rparr>"
  have r: "chunk_name ?r = name" "type ?r = UDS_POST" "has_callback ?r" "has_router ?r"
    "new_metadata ?r = metadata"
    by (simp_all add: example_request_def)
  from absent have absent': "name_absent ?S name"
    and "entries (volume_index ?S) (chunk_name ?r) = None"
    by (simp_all add: name_absent_def r)
  then have barrier: "simulate_index_zone_barrier_message model_externals ?S z ?r
                        = (UDS_SUCCESS, ?S)"
    by (intro barrier_absent_name)
  from absent' room have
    "search_index_zone_update model_externals ?S z ?r
       = Inr (UDS_SUCCESS, False, ?r,
              ?S\<lparr>volume_index := (volume_index ?S)
                   \<lparr>entries := (entries (volume_index ?S))
                      (name \<mapsto> (newest_virtual_chapter (zones ?S ! z), False))\<rparr>\<rparr>)"
    by (intro search_absent_name) (simp_all add: r)
  then have updated: "search_index_zone_update model_externals ?S z ?r
                        = Inr (UDS_SUCCESS, False, ?r, ?V)"
    by simp
  from r(4) have "put_record_in_zone depth model_externals ?V z ?r metadata \<noteq> None"
    by (rule put_record_in_zone_router)
  then obtain result P where
    put: "put_record_in_zone depth model_externals ?V z ?r metadata = Some (result, P)"
    by (cases "put_record_in_zone depth model_externals ?V z ?r metadata") auto
  with updated have searched: "search_index_zone depth model_externals ?S z ?r
                                 = Some (result, ?r, P)"
    by (simp add: search_index_zone_def search_index_zone_put_def r)
  from barrier searched r(3)
  have "map_option (\<lambda>(first, index1). status first)
          (post depth model_externals index z name metadata)
        = (if result = UDS_QUEUED then None else Some result)"
    by (rule post_status)
  with stored have result: "result = UDS_SUCCESS"
    by (simp split: if_splits)
  from barrier searched _ r(3)
  have "\<exists>completed index''.
           post depth model_externals index z name metadata = Some (completed, index'')
           \<and> zones index'' = zones P \<and> volume_index index'' = volume_index P
           \<and> status completed = result
           \<and> found completed = (location ?r \<noteq> UDS_LOCATION_UNKNOWN
                                 \<and> location ?r \<noteq> UDS_LOCATION_UNAVAILABLE)"
    by (rule post_via_search) (simp add: result)
  then obtain first index1 where
    posted: "post depth model_externals index z name metadata = Some (first, index1)"
    and same: "zones index1 = zones P" "volume_index index1 = volume_index P"
    by blast
  let ?zone = "zones index ! z"
  obtain pr remaining filled where
    mput: "model_put_open_chapter (open_chapter ?zone) name metadata
             = (pr, remaining, filled)"
    by (cases "model_put_open_chapter (open_chapter ?zone) name metadata")
  let ?Z = "set_zone ?V z (?zone\<lparr>open_chapter := filled\<rparr>)"
  from put mput result have pr: "pr = UDS_SUCCESS"
    by (auto simp: put_record_in_zone_def Let_def r split: if_splits)
  from mput pr have mapped: "model_search_open_chapter filled name = Some metadata"
    by (auto dest: model_put_then_search)
  show ?thesis
  proof (cases "remaining = 0")
    case False
    with put mput pr have "P = ?Z"
      by (simp add: put_record_in_zone_def Let_def r)
    with same z mapped have "entries (volume_index index1) name = Some (?c, False)"
      and "z < length (zones index1)"
      and "newest_virtual_chapter (zones index1 ! z) = ?c"
      and "model_search_open_chapter (open_chapter (zones index1 ! z)) name = Some metadata"
      by simp_all
    with posted show ?thesis
      by blast
  next
    case True
    with mput closing
    have sizes: "length (slots (open_chapter (zones index ! z)))
                    \<le> capacity (open_chapter (zones index ! z))"
        "capacity (open_chapter (zones index ! z)) < 2 ^ 32"
        "1 < capacity (writing_chapter (zones index ! z))"
        "capacity (writing_chapter (zones index ! z)) < 2 ^ 32"
      and chapters: "1 < unat (index_chapters (volume_index index))"
        "newest_virtual_chapter (zones index ! z) + 1 \<noteq> 0"
      by simp_all
    from mput pr sizes(1) have size: "capacity filled = capacity (open_chapter ?zone)"
      "0 < length (slots filled)" "length (slots filled) \<le> capacity (open_chapter ?zone)"
      by (auto dest: model_put_size)
    from True put mput pr have
      opened: "open_next_chapter depth model_externals ?Z z (Some ?r) = Some (UDS_SUCCESS, P)"
      by (simp add: put_record_in_zone_def Let_def r result)
    from z have z': "z < length (zones ?Z)"
      by simp
    from open_next_chapter_router_zone [OF opened r(4) z'] z
    have rolled: "open_chapter (zones P ! z) = model_reset_open_chapter (writing_chapter ?zone)"
      "writing_chapter (zones P ! z) = filled"
      "newest_virtual_chapter (zones P ! z) = ?c + 1"
      "volume_index P = model_set_volume_index_open_chapter ?vi (?c + 1)"
      "length (zones P) = length (zones index)"
      by simp_all
    from chapters(2) have "unat (?c + 1) = Suc (unat ?c)"
      using unatSuc [of ?c] by (simp add: add.commute)
    with chapters(1) rolled(4)
    have "entries (volume_index P) name = Some (?c, False)"
      by (simp add: model_set_volume_index_open_chapter_def)
    with same rolled z mapped size sizes chapters(2)
    have "entries (volume_index index1) name = Some (?c, False)"
      and "z < length (zones index1)"
      and "newest_virtual_chapter (zones index1 ! z) = ?c + 1 \<and> ?c + 1 \<noteq> 0
           \<and> model_search_open_chapter (writing_chapter (zones index1 ! z)) name
               = Some metadata
           \<and> 0 < length (slots (writing_chapter (zones index1 ! z)))
           \<and> length (slots (writing_chapter (zones index1 ! z))) < 2 ^ 32
           \<and> slots (open_chapter (zones index1 ! z)) = []
           \<and> 1 < capacity (open_chapter (zones index1 ! z))
           \<and> capacity (open_chapter (zones index1 ! z)) < 2 ^ 32"
      by (simp_all add: model_reset_open_chapter_def)
    with posted show ?thesis
      by blast
  qed
qed

text \<open>
  Claim C7, as stated: on an index where the name is absent, the second of two posts of the
  name completes with \<open>found = true\<close>. It fails on the example index with full delta
  lists: the insert of the first post overflows, the overflow is swallowed and nothing is
  stored, and the second post again finds nothing.
\<close>

theorem second_post_after_overflow_not_found:
  "map_option (\<lambda>(second, index2). (status second, found second))
     (post_twice 0 model_externals full_index 0 N0 M0)
   = Some (UDS_SUCCESS, False)"
  by code_simp

text \<open>
  Claim C7, amended. The name is absent from the index (from the volume index and from the
  chapters in the sparse cache) and the post is executed by a zone of the index.
  \<^item> When the delta list of the name is not full and the first post completes with
    \<open>UDS_SUCCESS\<close>, the same post executed again completes with \<open>UDS_SUCCESS\<close> and
    \<open>found = true\<close> and leaves the open chapter mapping the name to the metadata. When
    the first post fills the open chapter (the put leaves no slot) and so closes it, this
    holds provided that the open chapter holds no more records than its capacity, which is
    below \<open>2^32\<close>, the other chapter of the zone has a capacity of at least 2 and below
    \<open>2^32\<close>, the volume index covers at least two chapters, and the number of the next
    chapter does not wrap around 64 bits.
  \<^item> When the delta list of the name is full, the insert of the first post overflows, the
    overflow is swallowed and nothing is stored; the second post completes with
    \<open>UDS_SUCCESS\<close> and \<open>found = false\<close>, and the zones and the volume index are as
    they were.
\<close>

theorem second_post_finds_name:
  assumes absent: "name_absent index name"
      and z: "z < length (zones index)"
  shows "(\<not> list_full (volume_index index) name
          \<and> map_option (\<lambda>(first, index1). status first)
                (post depth model_externals index z name metadata) = Some UDS_SUCCESS
          \<and> (fst (snd (model_put_open_chapter (open_chapter (zones index ! z)) name metadata)) = 0
               \<longrightarrow> length (slots (open_chapter (zones index ! z)))
                     \<le> capacity (open_chapter (zones index ! z))
                   \<and> capacity (open_chapter (zones index ! z)) < 2 ^ 32
                   \<and> 1 < capacity (writing_chapter (zones index ! z))
                   \<and> capacity (writing_chapter (zones index ! z)) < 2 ^ 32
                   \<and> 1 < unat (index_chapters (volume_index index))
                   \<and> newest_virtual_chapter (zones index ! z) + 1 \<noteq> 0) \<longrightarrow>
            (\<exists>second index2.
               post_twice depth model_externals index z name metadata = Some (second, index2)
               \<and> status second = UDS_SUCCESS \<and> found second
               \<and> model_search_open_chapter (open_chapter (zones index2 ! z)) name
                   = Some metadata))
         \<and> (list_full (volume_index index) name \<longrightarrow>
              (\<exists>second index2.
                 post_twice depth model_externals index z name metadata = Some (second, index2)
                 \<and> status second = UDS_SUCCESS \<and> \<not> found second
                 \<and> zones index2 = zones index \<and> volume_index index2 = volume_index index))"
proof (intro conjI impI)
  assume stored: "\<not> list_full (volume_index index) name
          \<and> map_option (\<lambda>(first, index1). status first)
                (post depth model_externals index z name metadata) = Some UDS_SUCCESS
          \<and> (fst (snd (model_put_open_chapter (open_chapter (zones index ! z)) name metadata)) = 0
               \<longrightarrow> length (slots (open_chapter (zones index ! z)))
                     \<le> capacity (open_chapter (zones index ! z))
                   \<and> capacity (open_chapter (zones index ! z)) < 2 ^ 32
                   \<and> 1 < capacity (writing_chapter (zones index ! z))
                   \<and> capacity (writing_chapter (zones index ! z)) < 2 ^ 32
                   \<and> 1 < unat (index_chapters (volume_index index))
                   \<and> newest_virtual_chapter (zones index ! z) + 1 \<noteq> 0)"
  from first_post [OF absent stored [THEN conjunct1] stored [THEN conjunct2, THEN conjunct1] z
                      stored [THEN conjunct2, THEN conjunct2]]
  obtain first index1 c where
    posted: "post depth model_externals index z name metadata = Some (first, index1)"
    and entry: "entries (volume_index index1) name = Some (c, False)"
    and z1: "z < length (zones index1)"
    and place:
        "newest_virtual_chapter (zones index1 ! z) = c
         \<and> model_search_open_chapter (open_chapter (zones index1 ! z)) name = Some metadata
         \<or> newest_virtual_chapter (zones index1 ! z) = c + 1 \<and> c + 1 \<noteq> 0
           \<and> model_search_open_chapter (writing_chapter (zones index1 ! z)) name
               = Some metadata
           \<and> 0 < length (slots (writing_chapter (zones index1 ! z)))
           \<and> length (slots (writing_chapter (zones index1 ! z))) < 2 ^ 32
           \<and> slots (open_chapter (zones index1 ! z)) = []
           \<and> 1 < capacity (open_chapter (zones index1 ! z))
           \<and> capacity (open_chapter (zones index1 ! z)) < 2 ^ 32"
    by blast
  from second_post [OF entry z1 place, of depth] posted
  show "\<exists>second index2.
          post_twice depth model_externals index z name metadata = Some (second, index2)
          \<and> status second = UDS_SUCCESS \<and> found second
          \<and> model_search_open_chapter (open_chapter (zones index2 ! z)) name = Some metadata"
    by (simp add: post_twice_def)
next
  assume "list_full (volume_index index) name"
  with absent
  show "\<exists>second index2.
          post_twice depth model_externals index z name metadata = Some (second, index2)
          \<and> status second = UDS_SUCCESS \<and> \<not> found second
          \<and> zones index2 = zones index \<and> volume_index index2 = volume_index index"
    by (rule overflowing_post_twice)
qed

theorem second_post_finds_name_witness:
  "name_absent example_index N0 \<and> \<not> list_full (volume_index example_index) N0
   \<and> map_option (\<lambda>(first, index1). status first)
         (post 0 model_externals example_index 0 N0 M0) = Some UDS_SUCCESS
   \<and> fst (snd (model_put_open_chapter (open_chapter (zones example_index ! 0)) N0 M0)) = 31
   \<and> (\<exists>second index2.
         post_twice 0 model_externals example_index 0 N0 M0 = Some (second, index2)
         \<and> status second = UDS_SUCCESS \<and> found second
         \<and> model_search_open_chapter (open_chapter (zones index2 ! 0)) N0 = Some M0)
   \<and> name_absent closing_index N0 \<and> \<not> list_full (volume_index closing_index) N0
   \<and> map_option (\<lambda>(first, index1). status first)
         (post 0 model_externals closing_index 0 N0 M0) = Some UDS_SUCCESS
   \<and> fst (snd (model_put_open_chapter (open_chapter (zones closing_index ! 0)) N0 M0)) = 0
   \<and> (\<exists>second index2.
         post_twice 0 model_externals closing_index 0 N0 M0 = Some (second, index2)
         \<and> status second = UDS_SUCCESS \<and> found second
         \<and> model_search_open_chapter (open_chapter (zones index2 ! 0)) N0 = Some M0)
   \<and> name_absent full_index N0 \<and> list_full (volume_index full_index) N0
   \<and> (\<exists>second index2.
         post_twice 0 model_externals full_index 0 N0 M0 = Some (second, index2)
         \<and> status second = UDS_SUCCESS \<and> \<not> found second
         \<and> zones index2 = zones full_index \<and> volume_index index2 = volume_index full_index)"
proof -
  have absent: "name_absent example_index N0" "name_absent closing_index N0"
      "name_absent full_index N0"
    and room: "\<not> list_full (volume_index example_index) N0"
      "\<not> list_full (volume_index closing_index) N0"
    and full: "list_full (volume_index full_index) N0"
    and z: "0 < length (zones example_index)" "0 < length (zones closing_index)"
      "0 < length (zones full_index)"
    and sizes: "length (slots (open_chapter (zones closing_index ! 0)))
                  \<le> capacity (open_chapter (zones closing_index ! 0))
                \<and> capacity (open_chapter (zones closing_index ! 0)) < 2 ^ 32
                \<and> 1 < capacity (writing_chapter (zones closing_index ! 0))
                \<and> capacity (writing_chapter (zones closing_index ! 0)) < 2 ^ 32
                \<and> 1 < unat (index_chapters (volume_index closing_index))
                \<and> newest_virtual_chapter (zones closing_index ! 0) + 1 \<noteq> 0"
    by (simp_all add: name_absent_def full_index_def closing_index_def example_defs)
  have left: "fst (snd (model_put_open_chapter (open_chapter (zones example_index ! 0)) N0 M0))
                = 31"
    and left': "fst (snd (model_put_open_chapter (open_chapter (zones closing_index ! 0)) N0 M0))
                  = 0"
    by (simp_all add: closing_index_def example_defs model_put_open_chapter_def)
  have stored: "map_option (\<lambda>(first, index1). status first)
                  (post 0 model_externals example_index 0 N0 M0) = Some UDS_SUCCESS"
    and stored': "map_option (\<lambda>(first, index1). status first)
                    (post 0 model_externals closing_index 0 N0 M0) = Some UDS_SUCCESS"
    by code_simp+
  have open_left: "fst (snd (model_put_open_chapter (open_chapter (zones example_index ! 0))
                               N0 M0)) \<noteq> 0"
    using left by simp
  from second_post_finds_name [OF absent(1) z(1), of 0 M0, THEN conjunct1] room(1) stored
    open_left
  have one: "\<exists>second index2.
               post_twice 0 model_externals example_index 0 N0 M0 = Some (second, index2)
               \<and> status second = UDS_SUCCESS \<and> found second
               \<and> model_search_open_chapter (open_chapter (zones index2 ! 0)) N0 = Some M0"
    by blast
  from second_post_finds_name [OF absent(2) z(2), of 0 M0, THEN conjunct1] room(2) stored'
    sizes
  have two: "\<exists>second index2.
               post_twice 0 model_externals closing_index 0 N0 M0 = Some (second, index2)
               \<and> status second = UDS_SUCCESS \<and> found second
               \<and> model_search_open_chapter (open_chapter (zones index2 ! 0)) N0 = Some M0"
    by blast
  from second_post_finds_name [OF absent(3) z(3), of 0 M0, THEN conjunct2] full
  have three: "\<exists>second index2.
         post_twice 0 model_externals full_index 0 N0 M0 = Some (second, index2)
         \<and> status second = UDS_SUCCESS \<and> \<not> found second
         \<and> zones index2 = zones full_index \<and> volume_index index2 = volume_index full_index"
    by blast
  from absent room full stored stored' left left' one two three show ?thesis
    by (simp only: simp_thms)
qed

end
